theory Spec2Isabelle
  imports Complex_Main "HOL-Library.Word"
begin

section \<open>The PatchControlPoints sample: data model\<close>

text \<open>
  The model follows \<^verbatim>\<open>samples/extensions/patch_control_points/patch_control_points.cpp\<close>.
  Every member function of the class is a HOL function on the record \<open>sample\<close> of the
  object's fields. A function returns either an error (the call aborted or threw) or the
  updated object together with the list of calls it performed, in program order.

  \<^item> \<open>float\<close> values are only stored, copied and passed on by this file (the two casts of
    \<open>width\<close> and \<open>height\<close> are kept as call arguments, uncomputed), so a \<open>float\<close> is
    the decimal value of the literal that produced it.
  \<^item> A native handle is a number, \<open>VK_NULL_HANDLE\<close> being 0.
  \<^item> A \<^verbatim>\<open>std::unique_ptr\<close> is an \<open>option\<close>; dereferencing \<open>None\<close> and indexing a vector
    out of range are undefined behaviour in the source and the error
    \<open>Undefined_behaviour\<close> in the model.
\<close>

type_synonym float = real
type_synonym handle = nat
type_synonym vec3 = "float \<times> float \<times> float"
type_synonym mat4 = "float list"

definition VK_NULL_HANDLE :: handle where
  "VK_NULL_HANDLE = 0"

datatype VkResult = VK_SUCCESS | VK_ERROR_FEATURE_NOT_PRESENT | VK_RESULT_OTHER int

datatype error =
    VK_CHECK_failed VkResult
  | VulkanException VkResult string
  | Undefined_behaviour

datatype extension_name =
    VK_KHR_GET_PHYSICAL_DEVICE_PROPERTIES_2_EXTENSION_NAME
  | VK_EXT_EXTENDED_DYNAMIC_STATE_2_EXTENSION_NAME
  | VK_EXT_EXTENDED_DYNAMIC_STATE_EXTENSION_NAME

subsection \<open>Enumerations of the native API that the file names\<close>

datatype VkPrimitiveTopology = VK_PRIMITIVE_TOPOLOGY_TRIANGLE_LIST | VK_PRIMITIVE_TOPOLOGY_PATCH_LIST
datatype VkPolygonMode = VK_POLYGON_MODE_FILL | VK_POLYGON_MODE_LINE
datatype VkCullMode = VK_CULL_MODE_NONE | VK_CULL_MODE_BACK_BIT
datatype VkFrontFace = VK_FRONT_FACE_COUNTER_CLOCKWISE | VK_FRONT_FACE_CLOCKWISE
datatype VkColorComponent =
  VK_COLOR_COMPONENT_R_BIT | VK_COLOR_COMPONENT_G_BIT | VK_COLOR_COMPONENT_B_BIT | VK_COLOR_COMPONENT_A_BIT
datatype VkBlendOp = VK_BLEND_OP_ADD | VK_BLEND_OP_SUBTRACT
datatype VkBlendFactor =
  VK_BLEND_FACTOR_ZERO | VK_BLEND_FACTOR_ONE | VK_BLEND_FACTOR_SRC_ALPHA | VK_BLEND_FACTOR_ONE_MINUS_SRC_ALPHA
datatype VkCompareOp = VK_COMPARE_OP_LESS | VK_COMPARE_OP_GREATER
datatype VkSampleCount = VK_SAMPLE_COUNT_1_BIT
datatype VkDynamicState =
  VK_DYNAMIC_STATE_VIEWPORT | VK_DYNAMIC_STATE_SCISSOR | VK_DYNAMIC_STATE_PATCH_CONTROL_POINTS_EXT
datatype VkShaderStage =
    VK_SHADER_STAGE_VERTEX_BIT
  | VK_SHADER_STAGE_TESSELLATION_CONTROL_BIT
  | VK_SHADER_STAGE_TESSELLATION_EVALUATION_BIT
  | VK_SHADER_STAGE_FRAGMENT_BIT
datatype VkFormat = VK_FORMAT_R32G32B32_SFLOAT
datatype VkVertexInputRate = VK_VERTEX_INPUT_RATE_VERTEX
datatype VkDescriptorType = VK_DESCRIPTOR_TYPE_UNIFORM_BUFFER | VK_DESCRIPTOR_TYPE_COMBINED_IMAGE_SAMPLER
datatype VkBufferUsage = VK_BUFFER_USAGE_UNIFORM_BUFFER_BIT
datatype VmaMemoryUsage = VMA_MEMORY_USAGE_CPU_TO_GPU
datatype VkPipelineBindPoint = VK_PIPELINE_BIND_POINT_GRAPHICS
datatype VkSubpassContents = VK_SUBPASS_CONTENTS_INLINE
datatype CameraType = LookAt | FirstPerson
datatype VkStructureType =
    VK_STRUCTURE_TYPE_PHYSICAL_DEVICE_EXTENDED_DYNAMIC_STATE_2_FEATURES_EXT
  | VK_STRUCTURE_TYPE_PHYSICAL_DEVICE_EXTENDED_DYNAMIC_STATE_FEATURES_EXT

text \<open>The operands of \<^verbatim>\<open>sizeof\<close> and \<^verbatim>\<open>offsetof\<close>; the layout of the structs is not modelled.\<close>

datatype layout_constant =
  Sizeof_ubo_common | Sizeof_ubo_tess | Sizeof_push_const_block | Sizeof_Vertex | Offsetof_Vertex_normal | Zero_offset

subsection \<open>The object's fields\<close>

record ubo_common_t =
  projection :: mat4
  view :: mat4

record ubo_tess_t =
  tessellation_factor :: float

record 'a buffer =
  buffer_size :: layout_constant
  buffer_usage :: VkBufferUsage
  memory_usage :: VmaMemoryUsage
  contents :: "'a option"

record camera_t =
  camera_type :: CameraType
  updated :: bool
  matrices_perspective :: mat4
  matrices_view :: mat4

text \<open>A mesh or a shader stage that the framework loads is identified by what the file
  passes to the loader.\<close>

datatype sub_mesh = Loaded_model string

record gpu_features =
  tessellationShader :: bool
  fillModeNonSolid :: bool
  samplerAnisotropy :: bool

record VkSubmitInfo =
  commandBufferCount :: "32 word"
  pCommandBuffers :: "handle list"

subsection \<open>Structures passed to the native API\<close>

text \<open>
  A structure holds the members that the file sets or passes to the framework's
  initializer. A pointer member holds the value it points to at the moment of the native
  call that reads it, which is the moment the model builds the structure.
\<close>

record VkPipelineInputAssemblyStateCreateInfo =
  topology :: VkPrimitiveTopology
  input_assembly_flags :: "32 word"
  primitiveRestartEnable :: bool

record VkPipelineRasterizationStateCreateInfo =
  polygonMode :: VkPolygonMode
  cullMode :: VkCullMode
  frontFace :: VkFrontFace
  rasterization_flags :: "32 word"
  depthBiasConstantFactor :: "float option"
  depthBiasSlopeFactor :: "float option"

record VkPipelineColorBlendAttachmentState =
  colorWriteMask :: "VkColorComponent set"
  blendEnable :: bool
  colorBlendOp :: "VkBlendOp option"
  srcColorBlendFactor :: "VkBlendFactor option"
  dstColorBlendFactor :: "VkBlendFactor option"
  alphaBlendOp :: "VkBlendOp option"
  srcAlphaBlendFactor :: "VkBlendFactor option"
  dstAlphaBlendFactor :: "VkBlendFactor option"

record VkPipelineColorBlendStateCreateInfo =
  attachmentCount :: "32 word"
  pAttachments :: VkPipelineColorBlendAttachmentState

record VkPipelineDepthStencilStateCreateInfo =
  depthTestEnable :: bool
  depthWriteEnable :: bool
  depthCompareOp :: VkCompareOp

record VkPipelineViewportStateCreateInfo =
  viewportCount :: "32 word"
  scissorCount :: "32 word"
  viewport_flags :: "32 word"

record VkPipelineMultisampleStateCreateInfo =
  rasterizationSamples :: VkSampleCount
  multisample_flags :: "32 word"

record VkPipelineTessellationStateCreateInfo =
  patchControlPoints :: "32 word"

record VkPipelineDynamicStateCreateInfo =
  pDynamicStates :: "VkDynamicState list"
  dynamicStateCount :: "32 word"
  dynamic_flags :: "32 word"

record VkVertexInputBindingDescription =
  input_binding :: "32 word"
  stride :: layout_constant
  inputRate :: VkVertexInputRate

record VkVertexInputAttributeDescription =
  attribute_binding :: "32 word"
  location :: "32 word"
  format :: VkFormat
  attribute_offset :: layout_constant

record VkPipelineVertexInputStateCreateInfo =
  vertexBindingDescriptionCount :: "32 word"
  pVertexBindingDescriptions :: "VkVertexInputBindingDescription list"
  vertexAttributeDescriptionCount :: "32 word"
  pVertexAttributeDescriptions :: "VkVertexInputAttributeDescription list"

record VkPipelineShaderStageCreateInfo =
  shader_file :: string
  shader_stage :: VkShaderStage

record VkGraphicsPipelineCreateInfo =
  pNext :: handle
  renderPass :: handle
  pInputAssemblyState :: VkPipelineInputAssemblyStateCreateInfo
  pRasterizationState :: VkPipelineRasterizationStateCreateInfo
  pColorBlendState :: VkPipelineColorBlendStateCreateInfo
  pMultisampleState :: VkPipelineMultisampleStateCreateInfo
  pViewportState :: VkPipelineViewportStateCreateInfo
  pDepthStencilState :: VkPipelineDepthStencilStateCreateInfo
  pDynamicState :: VkPipelineDynamicStateCreateInfo
  pVertexInputState :: VkPipelineVertexInputStateCreateInfo
  pTessellationState :: "VkPipelineTessellationStateCreateInfo option"
  stageCount :: "32 word"
  pStages :: "VkPipelineShaderStageCreateInfo option list"
  layout :: handle

datatype VkClearValue = Clear_color "float list" | Clear_depthStencil float "32 word"

record VkRenderPassBeginInfo =
  begin_renderPass :: handle
  framebuffer :: handle
  renderArea_extent_width :: "32 word"
  renderArea_extent_height :: "32 word"
  clearValueCount :: "32 word"
  pClearValues :: "VkClearValue list"

record VkDescriptorPoolSize =
  pool_descriptor_type :: VkDescriptorType
  pool_descriptor_count :: "32 word"

record VkDescriptorPoolCreateInfo =
  poolSizeCount :: "32 word"
  pPoolSizes :: "VkDescriptorPoolSize list"
  maxSets :: "32 word"

record VkDescriptorSetLayoutBinding =
  binding_descriptor_type :: VkDescriptorType
  stageFlags :: "VkShaderStage set"
  layout_binding :: "32 word"

record VkDescriptorSetLayoutCreateInfo =
  pBindings :: "VkDescriptorSetLayoutBinding list"
  bindingCount :: "32 word"

record VkPushConstantRange =
  range_stageFlags :: "VkShaderStage set"
  range_size :: layout_constant
  range_offset :: "32 word"

record VkPipelineLayoutCreateInfo =
  pSetLayouts :: "handle list"
  setLayoutCount :: "32 word"
  pushConstantRangeCount :: "32 word"
  pPushConstantRanges :: "VkPushConstantRange list"

record VkDescriptorSetAllocateInfo =
  alloc_descriptorPool :: handle
  alloc_pSetLayouts :: "handle list"
  descriptorSetCount :: "32 word"

datatype uniform_buffer_name =
  Buffer_common | Buffer_dynamically_tessellation | Buffer_statically_tessellation

record VkWriteDescriptorSet =
  dstSet :: handle
  write_descriptor_type :: VkDescriptorType
  dstBinding :: "32 word"
  pBufferInfo :: uniform_buffer_name

subsection \<open>Calls\<close>

text \<open>Commands recorded into a command buffer, by the native \<^verbatim>\<open>vkCmd*\<close> functions and
  by the framework's \<^verbatim>\<open>draw_model\<close> and \<^verbatim>\<open>draw_ui\<close>.\<close>

datatype cmd =
    CmdBeginRenderPass VkRenderPassBeginInfo VkSubpassContents
  | CmdSetViewport "32 word" "32 word" "32 word \<times> 32 word \<times> float \<times> float"
  | CmdSetScissor "32 word" "32 word" "32 word \<times> 32 word \<times> int \<times> int"
  | CmdSetPrimitiveTopologyEXT VkPrimitiveTopology
  | CmdSetPrimitiveRestartEnableEXT bool
  | CmdSetPatchControlPointsEXT "32 word"
  | CmdBindDescriptorSets VkPipelineBindPoint handle "32 word" "handle list"
  | CmdPushConstants handle "VkShaderStage set" "32 word" layout_constant vec3
  | CmdBindPipeline VkPipelineBindPoint handle
  | Draw_model "sub_mesh option"
  | Draw_ui
  | CmdEndRenderPass

text \<open>
  A call statement executed by the file: \<open>Invoke\<close> marks the entry of one of the class's
  own member functions, every other constructor is a call into the framework or the
  native API with the arguments the file passes.
\<close>

datatype call =
    Invoke string
  | Add_instance_extension extension_name
  | Add_device_extension extension_name
  | ApiVulkanSample_prepare
  | Camera_set_position vec3
  | Camera_set_rotation vec3
  | Camera_set_perspective float "32 word" "32 word" float float
  | Load_model string
  | Load_shader string VkShaderStage
  | Prepare_frame
  | Submit_frame
  | VkQueueSubmit handle "32 word" VkSubmitInfo handle
  | Make_buffer uniform_buffer_name layout_constant VkBufferUsage VmaMemoryUsage
  | Convert_and_update_common ubo_common_t
  | Convert_and_update_tess uniform_buffer_name ubo_tess_t
  | VkCreateGraphicsPipelines handle "32 word" VkGraphicsPipelineCreateInfo
  | VkBeginCommandBuffer handle
  | Record handle cmd
  | VkEndCommandBuffer handle
  | VkCreateDescriptorPool VkDescriptorPoolCreateInfo
  | VkCreateDescriptorSetLayout VkDescriptorSetLayoutCreateInfo
  | VkCreatePipelineLayout VkPipelineLayoutCreateInfo
  | VkAllocateDescriptorSets VkDescriptorSetAllocateInfo
  | Create_descriptor uniform_buffer_name
  | VkUpdateDescriptorSets "32 word" "VkWriteDescriptorSet list"
  | Request_extension_features VkStructureType
  | Drawer_header string
  | Drawer_checkbox string
  | Drawer_slider_float string float float

record sample =
  title :: string
  camera :: camera_t
  width :: "32 word"
  height :: "32 word"
  prepared :: bool
  device_features :: gpu_features
  queue :: handle
  render_pass :: handle
  pipeline_cache :: handle
  framebuffers :: "handle list"
  draw_cmd_buffers :: "handle list"
  current_buffer :: "32 word"
  submit_info :: VkSubmitInfo
  models_terrain_one :: "sub_mesh option"
  models_terrain_two :: "sub_mesh option"
  uniform_buffers_common :: "ubo_common_t buffer option"
  uniform_buffers_dynamically_tessellation :: "ubo_tess_t buffer option"
  uniform_buffers_statically_tessellation :: "ubo_tess_t buffer option"
  ubo_common :: ubo_common_t
  ubo_tess :: ubo_tess_t
  gui_settings_tessellation :: bool
  gui_settings_tess_factor :: float
  push_const_block_direction :: vec3
  descriptor_pool :: handle
  descriptor_set_layouts_statically_tessellation :: handle
  descriptor_set_layouts_dynamically_tessellation :: handle
  pipeline_layouts_statically_tessellation :: handle
  pipeline_layouts_dynamically_tessellation :: handle
  descriptor_sets_statically_tessellation :: handle
  descriptor_sets_dynamically_tessellation :: handle
  pipeline_statically_tessellation :: handle
  pipeline_dynamically_tessellation :: handle

text \<open>The physical device handed to \<^verbatim>\<open>request_gpu_features\<close>: the features it supports,
  the features requested so far and the two extension feature structures that
  \<^verbatim>\<open>request_extension_features\<close> returns by reference.\<close>

record VkPhysicalDeviceExtendedDynamicState2FeaturesEXT =
  extendedDynamicState2 :: bool
  extendedDynamicState2PatchControlPoints :: bool

record VkPhysicalDeviceExtendedDynamicStateFeaturesEXT =
  extendedDynamicState :: bool

record PhysicalDevice =
  features :: gpu_features
  requested_features :: gpu_features
  extended_dynamic_state2_features :: VkPhysicalDeviceExtendedDynamicState2FeaturesEXT
  extended_dynamic_state_features :: VkPhysicalDeviceExtendedDynamicStateFeaturesEXT

subsection \<open>The framework and the native API as parameters\<close>

text \<open>
  The base class and the camera belong to the framework and are not part of the file:
  their member functions are parameters of the model, arbitrary functions on the object.
\<close>

record framework =
  base_prepare :: "sample \<Rightarrow> bool \<times> sample"
  prepare_frame :: "sample \<Rightarrow> sample"
  submit_frame :: "sample \<Rightarrow> sample"
  set_position :: "vec3 \<Rightarrow> camera_t \<Rightarrow> camera_t"
  set_rotation :: "vec3 \<Rightarrow> camera_t \<Rightarrow> camera_t"
  set_perspective :: "float \<Rightarrow> 32 word \<Rightarrow> 32 word \<Rightarrow> float \<Rightarrow> float \<Rightarrow> camera_t \<Rightarrow> camera_t"

text \<open>The result code of every native call that the file checks and the handle the call
  writes through its last argument, one member for each call site; the two calls inside the
  loop of \<^verbatim>\<open>build_command_buffers\<close> have one result for each iteration.\<close>

record native =
  vkQueueSubmit_result :: VkResult
  vkCreateDescriptorPool_result :: "VkResult \<times> handle"
  vkCreateDescriptorSetLayout_result_1 :: "VkResult \<times> handle"
  vkCreatePipelineLayout_result_1 :: "VkResult \<times> handle"
  vkCreateDescriptorSetLayout_result_2 :: "VkResult \<times> handle"
  vkCreatePipelineLayout_result_2 :: "VkResult \<times> handle"
  vkAllocateDescriptorSets_result_1 :: "VkResult \<times> handle"
  vkAllocateDescriptorSets_result_2 :: "VkResult \<times> handle"
  vkCreateGraphicsPipelines_result_1 :: "VkResult \<times> handle"
  vkCreateGraphicsPipelines_result_2 :: "VkResult \<times> handle"
  vkBeginCommandBuffer_result :: "nat \<Rightarrow> VkResult"
  vkEndCommandBuffer_result :: "nat \<Rightarrow> VkResult"

text \<open>The user interface drawer handed to \<^verbatim>\<open>on_update_ui_overlay\<close>: a widget returns
  whether the user changed it and leaves the new value in the variable it was given.\<close>

record Drawer =
  header :: "string \<Rightarrow> bool"
  checkbox :: "string \<Rightarrow> bool \<Rightarrow> bool \<times> bool"
  slider_float :: "string \<Rightarrow> float \<Rightarrow> float \<Rightarrow> float \<Rightarrow> bool \<times> float"

section \<open>The member functions\<close>

text \<open>
  A member function returns \<open>Inl\<close> of the error that ended it, or \<open>Inr\<close> of the object
  it leaves and the calls it performed. \<open>performed\<close> is a step that cannot fail,
  \<open>and_then\<close> runs the next step on the object the previous one has left and stops at the
  first error.
\<close>

type_synonym 's outcome = "error + 's \<times> call list"

definition performed :: "call list \<Rightarrow> 's \<Rightarrow> 's outcome" where
  "performed cs s = Inr (s, cs)"

definition and_then :: "'s outcome \<Rightarrow> ('s \<Rightarrow> 't outcome) \<Rightarrow> 't outcome" where
  "and_then r f =
     (case r of
        Inl e \<Rightarrow> Inl e
      | Inr (s, cs) \<Rightarrow> (case f s of Inl e \<Rightarrow> Inl e | Inr (s', cs') \<Rightarrow> Inr (s', cs @ cs')))"

text \<open>
  Modelled from the spec: the macro \<^verbatim>\<open>VK_CHECK\<close> is defined by the framework, outside the
  file. The spec says that errors are surfaced by the framework's check macros around
  native return codes: a checked call that does not return \<open>VK_SUCCESS\<close> ends the
  function with an error, and the statements after it are not executed.
\<close>

definition VK_CHECK :: "VkResult \<Rightarrow> call \<Rightarrow> 's \<Rightarrow> 's outcome" where
  "VK_CHECK r c s = (if r = VK_SUCCESS then Inr (s, [c]) else Inl (VK_CHECK_failed r))"

text \<open>The constructor, on the object \<open>base\<close> that the base class has constructed.\<close>

definition PatchControlPoints :: "sample \<Rightarrow> sample \<times> call list" where
  "PatchControlPoints base =
     (base\<lparr>title := ''Extended Dynamic State2''\<rparr>,
      [Add_instance_extension VK_KHR_GET_PHYSICAL_DEVICE_PROPERTIES_2_EXTENSION_NAME,
       Add_device_extension VK_EXT_EXTENDED_DYNAMIC_STATE_2_EXTENSION_NAME,
       Add_device_extension VK_EXT_EXTENDED_DYNAMIC_STATE_EXTENSION_NAME])"

text \<open>\<^verbatim>\<open>load_model\<close> is the framework's; its result is the mesh of the file at \<open>path\<close>.\<close>

definition load_model :: "string \<Rightarrow> sub_mesh option" where
  "load_model path = Some (Loaded_model path)"

definition load_assets :: "sample \<Rightarrow> sample outcome" where
  "load_assets s =
     (let s1 = s\<lparr>models_terrain_one := load_model ''scenes/terrain.gltf''\<rparr>;
          s2 = s1\<lparr>models_terrain_two := load_model ''scenes/terrain.gltf''\<rparr>
      in performed [Invoke ''load_assets'',
                    Load_model ''scenes/terrain.gltf'',
                    Load_model ''scenes/terrain.gltf''] s2)"

text \<open>
  \<^verbatim>\<open>draw\<close>: \<open>current_buffer\<close> and \<open>draw_cmd_buffers\<close> are read after the framework's
  \<^verbatim>\<open>prepare_frame\<close>; the pointer \<open>pCommandBuffers\<close> with the count 1 is the one element it
  points to.
\<close>

definition draw :: "framework \<Rightarrow> native \<Rightarrow> sample \<Rightarrow> sample outcome" where
  "draw fw nv s =
     (let s1 = prepare_frame fw s;
          s2 = s1\<lparr>submit_info := (submit_info s1)\<lparr>commandBufferCount := 1\<rparr>\<rparr>
      in if unat (current_buffer s2) < length (draw_cmd_buffers s2) then
           let s3 = s2\<lparr>submit_info := (submit_info s2)
                        \<lparr>pCommandBuffers := [draw_cmd_buffers s2 ! unat (current_buffer s2)]\<rparr>\<rparr>
           in and_then (performed [Invoke ''draw'', Prepare_frame] s3) (\<lambda>s.
              and_then (VK_CHECK (vkQueueSubmit_result nv)
                          (VkQueueSubmit (queue s) 1 (submit_info s) VK_NULL_HANDLE) s) (\<lambda>s.
              performed [Submit_frame] (submit_frame fw s)))
         else Inl Undefined_behaviour)"

text \<open>\<^verbatim>\<open>convert_and_update\<close> through a \<^verbatim>\<open>unique_ptr\<close>: the buffer then holds the value.\<close>

definition convert_and_update :: "'a buffer option \<Rightarrow> 'a \<Rightarrow> error + 'a buffer option" where
  "convert_and_update b v =
     (case b of None \<Rightarrow> Inl Undefined_behaviour | Some buf \<Rightarrow> Inr (Some (buf\<lparr>contents := Some v\<rparr>)))"

definition update_uniform_buffers :: "sample \<Rightarrow> sample outcome" where
  "update_uniform_buffers s =
     (let s1 = s\<lparr>ubo_common := (ubo_common s)\<lparr>projection := matrices_perspective (camera s)\<rparr>\<rparr>;
          s2 = s1\<lparr>ubo_common := (ubo_common s1)\<lparr>view := matrices_view (camera s1)\<rparr>\<rparr>
      in case convert_and_update (uniform_buffers_common s2) (ubo_common s2) of
           Inl e \<Rightarrow> Inl e
         | Inr common \<Rightarrow>
             let s3 = s2\<lparr>uniform_buffers_common := common\<rparr>;
                 s4 = s3\<lparr>ubo_tess := (ubo_tess s3)\<lparr>tessellation_factor := gui_settings_tess_factor s3\<rparr>\<rparr>;
                 s5 = (if \<not> gui_settings_tessellation s4
                       then s4\<lparr>ubo_tess := (ubo_tess s4)\<lparr>tessellation_factor := 0\<rparr>\<rparr>
                       else s4)
             in case convert_and_update (uniform_buffers_dynamically_tessellation s5) (ubo_tess s5) of
                  Inl e \<Rightarrow> Inl e
                | Inr dynamically \<Rightarrow>
                    let s6 = s5\<lparr>uniform_buffers_dynamically_tessellation := dynamically\<rparr>
                    in case convert_and_update (uniform_buffers_statically_tessellation s6) (ubo_tess s6) of
                         Inl e \<Rightarrow> Inl e
                       | Inr statically \<Rightarrow>
                           performed
                             [Invoke ''update_uniform_buffers'',
                              Convert_and_update_common (ubo_common s2),
                              Convert_and_update_tess Buffer_dynamically_tessellation (ubo_tess s5),
                              Convert_and_update_tess Buffer_statically_tessellation (ubo_tess s6)]
                             (s6\<lparr>uniform_buffers_statically_tessellation := statically\<rparr>))"

definition make_buffer :: "layout_constant \<Rightarrow> VkBufferUsage \<Rightarrow> VmaMemoryUsage \<Rightarrow> 'a buffer option" where
  "make_buffer sz usage mem =
     Some \<lparr>buffer_size = sz, buffer_usage = usage, memory_usage = mem, contents = None\<rparr>"

definition prepare_uniform_buffers :: "sample \<Rightarrow> sample outcome" where
  "prepare_uniform_buffers s =
     (let s1 = s\<lparr>uniform_buffers_common :=
                   make_buffer Sizeof_ubo_common VK_BUFFER_USAGE_UNIFORM_BUFFER_BIT VMA_MEMORY_USAGE_CPU_TO_GPU\<rparr>;
          s2 = s1\<lparr>uniform_buffers_dynamically_tessellation :=
                   make_buffer Sizeof_ubo_tess VK_BUFFER_USAGE_UNIFORM_BUFFER_BIT VMA_MEMORY_USAGE_CPU_TO_GPU\<rparr>;
          s3 = s2\<lparr>uniform_buffers_statically_tessellation :=
                   make_buffer Sizeof_ubo_tess VK_BUFFER_USAGE_UNIFORM_BUFFER_BIT VMA_MEMORY_USAGE_CPU_TO_GPU\<rparr>
      in and_then
           (performed
              [Invoke ''prepare_uniform_buffers'',
               Make_buffer Buffer_common Sizeof_ubo_common
                 VK_BUFFER_USAGE_UNIFORM_BUFFER_BIT VMA_MEMORY_USAGE_CPU_TO_GPU,
               Make_buffer Buffer_dynamically_tessellation Sizeof_ubo_tess
                 VK_BUFFER_USAGE_UNIFORM_BUFFER_BIT VMA_MEMORY_USAGE_CPU_TO_GPU,
               Make_buffer Buffer_statically_tessellation Sizeof_ubo_tess
                 VK_BUFFER_USAGE_UNIFORM_BUFFER_BIT VMA_MEMORY_USAGE_CPU_TO_GPU] s3)
           update_uniform_buffers)"

text \<open>\<^verbatim>\<open>render\<close> does not use its argument \<open>delta_time\<close>.\<close>

definition render :: "framework \<Rightarrow> native \<Rightarrow> float \<Rightarrow> sample \<Rightarrow> sample outcome" where
  "render fw nv delta_time s =
     (if \<not> prepared s then performed [Invoke ''render''] s
      else and_then (performed [Invoke ''render''] s) (\<lambda>s.
           and_then (draw fw nv s) (\<lambda>s.
           if updated (camera s) then update_uniform_buffers s else performed [] s)))"

text \<open>\<^verbatim>\<open>on_update_ui_overlay\<close>: each widget is handed the address of its setting, which
  holds the widget's value afterwards.\<close>

definition on_update_ui_overlay :: "Drawer \<Rightarrow> sample \<Rightarrow> sample outcome" where
  "on_update_ui_overlay drawer s =
     and_then (performed [Invoke ''on_update_ui_overlay'', Drawer_header ''Settings''] s) (\<lambda>s.
       if header drawer ''Settings'' then
         (let c = checkbox drawer ''Tessellation Enable'' (gui_settings_tessellation s)
          in and_then (performed [Drawer_checkbox ''Tessellation Enable'']
                         (s\<lparr>gui_settings_tessellation := snd c\<rparr>)) (\<lambda>s.
             and_then (if fst c then update_uniform_buffers s else performed [] s) (\<lambda>s.
               let f = slider_float drawer ''Tessellation Factor'' (gui_settings_tess_factor s) 1 6
               in and_then (performed [Drawer_slider_float ''Tessellation Factor'' 1 6]
                              (s\<lparr>gui_settings_tess_factor := snd f\<rparr>)) (\<lambda>s.
                  if fst f then update_uniform_buffers s else performed [] s))))
       else performed [] s)"

text \<open>
  \<^verbatim>\<open>request_gpu_features\<close> receives the physical device by reference: what it has written
  to the device before it throws stays written. The result is the exception thrown, if any,
  the device as the function leaves it, and the calls performed.
\<close>

definition request_gpu_features :: "PhysicalDevice \<Rightarrow> error option \<times> PhysicalDevice \<times> call list" where
  "request_gpu_features gpu =
     (let gpu1 = gpu\<lparr>extended_dynamic_state2_features :=
                      (extended_dynamic_state2_features gpu)\<lparr>extendedDynamicState2 := True\<rparr>\<rparr>;
          gpu2 = gpu1\<lparr>extended_dynamic_state2_features :=
                      (extended_dynamic_state2_features gpu1)\<lparr>extendedDynamicState2PatchControlPoints := True\<rparr>\<rparr>;
          gpu3 = gpu2\<lparr>extended_dynamic_state_features :=
                      (extended_dynamic_state_features gpu2)\<lparr>extendedDynamicState := True\<rparr>\<rparr>;
          calls =
            [Invoke ''request_gpu_features'',
             Request_extension_features VK_STRUCTURE_TYPE_PHYSICAL_DEVICE_EXTENDED_DYNAMIC_STATE_2_FEATURES_EXT,
             Request_extension_features VK_STRUCTURE_TYPE_PHYSICAL_DEVICE_EXTENDED_DYNAMIC_STATE_FEATURES_EXT]
      in if tessellationShader (features gpu3) then
           let gpu4 = gpu3\<lparr>requested_features := (requested_features gpu3)\<lparr>tessellationShader := True\<rparr>\<rparr>;
               gpu5 = (if fillModeNonSolid (features gpu4)
                       then gpu4\<lparr>requested_features := (requested_features gpu4)\<lparr>fillModeNonSolid := True\<rparr>\<rparr>
                       else gpu4);
               gpu6 = (if samplerAnisotropy (features gpu5)
                       then gpu5\<lparr>requested_features := (requested_features gpu5)\<lparr>samplerAnisotropy := True\<rparr>\<rparr>
                       else gpu5)
           in (None, gpu6, calls)
         else (Some (VulkanException VK_ERROR_FEATURE_NOT_PRESENT
                       ''Selected GPU does not support tessellation shaders!''),
               gpu3, calls))"

text \<open>
  \<^verbatim>\<open>create_pipelines\<close>. The local structures are let-bound and rebound where the source
  assigns to them; \<open>graphics_create\<close> holds pointers to them, so the create info that a call
  of \<^verbatim>\<open>vkCreateGraphicsPipelines\<close> reads is built from their values at that call. The array
  \<open>shader_stages\<close> starts zero-initialised (four \<open>None\<close>).
\<close>

definition load_shader :: "string \<Rightarrow> VkShaderStage \<Rightarrow> VkPipelineShaderStageCreateInfo option" where
  "load_shader file stage = Some \<lparr>shader_file = file, shader_stage = stage\<rparr>"

definition create_pipelines :: "native \<Rightarrow> sample \<Rightarrow> sample outcome" where
  "create_pipelines nv s =
     (let input_assembly_state =
            \<lparr>topology = VK_PRIMITIVE_TOPOLOGY_PATCH_LIST, input_assembly_flags = 0,
             primitiveRestartEnable = False\<rparr>;
          rasterization_state =
            \<lparr>polygonMode = VK_POLYGON_MODE_FILL, cullMode = VK_CULL_MODE_BACK_BIT,
             frontFace = VK_FRONT_FACE_COUNTER_CLOCKWISE, rasterization_flags = 0,
             depthBiasConstantFactor = None, depthBiasSlopeFactor = None\<rparr>;
          rasterization_state = rasterization_state\<lparr>depthBiasConstantFactor := Some 1\<rparr>;
          rasterization_state = rasterization_state\<lparr>depthBiasSlopeFactor := Some 1\<rparr>;
          blend_attachment_state =
            \<lparr>colorWriteMask = {VK_COLOR_COMPONENT_R_BIT, VK_COLOR_COMPONENT_G_BIT,
                               VK_COLOR_COMPONENT_B_BIT, VK_COLOR_COMPONENT_A_BIT},
             blendEnable = True, colorBlendOp = None, srcColorBlendFactor = None,
             dstColorBlendFactor = None, alphaBlendOp = None, srcAlphaBlendFactor = None,
             dstAlphaBlendFactor = None\<rparr>;
          blend_attachment_state = blend_attachment_state\<lparr>colorBlendOp := Some VK_BLEND_OP_ADD\<rparr>;
          blend_attachment_state = blend_attachment_state\<lparr>srcColorBlendFactor := Some VK_BLEND_FACTOR_SRC_ALPHA\<rparr>;
          blend_attachment_state =
            blend_attachment_state\<lparr>dstColorBlendFactor := Some VK_BLEND_FACTOR_ONE_MINUS_SRC_ALPHA\<rparr>;
          blend_attachment_state = blend_attachment_state\<lparr>alphaBlendOp := Some VK_BLEND_OP_ADD\<rparr>;
          blend_attachment_state = blend_attachment_state\<lparr>srcAlphaBlendFactor := Some VK_BLEND_FACTOR_ONE\<rparr>;
          blend_attachment_state = blend_attachment_state\<lparr>dstAlphaBlendFactor := Some VK_BLEND_FACTOR_ZERO\<rparr>;
          color_blend_state = \<lparr>attachmentCount = 1, pAttachments = blend_attachment_state\<rparr>;
          depth_stencil_state =
            \<lparr>depthTestEnable = True, depthWriteEnable = True, depthCompareOp = VK_COMPARE_OP_GREATER\<rparr>;
          viewport_state = \<lparr>viewportCount = 1, scissorCount = 1, viewport_flags = 0\<rparr>;
          multisample_state = \<lparr>rasterizationSamples = VK_SAMPLE_COUNT_1_BIT, multisample_flags = 0\<rparr>;
          tessellation_state = \<lparr>patchControlPoints = 3\<rparr>;
          dynamic_state_enables = [VK_DYNAMIC_STATE_VIEWPORT, VK_DYNAMIC_STATE_SCISSOR];
          dynamic_state =
            \<lparr>pDynamicStates = dynamic_state_enables,
             dynamicStateCount = of_nat (length dynamic_state_enables), dynamic_flags = 0\<rparr>;
          vertex_input_bindings =
            [\<lparr>input_binding = 0, stride = Sizeof_Vertex, inputRate = VK_VERTEX_INPUT_RATE_VERTEX\<rparr>];
          vertex_input_attributes =
            [\<lparr>attribute_binding = 0, location = 0, format = VK_FORMAT_R32G32B32_SFLOAT,
              attribute_offset = Zero_offset\<rparr>,
             \<lparr>attribute_binding = 0, location = 1, format = VK_FORMAT_R32G32B32_SFLOAT,
              attribute_offset = Offsetof_Vertex_normal\<rparr>];
          vertex_input_state =
            \<lparr>vertexBindingDescriptionCount = of_nat (length vertex_input_bindings),
             pVertexBindingDescriptions = vertex_input_bindings,
             vertexAttributeDescriptionCount = of_nat (length vertex_input_attributes),
             pVertexAttributeDescriptions = vertex_input_attributes\<rparr>;
          shader_stages = replicate 4 None;
          graphics_create_pNext = VK_NULL_HANDLE;
          graphics_create_renderPass = VK_NULL_HANDLE;
          graphics_create_pTessellationState = (None :: VkPipelineTessellationStateCreateInfo option);
          graphics_create_stageCount = (2 :: 32 word);
          graphics_create_pNext = VK_NULL_HANDLE;
          graphics_create_renderPass = render_pass s;
          \<comment> \<open>First tessellation list: the statically tessellation pipeline\<close>
          graphics_create_pTessellationState = Some tessellation_state;
          graphics_create_layout = pipeline_layouts_statically_tessellation s;
          input_assembly_state = input_assembly_state\<lparr>topology := VK_PRIMITIVE_TOPOLOGY_PATCH_LIST\<rparr>;
          vertex_input_state =
            \<lparr>vertexBindingDescriptionCount = of_nat (length vertex_input_bindings),
             pVertexBindingDescriptions = vertex_input_bindings,
             vertexAttributeDescriptionCount = of_nat (length vertex_input_attributes),
             pVertexAttributeDescriptions = vertex_input_attributes\<rparr>;
          rasterization_state =
            (if fillModeNonSolid (device_features s)
             then rasterization_state\<lparr>polygonMode := VK_POLYGON_MODE_LINE\<rparr>
             else rasterization_state);
          shader_stages = shader_stages[0 := load_shader ''patch_control_points/tess.vert'' VK_SHADER_STAGE_VERTEX_BIT];
          shader_stages = shader_stages[1 := load_shader ''patch_control_points/tess.frag'' VK_SHADER_STAGE_FRAGMENT_BIT];
          shader_stages = shader_stages[2 := load_shader ''patch_control_points/tess.tesc''
                                               VK_SHADER_STAGE_TESSELLATION_CONTROL_BIT];
          shader_stages = shader_stages[3 := load_shader ''patch_control_points/tess.tese''
                                               VK_SHADER_STAGE_TESSELLATION_EVALUATION_BIT];
          graphics_create_stageCount = of_nat (length shader_stages);
          depth_stencil_state = depth_stencil_state\<lparr>depthWriteEnable := True\<rparr>;
          depth_stencil_state = depth_stencil_state\<lparr>depthTestEnable := True\<rparr>;
          rasterization_state = rasterization_state\<lparr>cullMode := VK_CULL_MODE_NONE\<rparr>;
          graphics_create_1 =
            \<lparr>pNext = graphics_create_pNext, renderPass = graphics_create_renderPass,
             pInputAssemblyState = input_assembly_state, pRasterizationState = rasterization_state,
             pColorBlendState = color_blend_state\<lparr>pAttachments := blend_attachment_state\<rparr>,
             pMultisampleState = multisample_state, pViewportState = viewport_state,
             pDepthStencilState = depth_stencil_state, pDynamicState = dynamic_state,
             pVertexInputState = vertex_input_state,
             pTessellationState = graphics_create_pTessellationState,
             stageCount = graphics_create_stageCount,
             pStages = take (unat graphics_create_stageCount) shader_stages,
             layout = graphics_create_layout\<rparr>;
          cache_1 = pipeline_cache s
      in and_then
           (performed
              [Invoke ''create_pipelines'',
               Load_shader ''patch_control_points/tess.vert'' VK_SHADER_STAGE_VERTEX_BIT,
               Load_shader ''patch_control_points/tess.frag'' VK_SHADER_STAGE_FRAGMENT_BIT,
               Load_shader ''patch_control_points/tess.tesc'' VK_SHADER_STAGE_TESSELLATION_CONTROL_BIT,
               Load_shader ''patch_control_points/tess.tese'' VK_SHADER_STAGE_TESSELLATION_EVALUATION_BIT] s) (\<lambda>s.
         and_then
           (VK_CHECK (fst (vkCreateGraphicsPipelines_result_1 nv))
              (VkCreateGraphicsPipelines cache_1 1 graphics_create_1)
              (s\<lparr>pipeline_statically_tessellation := snd (vkCreateGraphicsPipelines_result_1 nv)\<rparr>)) (\<lambda>s.
         let \<comment> \<open>Second tessellation list: the dynamically tessellation pipeline\<close>
             graphics_create_pTessellationState = Some tessellation_state;
             graphics_create_layout = pipeline_layouts_dynamically_tessellation s;
             input_assembly_state = input_assembly_state\<lparr>topology := VK_PRIMITIVE_TOPOLOGY_PATCH_LIST\<rparr>;
             vertex_input_state =
               \<lparr>vertexBindingDescriptionCount = of_nat (length vertex_input_bindings),
                pVertexBindingDescriptions = vertex_input_bindings,
                vertexAttributeDescriptionCount = of_nat (length vertex_input_attributes),
                pVertexAttributeDescriptions = vertex_input_attributes\<rparr>;
             rasterization_state =
               (if fillModeNonSolid (device_features s)
                then rasterization_state\<lparr>polygonMode := VK_POLYGON_MODE_LINE\<rparr>
                else rasterization_state);
             shader_stages = shader_stages[0 := load_shader ''patch_control_points/tess.vert'' VK_SHADER_STAGE_VERTEX_BIT];
             shader_stages = shader_stages[1 := load_shader ''patch_control_points/tess.frag'' VK_SHADER_STAGE_FRAGMENT_BIT];
             shader_stages = shader_stages[2 := load_shader ''patch_control_points/tess.tesc''
                                                  VK_SHADER_STAGE_TESSELLATION_CONTROL_BIT];
             shader_stages = shader_stages[3 := load_shader ''patch_control_points/tess.tese''
                                                  VK_SHADER_STAGE_TESSELLATION_EVALUATION_BIT];
             graphics_create_stageCount = of_nat (length shader_stages);
             depth_stencil_state = depth_stencil_state\<lparr>depthWriteEnable := True\<rparr>;
             depth_stencil_state = depth_stencil_state\<lparr>depthTestEnable := True\<rparr>;
             rasterization_state = rasterization_state\<lparr>cullMode := VK_CULL_MODE_NONE\<rparr>;
             graphics_create_2 =
               \<lparr>pNext = graphics_create_pNext, renderPass = graphics_create_renderPass,
                pInputAssemblyState = input_assembly_state, pRasterizationState = rasterization_state,
                pColorBlendState = color_blend_state\<lparr>pAttachments := blend_attachment_state\<rparr>,
                pMultisampleState = multisample_state, pViewportState = viewport_state,
                pDepthStencilState = depth_stencil_state, pDynamicState = dynamic_state,
                pVertexInputState = vertex_input_state,
                pTessellationState = graphics_create_pTessellationState,
                stageCount = graphics_create_stageCount,
                pStages = take (unat graphics_create_stageCount) shader_stages,
                layout = graphics_create_layout\<rparr>
         in and_then
              (performed
                 [Load_shader ''patch_control_points/tess.vert'' VK_SHADER_STAGE_VERTEX_BIT,
                  Load_shader ''patch_control_points/tess.frag'' VK_SHADER_STAGE_FRAGMENT_BIT,
                  Load_shader ''patch_control_points/tess.tesc'' VK_SHADER_STAGE_TESSELLATION_CONTROL_BIT,
                  Load_shader ''patch_control_points/tess.tese'' VK_SHADER_STAGE_TESSELLATION_EVALUATION_BIT] s) (\<lambda>s.
            VK_CHECK (fst (vkCreateGraphicsPipelines_result_2 nv))
              (VkCreateGraphicsPipelines VK_NULL_HANDLE 1 graphics_create_2)
              (s\<lparr>pipeline_dynamically_tessellation := snd (vkCreateGraphicsPipelines_result_2 nv)\<rparr>)))))"

text \<open>
  The body of the loop of \<^verbatim>\<open>build_command_buffers\<close> from \<^verbatim>\<open>vkCmdBeginRenderPass\<close> to
  \<^verbatim>\<open>vkCmdEndRenderPass\<close>: the commands it records, in order, for the framebuffer
  \<open>framebuffers[i]\<close>, and the object after the two assignments to
  \<open>push_const_block.direction\<close>. The call of \<^verbatim>\<open>vkCmdSetPatchControlPointsEXT\<close> is commented
  out in the source and records nothing.
\<close>

definition record_commands :: "sample \<Rightarrow> handle \<Rightarrow> cmd list \<times> sample" where
  "record_commands s framebuffers_i =
     (let clear_values = [Clear_color [0, 0, 0, 0], Clear_depthStencil 0 0];
          directions = [(- 6.00, 0, 0), (- 3.95, 0, 0) :: vec3];
          patch_control_points_triangle = (3 :: 32 word);
          render_pass_begin_info =
            \<lparr>begin_renderPass = render_pass s, framebuffer = framebuffers_i,
             renderArea_extent_width = width s, renderArea_extent_height = height s,
             clearValueCount = of_nat (length clear_values), pClearValues = clear_values\<rparr>;
          viewport = (width s, height s, 0.0, 1.0);
          scissor = (width s, height s, 0, 0);
          s1 = s\<lparr>push_const_block_direction := directions ! 0\<rparr>;
          s2 = s1\<lparr>push_const_block_direction := directions ! 1\<rparr>
      in ([CmdBeginRenderPass render_pass_begin_info VK_SUBPASS_CONTENTS_INLINE,
           CmdSetViewport 0 1 viewport,
           CmdSetScissor 0 1 scissor,
           CmdSetPrimitiveTopologyEXT VK_PRIMITIVE_TOPOLOGY_PATCH_LIST,
           CmdSetPrimitiveRestartEnableEXT True,
           CmdBindDescriptorSets VK_PIPELINE_BIND_POINT_GRAPHICS
             (pipeline_layouts_statically_tessellation s) 0
             [descriptor_sets_statically_tessellation s],
           CmdPushConstants (pipeline_layouts_statically_tessellation s1)
             {VK_SHADER_STAGE_VERTEX_BIT} 0 Sizeof_push_const_block
             (push_const_block_direction s1),
           CmdBindPipeline VK_PIPELINE_BIND_POINT_GRAPHICS (pipeline_statically_tessellation s1),
           Draw_model (models_terrain_one s1),
           CmdSetPrimitiveTopologyEXT VK_PRIMITIVE_TOPOLOGY_PATCH_LIST,
           CmdSetPrimitiveRestartEnableEXT True,
           CmdBindDescriptorSets VK_PIPELINE_BIND_POINT_GRAPHICS
             (pipeline_layouts_dynamically_tessellation s1) 0
             [descriptor_sets_dynamically_tessellation s1],
           CmdPushConstants (pipeline_layouts_dynamically_tessellation s2)
             {VK_SHADER_STAGE_VERTEX_BIT} 0 Sizeof_push_const_block
             (push_const_block_direction s2),
           CmdBindPipeline VK_PIPELINE_BIND_POINT_GRAPHICS (pipeline_dynamically_tessellation s2),
           Draw_model (models_terrain_two s2),
           Draw_ui,
           CmdEndRenderPass], s2))"

text \<open>One iteration of the loop, for the command buffer \<open>draw_cmd_buffer\<close> at index \<open>i\<close>
  of \<open>draw_cmd_buffers\<close>.\<close>

definition build_command_buffer :: "native \<Rightarrow> nat \<Rightarrow> handle \<Rightarrow> sample \<Rightarrow> sample outcome" where
  "build_command_buffer nv i draw_cmd_buffer s =
     and_then (VK_CHECK (vkBeginCommandBuffer_result nv i) (VkBeginCommandBuffer draw_cmd_buffer) s) (\<lambda>s.
       if i < length (framebuffers s) then
         and_then
           (performed (map (Record draw_cmd_buffer) (fst (record_commands s (framebuffers s ! i))))
              (snd (record_commands s (framebuffers s ! i)))) (\<lambda>s.
         VK_CHECK (vkEndCommandBuffer_result nv i) (VkEndCommandBuffer draw_cmd_buffer) s)
       else Inl Undefined_behaviour)"

text \<open>The range-based loop over \<open>draw_cmd_buffers\<close>, \<open>i\<close> counting the iterations from 0.\<close>

fun build_command_buffers_loop :: "native \<Rightarrow> nat \<Rightarrow> handle list \<Rightarrow> sample \<Rightarrow> sample outcome" where
  "build_command_buffers_loop nv i [] s = performed [] s"
| "build_command_buffers_loop nv i (draw_cmd_buffer # rest) s =
     and_then (build_command_buffer nv i draw_cmd_buffer s) (build_command_buffers_loop nv (Suc i) rest)"

definition build_command_buffers :: "native \<Rightarrow> sample \<Rightarrow> sample outcome" where
  "build_command_buffers nv s =
     and_then (performed [Invoke ''build_command_buffers''] s)
       (build_command_buffers_loop nv 0 (draw_cmd_buffers s))"

definition create_descriptor_pool :: "native \<Rightarrow> sample \<Rightarrow> sample outcome" where
  "create_descriptor_pool nv s =
     (let pool_sizes =
            [\<lparr>pool_descriptor_type = VK_DESCRIPTOR_TYPE_UNIFORM_BUFFER, pool_descriptor_count = 5\<rparr>,
             \<lparr>pool_descriptor_type = VK_DESCRIPTOR_TYPE_COMBINED_IMAGE_SAMPLER, pool_descriptor_count = 1\<rparr>];
          descriptor_pool_create_info =
            \<lparr>poolSizeCount = of_nat (length pool_sizes), pPoolSizes = pool_sizes, maxSets = 3\<rparr>
      in and_then (performed [Invoke ''create_descriptor_pool''] s) (\<lambda>s.
         VK_CHECK (fst (vkCreateDescriptorPool_result nv))
           (VkCreateDescriptorPool descriptor_pool_create_info)
           (s\<lparr>descriptor_pool := snd (vkCreateDescriptorPool_result nv)\<rparr>)))"

definition setup_descriptor_set_layout :: "native \<Rightarrow> sample \<Rightarrow> sample outcome" where
  "setup_descriptor_set_layout nv s =
     (let set_layout_bindings_1 =
            [\<lparr>binding_descriptor_type = VK_DESCRIPTOR_TYPE_UNIFORM_BUFFER,
              stageFlags = {VK_SHADER_STAGE_TESSELLATION_EVALUATION_BIT, VK_SHADER_STAGE_VERTEX_BIT},
              layout_binding = 0\<rparr>,
             \<lparr>binding_descriptor_type = VK_DESCRIPTOR_TYPE_UNIFORM_BUFFER,
              stageFlags = {VK_SHADER_STAGE_TESSELLATION_CONTROL_BIT},
              layout_binding = 1\<rparr>];
          descriptor_layout_create_info_1 =
            \<lparr>pBindings = set_layout_bindings_1, bindingCount = of_nat (length set_layout_bindings_1)\<rparr>
      in and_then (performed [Invoke ''setup_descriptor_set_layout''] s) (\<lambda>s.
         and_then
           (VK_CHECK (fst (vkCreateDescriptorSetLayout_result_1 nv))
              (VkCreateDescriptorSetLayout descriptor_layout_create_info_1)
              (s\<lparr>descriptor_set_layouts_statically_tessellation :=
                    snd (vkCreateDescriptorSetLayout_result_1 nv)\<rparr>)) (\<lambda>s.
         let push_constant_range =
               \<lparr>range_stageFlags = {VK_SHADER_STAGE_VERTEX_BIT}, range_size = Sizeof_push_const_block,
                range_offset = 0\<rparr>;
             pipeline_layout_create_info_1 =
               \<lparr>pSetLayouts = [descriptor_set_layouts_statically_tessellation s], setLayoutCount = 1,
                pushConstantRangeCount = 1, pPushConstantRanges = [push_constant_range]\<rparr>
         in and_then
              (VK_CHECK (fst (vkCreatePipelineLayout_result_1 nv))
                 (VkCreatePipelineLayout pipeline_layout_create_info_1)
                 (s\<lparr>pipeline_layouts_statically_tessellation := snd (vkCreatePipelineLayout_result_1 nv)\<rparr>)) (\<lambda>s.
            let set_layout_bindings_2 =
                  [\<lparr>binding_descriptor_type = VK_DESCRIPTOR_TYPE_UNIFORM_BUFFER,
                    stageFlags = {VK_SHADER_STAGE_TESSELLATION_EVALUATION_BIT, VK_SHADER_STAGE_VERTEX_BIT},
                    layout_binding = 0\<rparr>,
                   \<lparr>binding_descriptor_type = VK_DESCRIPTOR_TYPE_UNIFORM_BUFFER,
                    stageFlags = {VK_SHADER_STAGE_TESSELLATION_CONTROL_BIT},
                    layout_binding = 1\<rparr>];
                descriptor_layout_create_info_2 =
                  \<lparr>pBindings = set_layout_bindings_2, bindingCount = of_nat (length set_layout_bindings_2)\<rparr>
            in and_then
                 (VK_CHECK (fst (vkCreateDescriptorSetLayout_result_2 nv))
                    (VkCreateDescriptorSetLayout descriptor_layout_create_info_2)
                    (s\<lparr>descriptor_set_layouts_dynamically_tessellation :=
                          snd (vkCreateDescriptorSetLayout_result_2 nv)\<rparr>)) (\<lambda>s.
               let push_constant_range_2 =
                     \<lparr>range_stageFlags = {VK_SHADER_STAGE_VERTEX_BIT}, range_size = Sizeof_push_const_block,
                      range_offset = 0\<rparr>;
                   pipeline_layout_create_info_2 =
                     \<lparr>pSetLayouts = [descriptor_set_layouts_dynamically_tessellation s], setLayoutCount = 1,
                      pushConstantRangeCount = 1, pPushConstantRanges = [push_constant_range_2]\<rparr>
               in VK_CHECK (fst (vkCreatePipelineLayout_result_2 nv))
                    (VkCreatePipelineLayout pipeline_layout_create_info_2)
                    (s\<lparr>pipeline_layouts_dynamically_tessellation :=
                          snd (vkCreatePipelineLayout_result_2 nv)\<rparr>))))))"

text \<open>The framework's \<^verbatim>\<open>create_descriptor\<close> takes the buffer by reference: the file
  dereferences the \<^verbatim>\<open>unique_ptr\<close> that holds it.\<close>

definition create_descriptor :: "uniform_buffer_name \<Rightarrow> 'a buffer option \<Rightarrow> error + uniform_buffer_name" where
  "create_descriptor name b = (case b of None \<Rightarrow> Inl Undefined_behaviour | Some buf \<Rightarrow> Inr name)"

definition create_descriptor_sets :: "native \<Rightarrow> sample \<Rightarrow> sample outcome" where
  "create_descriptor_sets nv s =
     and_then (performed [Invoke ''create_descriptor_sets''] s) (\<lambda>s.
       let alloc_info_1 =
             \<lparr>alloc_descriptorPool = descriptor_pool s,
              alloc_pSetLayouts = [descriptor_set_layouts_statically_tessellation s],
              descriptorSetCount = 1\<rparr>
       in and_then
            (VK_CHECK (fst (vkAllocateDescriptorSets_result_1 nv)) (VkAllocateDescriptorSets alloc_info_1)
               (s\<lparr>descriptor_sets_statically_tessellation := snd (vkAllocateDescriptorSets_result_1 nv)\<rparr>)) (\<lambda>s.
          case create_descriptor Buffer_common (uniform_buffers_common s) of
            Inl e \<Rightarrow> Inl e
          | Inr matrix_common_buffer_descriptor_1 \<Rightarrow>
          case create_descriptor Buffer_statically_tessellation (uniform_buffers_statically_tessellation s) of
            Inl e \<Rightarrow> Inl e
          | Inr matrix_tess_buffer_descriptor_1 \<Rightarrow>
          let write_descriptor_sets =
                [\<lparr>dstSet = descriptor_sets_statically_tessellation s,
                  write_descriptor_type = VK_DESCRIPTOR_TYPE_UNIFORM_BUFFER, dstBinding = 0,
                  pBufferInfo = matrix_common_buffer_descriptor_1\<rparr>,
                 \<lparr>dstSet = descriptor_sets_statically_tessellation s,
                  write_descriptor_type = VK_DESCRIPTOR_TYPE_UNIFORM_BUFFER, dstBinding = 1,
                  pBufferInfo = matrix_tess_buffer_descriptor_1\<rparr>]
          in and_then
               (performed
                  [Create_descriptor Buffer_common, Create_descriptor Buffer_statically_tessellation,
                   VkUpdateDescriptorSets (of_nat (length write_descriptor_sets)) write_descriptor_sets] s) (\<lambda>s.
             let alloc_info_2 =
                   \<lparr>alloc_descriptorPool = descriptor_pool s,
                    alloc_pSetLayouts = [descriptor_set_layouts_dynamically_tessellation s],
                    descriptorSetCount = 1\<rparr>
             in and_then
                  (VK_CHECK (fst (vkAllocateDescriptorSets_result_2 nv)) (VkAllocateDescriptorSets alloc_info_2)
                     (s\<lparr>descriptor_sets_dynamically_tessellation :=
                           snd (vkAllocateDescriptorSets_result_2 nv)\<rparr>)) (\<lambda>s.
                case create_descriptor Buffer_common (uniform_buffers_common s) of
                  Inl e \<Rightarrow> Inl e
                | Inr matrix_common_buffer_descriptor_2 \<Rightarrow>
                case create_descriptor Buffer_dynamically_tessellation
                       (uniform_buffers_dynamically_tessellation s) of
                  Inl e \<Rightarrow> Inl e
                | Inr matrix_tess_buffer_descriptor_2 \<Rightarrow>
                let write_descriptor_sets_2 =
                      [\<lparr>dstSet = descriptor_sets_dynamically_tessellation s,
                        write_descriptor_type = VK_DESCRIPTOR_TYPE_UNIFORM_BUFFER, dstBinding = 0,
                        pBufferInfo = matrix_common_buffer_descriptor_2\<rparr>,
                       \<lparr>dstSet = descriptor_sets_dynamically_tessellation s,
                        write_descriptor_type = VK_DESCRIPTOR_TYPE_UNIFORM_BUFFER, dstBinding = 1,
                        pBufferInfo = matrix_tess_buffer_descriptor_2\<rparr>]
                in performed
                     [Create_descriptor Buffer_common, Create_descriptor Buffer_dynamically_tessellation,
                      VkUpdateDescriptorSets (of_nat (length write_descriptor_sets_2)) write_descriptor_sets_2]
                     s))))"

text \<open>\<^verbatim>\<open>prepare\<close>: the argument \<open>platform\<close> is only passed on to the base class's
  \<^verbatim>\<open>prepare\<close>, the parameter \<open>base_prepare\<close>.\<close>

definition prepare :: "framework \<Rightarrow> native \<Rightarrow> sample \<Rightarrow> (bool \<times> sample) outcome" where
  "prepare fw nv s =
     (let (base_ok, s) = base_prepare fw s
      in if \<not> base_ok then performed [Invoke ''prepare'', ApiVulkanSample_prepare] (False, s)
         else
           let s = s\<lparr>camera := (camera s)\<lparr>camera_type := LookAt\<rparr>\<rparr>;
               s = s\<lparr>camera := set_position fw (5.0, 1.0, - 3.0) (camera s)\<rparr>;
               s = s\<lparr>camera := set_rotation fw (- 185.0, 0.0, 0.2) (camera s)\<rparr>;
               s = s\<lparr>camera := set_perspective fw 60.0 (width s) (height s) 256.0 0.1 (camera s)\<rparr>
           in and_then
                (performed
                   [Invoke ''prepare'', ApiVulkanSample_prepare,
                    Camera_set_position (5.0, 1.0, - 3.0),
                    Camera_set_rotation (- 185.0, 0.0, 0.2),
                    Camera_set_perspective 60.0 (width s) (height s) 256.0 0.1] s) (\<lambda>s.
              and_then (load_assets s) (\<lambda>s.
              and_then (prepare_uniform_buffers s) (\<lambda>s.
              and_then (create_descriptor_pool nv s) (\<lambda>s.
              and_then (setup_descriptor_set_layout nv s) (\<lambda>s.
              and_then (create_descriptor_sets nv s) (\<lambda>s.
              and_then (create_pipelines nv s) (\<lambda>s.
              and_then (build_command_buffers nv s) (\<lambda>s.
              performed [] (True, s\<lparr>prepared := True\<rparr>))))))))))"

section \<open>Observations on objects and on lists of calls\<close>

text \<open>The three uniform buffers exist: \<^verbatim>\<open>prepare_uniform_buffers\<close> has run.\<close>

definition buffers_allocated :: "sample \<Rightarrow> bool" where
  "buffers_allocated s \<longleftrightarrow>
     uniform_buffers_common s \<noteq> None \<and>
     uniform_buffers_dynamically_tessellation s \<noteq> None \<and>
     uniform_buffers_statically_tessellation s \<noteq> None"

text \<open>How often a member function of the class was entered.\<close>

definition invocations :: "string \<Rightarrow> call list \<Rightarrow> nat" where
  "invocations name cs = length (filter (\<lambda>c. c = Invoke name) cs)"

text \<open>The calls of one run of \<^verbatim>\<open>update_uniform_buffers\<close> that writes \<open>u\<close> to the common
  buffer and \<open>t\<close> to both tessellation buffers.\<close>

definition update_calls :: "ubo_common_t \<Rightarrow> ubo_tess_t \<Rightarrow> call list" where
  "update_calls u t =
     [Invoke ''update_uniform_buffers'', Convert_and_update_common u,
      Convert_and_update_tess Buffer_dynamically_tessellation t,
      Convert_and_update_tess Buffer_statically_tessellation t]"

text \<open>The native calls of a list of calls that create a descriptor pool, allocate
  descriptor sets, update descriptor sets and create graphics pipelines, with their
  arguments, in order.\<close>

fun descriptor_pools :: "call list \<Rightarrow> VkDescriptorPoolCreateInfo list" where
  "descriptor_pools [] = []"
| "descriptor_pools (VkCreateDescriptorPool info # cs) = info # descriptor_pools cs"
| "descriptor_pools (c # cs) = descriptor_pools cs"

fun set_allocations :: "call list \<Rightarrow> VkDescriptorSetAllocateInfo list" where
  "set_allocations [] = []"
| "set_allocations (VkAllocateDescriptorSets info # cs) = info # set_allocations cs"
| "set_allocations (c # cs) = set_allocations cs"

fun descriptor_updates :: "call list \<Rightarrow> VkWriteDescriptorSet list list" where
  "descriptor_updates [] = []"
| "descriptor_updates (VkUpdateDescriptorSets n ws # cs) = take (unat n) ws # descriptor_updates cs"
| "descriptor_updates (c # cs) = descriptor_updates cs"

fun pipeline_creations :: "call list \<Rightarrow> (handle \<times> 32 word \<times> VkGraphicsPipelineCreateInfo) list" where
  "pipeline_creations [] = []"
| "pipeline_creations (VkCreateGraphicsPipelines cache n info # cs) = (cache, n, info) # pipeline_creations cs"
| "pipeline_creations (c # cs) = pipeline_creations cs"

text \<open>The number of descriptors of one type that a pool is created for, and the number
  of sets that a list of calls allocates from a pool.\<close>

definition pool_capacity :: "VkDescriptorPoolCreateInfo \<Rightarrow> VkDescriptorType \<Rightarrow> nat" where
  "pool_capacity info ty =
     sum_list (map (\<lambda>p. unat (pool_descriptor_count p))
       (filter (\<lambda>p. pool_descriptor_type p = ty) (take (unat (poolSizeCount info)) (pPoolSizes info))))"

definition sets_allocated :: "handle \<Rightarrow> call list \<Rightarrow> nat" where
  "sets_allocated pool cs =
     sum_list (map (\<lambda>a. unat (descriptorSetCount a))
       (filter (\<lambda>a. alloc_descriptorPool a = pool) (set_allocations cs)))"

definition descriptors_written :: "VkDescriptorType \<Rightarrow> call list \<Rightarrow> nat" where
  "descriptors_written ty cs =
     length (filter (\<lambda>w. write_descriptor_type w = ty) (concat (descriptor_updates cs)))"

text \<open>The calls of one iteration of the loop of \<^verbatim>\<open>build_command_buffers\<close> that records
  into the command buffer \<open>cb\<close> for the framebuffer \<open>fb\<close>.\<close>

definition iteration_calls :: "sample \<Rightarrow> handle \<Rightarrow> handle \<Rightarrow> call list" where
  "iteration_calls s cb fb =
     VkBeginCommandBuffer cb # map (Record cb) (fst (record_commands s fb)) @ [VkEndCommandBuffer cb]"

text \<open>A recorded command with the framebuffer of its render pass replaced.\<close>

fun with_framebuffer :: "handle \<Rightarrow> cmd \<Rightarrow> cmd" where
  "with_framebuffer fb (CmdBeginRenderPass info subpass) =
     CmdBeginRenderPass (info\<lparr>framebuffer := fb\<rparr>) subpass"
| "with_framebuffer fb c = c"

text \<open>A call that records a command buffer, and the command buffers that the queue
  submissions of a list of calls hand over.\<close>

fun is_recording :: "call \<Rightarrow> bool" where
  "is_recording (VkBeginCommandBuffer cb) = True"
| "is_recording (Record cb c) = True"
| "is_recording (VkEndCommandBuffer cb) = True"
| "is_recording c = (c = Invoke ''build_command_buffers'')"

fun submissions :: "call list \<Rightarrow> handle list list" where
  "submissions [] = []"
| "submissions (VkQueueSubmit q n info fence # cs) =
     take (unat (commandBufferCount info)) (pCommandBuffers info) # submissions cs"
| "submissions (c # cs) = submissions cs"

text \<open>The commands that set dynamic state of the two extensions, and the one that sets the
  number of patch control points.\<close>

fun is_extension_command :: "cmd \<Rightarrow> bool" where
  "is_extension_command (CmdSetPrimitiveTopologyEXT t) = True"
| "is_extension_command (CmdSetPrimitiveRestartEnableEXT b) = True"
| "is_extension_command (CmdSetPatchControlPointsEXT n) = True"
| "is_extension_command c = False"

fun is_patch_control_points :: "cmd \<Rightarrow> bool" where
  "is_patch_control_points (CmdSetPatchControlPointsEXT n) = True"
| "is_patch_control_points c = False"

fun records_patch_control_points :: "call \<Rightarrow> bool" where
  "records_patch_control_points (Record cb c) = is_patch_control_points c"
| "records_patch_control_points c = False"

text \<open>The draws of a command list: for each \<^verbatim>\<open>draw_model\<close> the pipeline bound and the push
  constants pushed when it is recorded, and the model drawn.\<close>

fun draws_from :: "handle option \<Rightarrow> vec3 option \<Rightarrow> cmd list \<Rightarrow> (handle option \<times> vec3 option \<times> sub_mesh option) list" where
  "draws_from p d [] = []"
| "draws_from p d (CmdBindPipeline bind_point h # cs) = draws_from (Some h) d cs"
| "draws_from p d (CmdPushConstants lay stages off sz v # cs) = draws_from p (Some v) cs"
| "draws_from p d (Draw_model m # cs) = (p, d, m) # draws_from p d cs"
| "draws_from p d (c # cs) = draws_from p d cs"

text \<open>The member functions entered by a list of calls, in order.\<close>

fun invoked :: "call list \<Rightarrow> string list" where
  "invoked [] = []"
| "invoked (Invoke name # cs) = name # invoked cs"
| "invoked (c # cs) = invoked cs"

text \<open>Whether a member function returned, and the calls it performed if it did.\<close>

fun returned :: "'s outcome \<Rightarrow> bool" where
  "returned (Inr r) = True"
| "returned (Inl e) = False"

fun calls_of :: "'s outcome \<Rightarrow> call list" where
  "calls_of (Inr (s, cs)) = cs"
| "calls_of (Inl e) = []"

text \<open>Every native call that \<^verbatim>\<open>prepare\<close> checks succeeds: the nine calls outside the loop of
  \<^verbatim>\<open>build_command_buffers\<close>, and the two calls of each of its iterations, for which a
  framebuffer exists.\<close>

definition setup_succeeds :: "native \<Rightarrow> bool" where
  "setup_succeeds nv \<longleftrightarrow>
     fst (vkCreateDescriptorPool_result nv) = VK_SUCCESS \<and>
     fst (vkCreateDescriptorSetLayout_result_1 nv) = VK_SUCCESS \<and>
     fst (vkCreatePipelineLayout_result_1 nv) = VK_SUCCESS \<and>
     fst (vkCreateDescriptorSetLayout_result_2 nv) = VK_SUCCESS \<and>
     fst (vkCreatePipelineLayout_result_2 nv) = VK_SUCCESS \<and>
     fst (vkAllocateDescriptorSets_result_1 nv) = VK_SUCCESS \<and>
     fst (vkAllocateDescriptorSets_result_2 nv) = VK_SUCCESS \<and>
     fst (vkCreateGraphicsPipelines_result_1 nv) = VK_SUCCESS \<and>
     fst (vkCreateGraphicsPipelines_result_2 nv) = VK_SUCCESS"

definition recording_succeeds :: "native \<Rightarrow> sample \<Rightarrow> bool" where
  "recording_succeeds nv s \<longleftrightarrow>
     length (draw_cmd_buffers s) \<le> length (framebuffers s) \<and>
     (\<forall>i < length (draw_cmd_buffers s).
        vkBeginCommandBuffer_result nv i = VK_SUCCESS \<and> vkEndCommandBuffer_result nv i = VK_SUCCESS)"

text \<open>An error that comes from \<^verbatim>\<open>VK_CHECK\<close>: a native result code other than success.\<close>

fun from_VK_CHECK :: "error \<Rightarrow> bool" where
  "from_VK_CHECK (VK_CHECK_failed r) = (r \<noteq> VK_SUCCESS)"
| "from_VK_CHECK e = False"

text \<open>The framebuffers of the render passes that a command list begins.\<close>

fun render_pass_framebuffers :: "cmd list \<Rightarrow> handle list" where
  "render_pass_framebuffers [] = []"
| "render_pass_framebuffers (CmdBeginRenderPass info subpass # cs) =
     framebuffer info # render_pass_framebuffers cs"
| "render_pass_framebuffers (c # cs) = render_pass_framebuffers cs"

text \<open>The dynamic state commands of the two extensions that a command list records before
  each of its draws: for every \<^verbatim>\<open>draw_model\<close>, those recorded since the draw before it,
  \<open>acc\<close> being the ones met so far.\<close>

fun extension_commands_before_draws :: "cmd list \<Rightarrow> cmd list \<Rightarrow> cmd list list" where
  "extension_commands_before_draws acc [] = []"
| "extension_commands_before_draws acc (Draw_model m # cs) =
     acc # extension_commands_before_draws [] cs"
| "extension_commands_before_draws acc (c # cs) =
     extension_commands_before_draws (if is_extension_command c then acc @ [c] else acc) cs"

text \<open>The first native result code of a list that is not success: the one that ends a
  function in which every one of these results is checked, in this order.\<close>

definition first_failure :: "VkResult list \<Rightarrow> VkResult option" where
  "first_failure rs = find (\<lambda>r. r \<noteq> VK_SUCCESS) rs"

text \<open>The results of the two checked calls of each iteration of the recording loop, for
  \<open>n\<close> command buffers, in program order.\<close>

definition recording_results :: "native \<Rightarrow> nat \<Rightarrow> VkResult list" where
  "recording_results nv n =
     concat (map (\<lambda>i. [vkBeginCommandBuffer_result nv i, vkEndCommandBuffer_result nv i]) [0..<n])"

section \<open>Concrete objects\<close>

definition example_object :: sample where
  "example_object =
     \<lparr>title = ''Extended Dynamic State2'',
      camera = \<lparr>camera_type = FirstPerson, updated = True, matrices_perspective = [], matrices_view = []\<rparr>,
      width = 1280, height = 720, prepared = False,
      device_features = \<lparr>tessellationShader = True, fillModeNonSolid = True, samplerAnisotropy = False\<rparr>,
      queue = 1, render_pass = 2, pipeline_cache = 3,
      framebuffers = [10, 11], draw_cmd_buffers = [20, 21], current_buffer = 0,
      submit_info = \<lparr>commandBufferCount = 0, pCommandBuffers = []\<rparr>,
      models_terrain_one = None, models_terrain_two = None,
      uniform_buffers_common = None,
      uniform_buffers_dynamically_tessellation = None,
      uniform_buffers_statically_tessellation = None,
      ubo_common = \<lparr>projection = [], view = []\<rparr>,
      ubo_tess = \<lparr>tessellation_factor = 0\<rparr>,
      gui_settings_tessellation = True, gui_settings_tess_factor = 3.0,
      push_const_block_direction = (0, 0, 0),
      descriptor_pool = 0,
      descriptor_set_layouts_statically_tessellation = 0,
      descriptor_set_layouts_dynamically_tessellation = 0,
      pipeline_layouts_statically_tessellation = 0,
      pipeline_layouts_dynamically_tessellation = 0,
      descriptor_sets_statically_tessellation = 0,
      descriptor_sets_dynamically_tessellation = 0,
      pipeline_statically_tessellation = 0,
      pipeline_dynamically_tessellation = 0\<rparr>"

definition example_prepared :: sample where
  "example_prepared =
     example_object
       \<lparr>prepared := True,
        uniform_buffers_common :=
          make_buffer Sizeof_ubo_common VK_BUFFER_USAGE_UNIFORM_BUFFER_BIT VMA_MEMORY_USAGE_CPU_TO_GPU,
        uniform_buffers_dynamically_tessellation :=
          make_buffer Sizeof_ubo_tess VK_BUFFER_USAGE_UNIFORM_BUFFER_BIT VMA_MEMORY_USAGE_CPU_TO_GPU,
        uniform_buffers_statically_tessellation :=
          make_buffer Sizeof_ubo_tess VK_BUFFER_USAGE_UNIFORM_BUFFER_BIT VMA_MEMORY_USAGE_CPU_TO_GPU,
        models_terrain_one := load_model ''scenes/terrain.gltf'',
        models_terrain_two := load_model ''scenes/terrain.gltf'',
        descriptor_pool := 30,
        descriptor_set_layouts_statically_tessellation := 31,
        pipeline_layouts_statically_tessellation := 32,
        descriptor_set_layouts_dynamically_tessellation := 33,
        pipeline_layouts_dynamically_tessellation := 34,
        descriptor_sets_statically_tessellation := 35,
        descriptor_sets_dynamically_tessellation := 36,
        pipeline_statically_tessellation := 37,
        pipeline_dynamically_tessellation := 38\<rparr>"

definition example_still :: sample where
  "example_still = example_prepared\<lparr>camera := (camera example_prepared)\<lparr>updated := False\<rparr>\<rparr>"

definition example_framework :: framework where
  "example_framework =
     \<lparr>base_prepare = (\<lambda>s. (True, s)),
      prepare_frame = (\<lambda>s. s\<lparr>current_buffer := 1\<rparr>),
      submit_frame = (\<lambda>s. s),
      set_position = (\<lambda>v c. c),
      set_rotation = (\<lambda>v c. c),
      set_perspective = (\<lambda>fov w h znear zfar c. c)\<rparr>"

definition example_framework_failing :: framework where
  "example_framework_failing = example_framework\<lparr>base_prepare := (\<lambda>s. (False, s))\<rparr>"

definition example_native :: native where
  "example_native =
     \<lparr>vkQueueSubmit_result = VK_SUCCESS,
      vkCreateDescriptorPool_result = (VK_SUCCESS, 30),
      vkCreateDescriptorSetLayout_result_1 = (VK_SUCCESS, 31),
      vkCreatePipelineLayout_result_1 = (VK_SUCCESS, 32),
      vkCreateDescriptorSetLayout_result_2 = (VK_SUCCESS, 33),
      vkCreatePipelineLayout_result_2 = (VK_SUCCESS, 34),
      vkAllocateDescriptorSets_result_1 = (VK_SUCCESS, 35),
      vkAllocateDescriptorSets_result_2 = (VK_SUCCESS, 36),
      vkCreateGraphicsPipelines_result_1 = (VK_SUCCESS, 37),
      vkCreateGraphicsPipelines_result_2 = (VK_SUCCESS, 38),
      vkBeginCommandBuffer_result = (\<lambda>i. VK_SUCCESS),
      vkEndCommandBuffer_result = (\<lambda>i. VK_SUCCESS)\<rparr>"

definition example_gpu :: PhysicalDevice where
  "example_gpu =
     \<lparr>features = \<lparr>tessellationShader = True, fillModeNonSolid = True, samplerAnisotropy = False\<rparr>,
      requested_features = \<lparr>tessellationShader = False, fillModeNonSolid = False, samplerAnisotropy = False\<rparr>,
      extended_dynamic_state2_features =
        \<lparr>extendedDynamicState2 = False, extendedDynamicState2PatchControlPoints = False\<rparr>,
      extended_dynamic_state_features = \<lparr>extendedDynamicState = False\<rparr>\<rparr>"

definition example_gpu_without_tessellation :: PhysicalDevice where
  "example_gpu_without_tessellation =
     example_gpu\<lparr>features :=
       \<lparr>tessellationShader = False, fillModeNonSolid = True, samplerAnisotropy = False\<rparr>\<rparr>"

definition example_native_failing :: native where
  "example_native_failing =
     example_native
       \<lparr>vkQueueSubmit_result := VK_RESULT_OTHER (- 4),
        vkCreateDescriptorPool_result := (VK_RESULT_OTHER (- 1), 0)\<rparr>"

definition example_native_all_failing :: native where
  "example_native_all_failing =
     \<lparr>vkQueueSubmit_result = VK_RESULT_OTHER (- 4),
      vkCreateDescriptorPool_result = (VK_RESULT_OTHER (- 1), 0),
      vkCreateDescriptorSetLayout_result_1 = (VK_SUCCESS, 31),
      vkCreatePipelineLayout_result_1 = (VK_SUCCESS, 32),
      vkCreateDescriptorSetLayout_result_2 = (VK_SUCCESS, 33),
      vkCreatePipelineLayout_result_2 = (VK_RESULT_OTHER (- 2), 0),
      vkAllocateDescriptorSets_result_1 = (VK_SUCCESS, 35),
      vkAllocateDescriptorSets_result_2 = (VK_RESULT_OTHER (- 1000069000), 0),
      vkCreateGraphicsPipelines_result_1 = (VK_SUCCESS, 37),
      vkCreateGraphicsPipelines_result_2 = (VK_RESULT_OTHER (- 1), 0),
      vkBeginCommandBuffer_result = (\<lambda>i. VK_SUCCESS),
      vkEndCommandBuffer_result = (\<lambda>i. if i = 1 then VK_RESULT_OTHER (- 2) else VK_SUCCESS)\<rparr>"

definition example_drawer :: Drawer where
  "example_drawer =
     \<lparr>header = (\<lambda>caption. True),
      checkbox = (\<lambda>caption v. (True, \<not> v)),
      slider_float = (\<lambda>caption v lo hi. (True, 4.0))\<rparr>"

section \<open>Properties\<close>

subsection \<open>Shared lemmas\<close>

lemma invocations_simps [simp]:
  "invocations n [] = 0"
  "invocations n (c # cs) = (if c = Invoke n then 1 else 0) + invocations n cs"
  "invocations n (cs @ ds) = invocations n cs + invocations n ds"
  by (simp_all add: invocations_def)

lemma invocations_update_calls [simp]: "invocations ''update_uniform_buffers'' (update_calls u t) = 1"
  by (simp add: update_calls_def)

lemma update_uniform_buffers_returns:
  assumes "buffers_allocated s"
  shows "\<exists>s' u. update_uniform_buffers s = Inr (s', update_calls u (ubo_tess s')) \<and>
          buffers_allocated s' \<and>
          ubo_tess s' = \<lparr>tessellation_factor =
                           (if gui_settings_tessellation s then gui_settings_tess_factor s else 0)\<rparr> \<and>
          map_option contents (uniform_buffers_dynamically_tessellation s') = Some (Some (ubo_tess s')) \<and>
          map_option contents (uniform_buffers_statically_tessellation s') = Some (Some (ubo_tess s')) \<and>
          camera s' = camera s \<and> gui_settings_tessellation s' = gui_settings_tessellation s \<and>
          gui_settings_tess_factor s' = gui_settings_tess_factor s"
  using assms
  by (auto simp: buffers_allocated_def update_uniform_buffers_def convert_and_update_def performed_def
        Let_def update_calls_def split: option.splits)

lemma draw_calls:
  assumes "draw fw nv s = Inr (s1, ds)"
  shows "\<exists>si. ds = [Invoke ''draw'', Prepare_frame,
               VkQueueSubmit (queue (prepare_frame fw s)) 1 si VK_NULL_HANDLE, Submit_frame] \<and>
           commandBufferCount si = 1 \<and>
           pCommandBuffers si =
             [draw_cmd_buffers (prepare_frame fw s) ! unat (current_buffer (prepare_frame fw s))] \<and>
           unat (current_buffer (prepare_frame fw s)) < length (draw_cmd_buffers (prepare_frame fw s)) \<and>
           vkQueueSubmit_result nv = VK_SUCCESS"
  using assms
  by (auto simp add: draw_def Let_def and_then_def performed_def VK_CHECK_def split: if_splits)

lemma buffers_allocated_example_prepared: "buffers_allocated example_prepared"
  by (simp add: buffers_allocated_def example_prepared_def make_buffer_def)

subsection \<open>Uniform buffer updates\<close>

text \<open>
  C8. Whenever the three uniform buffers exist, \<^verbatim>\<open>update_uniform_buffers\<close> returns; the
  tessellation factor it writes is \<open>gui_settings.tess_factor\<close> when
  \<open>gui_settings.tessellation\<close> is true and 0.0 when it is false; the same \<open>ubo_tess\<close>
  value is written to the dynamically_tessellation and to the statically_tessellation
  buffer, and afterwards both buffers hold that value.
\<close>

theorem update_uniform_buffers_tessellation_factor:
  assumes "buffers_allocated s"
  shows "\<exists>s' u t d st.
           update_uniform_buffers s =
             Inr (s', [Invoke ''update_uniform_buffers'', Convert_and_update_common u,
                       Convert_and_update_tess Buffer_dynamically_tessellation t,
                       Convert_and_update_tess Buffer_statically_tessellation t]) \<and>
           tessellation_factor t =
             (if gui_settings_tessellation s then gui_settings_tess_factor s else 0) \<and>
           uniform_buffers_dynamically_tessellation s' = Some d \<and>
           uniform_buffers_statically_tessellation s' = Some st \<and>
           contents d = Some t \<and> contents st = Some t \<and> contents d = contents st"
proof -
  from update_uniform_buffers_returns [OF assms] obtain s' u where
    r: "update_uniform_buffers s = Inr (s', update_calls u (ubo_tess s'))" and
    t: "ubo_tess s' = \<lparr>tessellation_factor =
                         (if gui_settings_tessellation s then gui_settings_tess_factor s else 0)\<rparr>" and
    d: "map_option contents (uniform_buffers_dynamically_tessellation s') = Some (Some (ubo_tess s'))" and
    st: "map_option contents (uniform_buffers_statically_tessellation s') = Some (Some (ubo_tess s'))"
    by blast
  from d obtain b1 where b1: "uniform_buffers_dynamically_tessellation s' = Some b1"
    "contents b1 = Some (ubo_tess s')" by auto
  from st obtain b2 where b2: "uniform_buffers_statically_tessellation s' = Some b2"
    "contents b2 = Some (ubo_tess s')" by auto
  have "tessellation_factor (ubo_tess s') =
          (if gui_settings_tessellation s then gui_settings_tess_factor s else 0)"
    by (subst t) simp
  with r b1 b2 show ?thesis
    unfolding update_calls_def by fastforce
qed

theorem update_uniform_buffers_tessellation_factor_witness:
  "buffers_allocated example_prepared \<and>
   (\<exists>s' u d st.
      update_uniform_buffers example_prepared =
        Inr (s', [Invoke ''update_uniform_buffers'', Convert_and_update_common u,
                  Convert_and_update_tess Buffer_dynamically_tessellation \<lparr>tessellation_factor = 3\<rparr>,
                  Convert_and_update_tess Buffer_statically_tessellation \<lparr>tessellation_factor = 3\<rparr>]) \<and>
      uniform_buffers_dynamically_tessellation s' = Some d \<and>
      uniform_buffers_statically_tessellation s' = Some st \<and>
      contents d = Some \<lparr>tessellation_factor = 3\<rparr> \<and> contents d = contents st)"
proof -
  have g: "gui_settings_tessellation example_prepared" "gui_settings_tess_factor example_prepared = 3"
    by (simp_all add: example_prepared_def example_object_def)
  from update_uniform_buffers_tessellation_factor [OF buffers_allocated_example_prepared]
  obtain s' u t d st where
    r: "update_uniform_buffers example_prepared =
          Inr (s', [Invoke ''update_uniform_buffers'', Convert_and_update_common u,
                    Convert_and_update_tess Buffer_dynamically_tessellation t,
                    Convert_and_update_tess Buffer_statically_tessellation t])"
      "tessellation_factor t =
         (if gui_settings_tessellation example_prepared
          then gui_settings_tess_factor example_prepared else 0)"
      "uniform_buffers_dynamically_tessellation s' = Some d"
      "uniform_buffers_statically_tessellation s' = Some st"
      "contents d = Some t" "contents st = Some t"
    by blast
  from r(2) g have "t = \<lparr>tessellation_factor = 3\<rparr>" by simp
  with r buffers_allocated_example_prepared show ?thesis by auto
qed


subsection \<open>When the uniform buffers are updated\<close>

text \<open>
  C3. A call of \<^verbatim>\<open>render\<close> on a prepared object first performs the calls of \<^verbatim>\<open>draw\<close>,
  none of which is \<^verbatim>\<open>update_uniform_buffers\<close>, and then enters \<^verbatim>\<open>update_uniform_buffers\<close>
  once if \<open>camera.updated\<close> is set and not at all otherwise. A call of
  \<^verbatim>\<open>on_update_ui_overlay\<close> enters \<^verbatim>\<open>update_uniform_buffers\<close> once for the tessellation
  checkbox if the checkbox reports a change and once for the tessellation factor slider if
  the slider reports a change (the two widgets are shown under the header ``Settings'').
\<close>

theorem uniform_buffers_updated_on_change:
  "(prepared s \<and> draw fw nv s = Inr (s1, ds) \<and> buffers_allocated s1 \<longrightarrow>
      (\<exists>s' us. render fw nv delta_time s = Inr (s', Invoke ''render'' # ds @ us) \<and>
         invocations ''update_uniform_buffers'' ds = 0 \<and>
         invocations ''update_uniform_buffers'' us = (if updated (camera s1) then 1 else 0))) \<and>
   (buffers_allocated s \<longrightarrow>
      (\<exists>s' cs. on_update_ui_overlay drawer s = Inr (s', cs) \<and>
         invocations ''update_uniform_buffers'' cs =
           (if header drawer ''Settings''
            then (if fst (checkbox drawer ''Tessellation Enable'' (gui_settings_tessellation s)) then 1 else 0) +
                 (if fst (slider_float drawer ''Tessellation Factor'' (gui_settings_tess_factor s) 1 6) then 1 else 0)
            else 0)))"
proof (intro conjI impI)
  assume a: "prepared s \<and> draw fw nv s = Inr (s1, ds) \<and> buffers_allocated s1"
  from a draw_calls have nd: "invocations ''update_uniform_buffers'' ds = 0"
    by fastforce
  show "\<exists>s' us. render fw nv delta_time s = Inr (s', Invoke ''render'' # ds @ us) \<and>
         invocations ''update_uniform_buffers'' ds = 0 \<and>
         invocations ''update_uniform_buffers'' us = (if updated (camera s1) then 1 else 0)"
  proof (cases "updated (camera s1)")
    case True
    from a update_uniform_buffers_returns [of s1] obtain s' u where
      "update_uniform_buffers s1 = Inr (s', update_calls u (ubo_tess s'))" by blast
    with a True nd show ?thesis
      by (simp add: render_def and_then_def performed_def)
  next
    case False
    with a nd show ?thesis
      by (simp add: render_def and_then_def performed_def)
  qed
next
  assume b: "buffers_allocated s"
  let ?c = "checkbox drawer ''Tessellation Enable'' (gui_settings_tessellation s)"
  let ?f = "slider_float drawer ''Tessellation Factor'' (gui_settings_tess_factor s) 1 6"
  let ?s1 = "s\<lparr>gui_settings_tessellation := snd ?c\<rparr>"
  have b1: "buffers_allocated ?s1" using b by (simp add: buffers_allocated_def)
  obtain s2 us where s2: "(if fst ?c then update_uniform_buffers ?s1 else performed [] ?s1) = Inr (s2, us)"
    and us: "invocations ''update_uniform_buffers'' us = (if fst ?c then 1 else 0)"
    and b2: "buffers_allocated s2" and f2: "gui_settings_tess_factor s2 = gui_settings_tess_factor s"
  proof (cases "fst ?c")
    case True
    from update_uniform_buffers_returns [OF b1] obtain s' u where
      "update_uniform_buffers ?s1 = Inr (s', update_calls u (ubo_tess s'))" "buffers_allocated s'"
      "gui_settings_tess_factor s' = gui_settings_tess_factor ?s1" by blast
    with True that show ?thesis by simp
  next
    case False
    with b1 that [of ?s1 "[]"] show ?thesis by (simp add: performed_def)
  qed
  let ?s3 = "s2\<lparr>gui_settings_tess_factor := snd ?f\<rparr>"
  have b3: "buffers_allocated ?s3" using b2 by (simp add: buffers_allocated_def)
  obtain s4 vs where s4: "(if fst ?f then update_uniform_buffers ?s3 else performed [] ?s3) = Inr (s4, vs)"
    and vs: "invocations ''update_uniform_buffers'' vs = (if fst ?f then 1 else 0)"
  proof (cases "fst ?f")
    case True
    from update_uniform_buffers_returns [OF b3] obtain s' u where
      "update_uniform_buffers ?s3 = Inr (s', update_calls u (ubo_tess s'))" by blast
    with True that show ?thesis by simp
  next
    case False
    with that [of ?s3 "[]"] show ?thesis by (simp add: performed_def)
  qed
  show "\<exists>s' cs. on_update_ui_overlay drawer s = Inr (s', cs) \<and>
         invocations ''update_uniform_buffers'' cs =
           (if header drawer ''Settings''
            then (if fst ?c then 1 else 0) + (if fst ?f then 1 else 0)
            else 0)"
  proof (cases "header drawer ''Settings''")
    case True
    with s2 us s4 vs f2 show ?thesis
      by (cases "fst ?c"; cases "fst ?f";
          simp add: on_update_ui_overlay_def and_then_def performed_def Let_def)
  next
    case False
    then show ?thesis
      by (simp add: on_update_ui_overlay_def and_then_def performed_def)
  qed
qed

theorem uniform_buffers_updated_on_change_witness:
  "prepared example_prepared \<and>
   draw example_framework example_native example_prepared =
     Inr (example_prepared\<lparr>current_buffer := 1,
                            submit_info := \<lparr>commandBufferCount = 1, pCommandBuffers = [21]\<rparr>\<rparr>,
          [Invoke ''draw'', Prepare_frame,
           VkQueueSubmit 1 1 \<lparr>commandBufferCount = 1, pCommandBuffers = [21]\<rparr> VK_NULL_HANDLE,
           Submit_frame]) \<and>
   buffers_allocated example_prepared \<and>
   (\<exists>s' us. render example_framework example_native 0 example_prepared =
               Inr (s', Invoke ''render'' #
                        [Invoke ''draw'', Prepare_frame,
                         VkQueueSubmit 1 1 \<lparr>commandBufferCount = 1, pCommandBuffers = [21]\<rparr> VK_NULL_HANDLE,
                         Submit_frame] @ us) \<and>
             invocations ''update_uniform_buffers'' us = 1) \<and>
   (\<exists>s' cs. on_update_ui_overlay example_drawer example_prepared = Inr (s', cs) \<and>
             invocations ''update_uniform_buffers'' cs = 2)"
proof -
  let ?s1 = "example_prepared\<lparr>current_buffer := 1,
                               submit_info := \<lparr>commandBufferCount = 1, pCommandBuffers = [21]\<rparr>\<rparr>"
  let ?ds = "[Invoke ''draw'', Prepare_frame,
              VkQueueSubmit 1 1 \<lparr>commandBufferCount = 1, pCommandBuffers = [21]\<rparr> VK_NULL_HANDLE,
              Submit_frame]"
  have p: "prepared example_prepared"
    by (simp add: example_prepared_def)
  have d: "draw example_framework example_native example_prepared = Inr (?s1, ?ds)"
    by (simp add: draw_def example_framework_def example_native_def example_prepared_def
          example_object_def and_then_def performed_def VK_CHECK_def Let_def)
  have b1: "buffers_allocated ?s1"
    using buffers_allocated_example_prepared by (simp add: buffers_allocated_def)
  have u: "updated (camera ?s1)"
    by (simp add: example_prepared_def example_object_def)
  have h: "header example_drawer ''Settings''"
    "fst (checkbox example_drawer ''Tessellation Enable'' (gui_settings_tessellation example_prepared))"
    "fst (slider_float example_drawer ''Tessellation Factor'' (gui_settings_tess_factor example_prepared) 1 6)"
    by (simp_all add: example_drawer_def)
  from uniform_buffers_updated_on_change
    [of example_prepared example_framework example_native ?s1 ?ds 0 example_drawer]
    p d b1 u h buffers_allocated_example_prepared
  show ?thesis by (simp add: numeral_2_eq_2)
qed


lemma and_then_performed [simp]:
  "and_then (performed cs s) f =
     (case f s of Inl e \<Rightarrow> Inl e | Inr (s', cs') \<Rightarrow> Inr (s', cs @ cs'))"
  by (simp add: and_then_def performed_def)

lemma and_then_Inr [simp]:
  "and_then (Inr (s, cs)) f =
     (case f s of Inl e \<Rightarrow> Inl e | Inr (s', cs') \<Rightarrow> Inr (s', cs @ cs'))"
  by (simp add: and_then_def)

lemma and_then_Inl [simp]: "and_then (Inl e) f = Inl e"
  by (simp add: and_then_def)

lemma VK_CHECK_success [simp]: "VK_CHECK VK_SUCCESS c s = Inr (s, [c])"
  by (simp add: VK_CHECK_def)

lemma create_descriptor_pool_returns:
  assumes "fst (vkCreateDescriptorPool_result nv) = VK_SUCCESS"
  shows "create_descriptor_pool nv s =
           Inr (s\<lparr>descriptor_pool := snd (vkCreateDescriptorPool_result nv)\<rparr>,
                [Invoke ''create_descriptor_pool'',
                 VkCreateDescriptorPool
                   \<lparr>poolSizeCount = 2,
                    pPoolSizes =
                      [\<lparr>pool_descriptor_type = VK_DESCRIPTOR_TYPE_UNIFORM_BUFFER, pool_descriptor_count = 5\<rparr>,
                       \<lparr>pool_descriptor_type = VK_DESCRIPTOR_TYPE_COMBINED_IMAGE_SAMPLER,
                        pool_descriptor_count = 1\<rparr>],
                    maxSets = 3\<rparr>])"
  using assms by (simp add: create_descriptor_pool_def Let_def performed_def)

lemma create_descriptor_sets_returns:
  assumes "fst (vkAllocateDescriptorSets_result_1 nv) = VK_SUCCESS"
    and "fst (vkAllocateDescriptorSets_result_2 nv) = VK_SUCCESS"
    and "buffers_allocated s"
  shows "\<exists>cs. create_descriptor_sets nv s =
           Inr (s\<lparr>descriptor_sets_statically_tessellation := snd (vkAllocateDescriptorSets_result_1 nv),
                  descriptor_sets_dynamically_tessellation := snd (vkAllocateDescriptorSets_result_2 nv)\<rparr>,
                Invoke ''create_descriptor_sets'' # cs) \<and>
           invoked cs = [] \<and> descriptor_pools cs = [] \<and> pipeline_creations cs = [] \<and>
           set_allocations cs =
             [\<lparr>alloc_descriptorPool = descriptor_pool s,
               alloc_pSetLayouts = [descriptor_set_layouts_statically_tessellation s],
               descriptorSetCount = 1\<rparr>,
              \<lparr>alloc_descriptorPool = descriptor_pool s,
               alloc_pSetLayouts = [descriptor_set_layouts_dynamically_tessellation s],
               descriptorSetCount = 1\<rparr>] \<and>
           descriptor_updates cs =
             [[\<lparr>dstSet = snd (vkAllocateDescriptorSets_result_1 nv),
                write_descriptor_type = VK_DESCRIPTOR_TYPE_UNIFORM_BUFFER, dstBinding = 0,
                pBufferInfo = Buffer_common\<rparr>,
               \<lparr>dstSet = snd (vkAllocateDescriptorSets_result_1 nv),
                write_descriptor_type = VK_DESCRIPTOR_TYPE_UNIFORM_BUFFER, dstBinding = 1,
                pBufferInfo = Buffer_statically_tessellation\<rparr>],
              [\<lparr>dstSet = snd (vkAllocateDescriptorSets_result_2 nv),
                write_descriptor_type = VK_DESCRIPTOR_TYPE_UNIFORM_BUFFER, dstBinding = 0,
                pBufferInfo = Buffer_common\<rparr>,
               \<lparr>dstSet = snd (vkAllocateDescriptorSets_result_2 nv),
                write_descriptor_type = VK_DESCRIPTOR_TYPE_UNIFORM_BUFFER, dstBinding = 1,
                pBufferInfo = Buffer_dynamically_tessellation\<rparr>]]"
  using assms
  by (auto simp add: create_descriptor_sets_def create_descriptor_def buffers_allocated_def Let_def
        performed_def)

lemma setup_descriptor_set_layout_returns:
  assumes "fst (vkCreateDescriptorSetLayout_result_1 nv) = VK_SUCCESS"
    and "fst (vkCreatePipelineLayout_result_1 nv) = VK_SUCCESS"
    and "fst (vkCreateDescriptorSetLayout_result_2 nv) = VK_SUCCESS"
    and "fst (vkCreatePipelineLayout_result_2 nv) = VK_SUCCESS"
  shows "\<exists>cs. setup_descriptor_set_layout nv s =
           Inr (s\<lparr>descriptor_set_layouts_statically_tessellation := snd (vkCreateDescriptorSetLayout_result_1 nv),
                  pipeline_layouts_statically_tessellation := snd (vkCreatePipelineLayout_result_1 nv),
                  descriptor_set_layouts_dynamically_tessellation := snd (vkCreateDescriptorSetLayout_result_2 nv),
                  pipeline_layouts_dynamically_tessellation := snd (vkCreatePipelineLayout_result_2 nv)\<rparr>,
                Invoke ''setup_descriptor_set_layout'' # cs) \<and> invoked cs = [] \<and>
           descriptor_pools cs = [] \<and> set_allocations cs = [] \<and> descriptor_updates cs = [] \<and>
           pipeline_creations cs = []"
  using assms by (simp add: setup_descriptor_set_layout_def Let_def performed_def)

lemma descriptor_pools_append [simp]: "descriptor_pools (cs @ ds) = descriptor_pools cs @ descriptor_pools ds"
  by (induction cs rule: descriptor_pools.induct) simp_all

lemma set_allocations_append [simp]: "set_allocations (cs @ ds) = set_allocations cs @ set_allocations ds"
  by (induction cs rule: set_allocations.induct) simp_all

lemma descriptor_updates_append [simp]:
  "descriptor_updates (cs @ ds) = descriptor_updates cs @ descriptor_updates ds"
  by (induction cs rule: descriptor_updates.induct) simp_all

lemma pipeline_creations_append [simp]:
  "pipeline_creations (cs @ ds) = pipeline_creations cs @ pipeline_creations ds"
  by (induction cs rule: pipeline_creations.induct) simp_all

subsection \<open>Descriptor pool\<close>

text \<open>
  C10. When the native calls succeed, \<^verbatim>\<open>create_descriptor_pool\<close>,
  \<^verbatim>\<open>setup_descriptor_set_layout\<close> and \<^verbatim>\<open>create_descriptor_sets\<close>, run in the order of
  \<^verbatim>\<open>prepare\<close>, create one pool, for 5 uniform buffer descriptors, 1 combined image sampler
  descriptor and at most 3 sets, allocate exactly 2 sets from that pool, and write 2 uniform
  buffer descriptors into each of the two sets: 4 uniform buffer descriptors and no sampler
  descriptor in total, within the capacity of the pool.
\<close>

theorem descriptor_allocations_within_pool_capacity:
  assumes "fst (vkCreateDescriptorPool_result nv) = VK_SUCCESS"
    and "fst (vkCreateDescriptorSetLayout_result_1 nv) = VK_SUCCESS"
    and "fst (vkCreatePipelineLayout_result_1 nv) = VK_SUCCESS"
    and "fst (vkCreateDescriptorSetLayout_result_2 nv) = VK_SUCCESS"
    and "fst (vkCreatePipelineLayout_result_2 nv) = VK_SUCCESS"
    and "fst (vkAllocateDescriptorSets_result_1 nv) = VK_SUCCESS"
    and "fst (vkAllocateDescriptorSets_result_2 nv) = VK_SUCCESS"
    and "buffers_allocated s"
  shows "\<exists>s1 c1 s2 c2 s3 c3 info.
           create_descriptor_pool nv s = Inr (s1, c1) \<and>
           setup_descriptor_set_layout nv s1 = Inr (s2, c2) \<and>
           create_descriptor_sets nv s2 = Inr (s3, c3) \<and>
           descriptor_pools (c1 @ c2 @ c3) = [info] \<and>
           descriptor_pool s3 = snd (vkCreateDescriptorPool_result nv) \<and>
           pool_capacity info VK_DESCRIPTOR_TYPE_UNIFORM_BUFFER = 5 \<and>
           pool_capacity info VK_DESCRIPTOR_TYPE_COMBINED_IMAGE_SAMPLER = 1 \<and>
           unat (maxSets info) = 3 \<and>
           length (set_allocations (c1 @ c2 @ c3)) = 2 \<and>
           sets_allocated (descriptor_pool s3) (c1 @ c2 @ c3) = 2 \<and>
           map (map (\<lambda>w. (dstSet w, write_descriptor_type w))) (descriptor_updates (c1 @ c2 @ c3)) =
             [[(descriptor_sets_statically_tessellation s3, VK_DESCRIPTOR_TYPE_UNIFORM_BUFFER),
               (descriptor_sets_statically_tessellation s3, VK_DESCRIPTOR_TYPE_UNIFORM_BUFFER)],
              [(descriptor_sets_dynamically_tessellation s3, VK_DESCRIPTOR_TYPE_UNIFORM_BUFFER),
               (descriptor_sets_dynamically_tessellation s3, VK_DESCRIPTOR_TYPE_UNIFORM_BUFFER)]] \<and>
           descriptors_written VK_DESCRIPTOR_TYPE_UNIFORM_BUFFER (c1 @ c2 @ c3) = 4 \<and>
           descriptors_written VK_DESCRIPTOR_TYPE_COMBINED_IMAGE_SAMPLER (c1 @ c2 @ c3) = 0 \<and>
           sets_allocated (descriptor_pool s3) (c1 @ c2 @ c3) \<le> unat (maxSets info) \<and>
           descriptors_written VK_DESCRIPTOR_TYPE_UNIFORM_BUFFER (c1 @ c2 @ c3)
             \<le> pool_capacity info VK_DESCRIPTOR_TYPE_UNIFORM_BUFFER \<and>
           descriptors_written VK_DESCRIPTOR_TYPE_COMBINED_IMAGE_SAMPLER (c1 @ c2 @ c3)
             \<le> pool_capacity info VK_DESCRIPTOR_TYPE_COMBINED_IMAGE_SAMPLER"
proof -
  let ?s1 = "s\<lparr>descriptor_pool := snd (vkCreateDescriptorPool_result nv)\<rparr>"
  note p = create_descriptor_pool_returns [OF assms(1), of s]
  from setup_descriptor_set_layout_returns [OF assms(2-5), of ?s1]
  obtain s2 c2 where
    l: "setup_descriptor_set_layout nv ?s1 = Inr (s2, Invoke ''setup_descriptor_set_layout'' # c2)"
      "descriptor_pools c2 = []" "set_allocations c2 = []" "descriptor_updates c2 = []"
    and s2: "s2 = ?s1\<lparr>descriptor_set_layouts_statically_tessellation :=
                          snd (vkCreateDescriptorSetLayout_result_1 nv),
                        pipeline_layouts_statically_tessellation := snd (vkCreatePipelineLayout_result_1 nv),
                        descriptor_set_layouts_dynamically_tessellation :=
                          snd (vkCreateDescriptorSetLayout_result_2 nv),
                        pipeline_layouts_dynamically_tessellation := snd (vkCreatePipelineLayout_result_2 nv)\<rparr>"
    by blast
  have b2: "buffers_allocated s2"
    using assms(8) by (simp add: s2 buffers_allocated_def)
  have p2: "descriptor_pool s2 = snd (vkCreateDescriptorPool_result nv)"
    by (simp add: s2)
  let ?s3 = "s2\<lparr>descriptor_sets_statically_tessellation := snd (vkAllocateDescriptorSets_result_1 nv),
                  descriptor_sets_dynamically_tessellation := snd (vkAllocateDescriptorSets_result_2 nv)\<rparr>"
  from create_descriptor_sets_returns [OF assms(6,7) b2]
  obtain c3 where
    d: "create_descriptor_sets nv s2 = Inr (?s3, Invoke ''create_descriptor_sets'' # c3)"
      "descriptor_pools c3 = []"
      "set_allocations c3 =
         [\<lparr>alloc_descriptorPool = descriptor_pool s2,
           alloc_pSetLayouts = [descriptor_set_layouts_statically_tessellation s2],
           descriptorSetCount = 1\<rparr>,
          \<lparr>alloc_descriptorPool = descriptor_pool s2,
           alloc_pSetLayouts = [descriptor_set_layouts_dynamically_tessellation s2],
           descriptorSetCount = 1\<rparr>]"
      "descriptor_updates c3 =
         [[\<lparr>dstSet = snd (vkAllocateDescriptorSets_result_1 nv),
            write_descriptor_type = VK_DESCRIPTOR_TYPE_UNIFORM_BUFFER, dstBinding = 0,
            pBufferInfo = Buffer_common\<rparr>,
           \<lparr>dstSet = snd (vkAllocateDescriptorSets_result_1 nv),
            write_descriptor_type = VK_DESCRIPTOR_TYPE_UNIFORM_BUFFER, dstBinding = 1,
            pBufferInfo = Buffer_statically_tessellation\<rparr>],
          [\<lparr>dstSet = snd (vkAllocateDescriptorSets_result_2 nv),
            write_descriptor_type = VK_DESCRIPTOR_TYPE_UNIFORM_BUFFER, dstBinding = 0,
            pBufferInfo = Buffer_common\<rparr>,
           \<lparr>dstSet = snd (vkAllocateDescriptorSets_result_2 nv),
            write_descriptor_type = VK_DESCRIPTOR_TYPE_UNIFORM_BUFFER, dstBinding = 1,
            pBufferInfo = Buffer_dynamically_tessellation\<rparr>]]"
    by blast
  let ?info = "\<lparr>poolSizeCount = 2,
                 pPoolSizes =
                   [\<lparr>pool_descriptor_type = VK_DESCRIPTOR_TYPE_UNIFORM_BUFFER, pool_descriptor_count = 5\<rparr>,
                    \<lparr>pool_descriptor_type = VK_DESCRIPTOR_TYPE_COMBINED_IMAGE_SAMPLER,
                     pool_descriptor_count = 1\<rparr>],
                 maxSets = 3\<rparr>"
  have cap: "pool_capacity ?info VK_DESCRIPTOR_TYPE_UNIFORM_BUFFER = 5"
    "pool_capacity ?info VK_DESCRIPTOR_TYPE_COMBINED_IMAGE_SAMPLER = 1"
    "unat (maxSets ?info) = 3"
    by (simp_all add: pool_capacity_def)
  show ?thesis
    apply (rule exI [of _ ?s1])
    apply (rule exI [of _ "[Invoke ''create_descriptor_pool'', VkCreateDescriptorPool ?info]"])
    apply (rule exI [of _ s2])
    apply (rule exI [of _ "Invoke ''setup_descriptor_set_layout'' # c2"])
    apply (rule exI [of _ ?s3])
    apply (rule exI [of _ "Invoke ''create_descriptor_sets'' # c3"])
    apply (rule exI [of _ ?info])
    apply (simp only: cap)
    apply (simp add: p l d p2 sets_allocated_def descriptors_written_def)
    done
qed

theorem descriptor_allocations_within_pool_capacity_witness:
  "fst (vkCreateDescriptorPool_result example_native) = VK_SUCCESS \<and>
   fst (vkCreateDescriptorSetLayout_result_1 example_native) = VK_SUCCESS \<and>
   fst (vkCreatePipelineLayout_result_1 example_native) = VK_SUCCESS \<and>
   fst (vkCreateDescriptorSetLayout_result_2 example_native) = VK_SUCCESS \<and>
   fst (vkCreatePipelineLayout_result_2 example_native) = VK_SUCCESS \<and>
   fst (vkAllocateDescriptorSets_result_1 example_native) = VK_SUCCESS \<and>
   fst (vkAllocateDescriptorSets_result_2 example_native) = VK_SUCCESS \<and>
   buffers_allocated example_prepared \<and>
   (\<exists>s1 c1 s2 c2 s3 c3 info.
      create_descriptor_pool example_native example_prepared = Inr (s1, c1) \<and>
      setup_descriptor_set_layout example_native s1 = Inr (s2, c2) \<and>
      create_descriptor_sets example_native s2 = Inr (s3, c3) \<and>
      descriptor_pools (c1 @ c2 @ c3) = [info] \<and>
      descriptor_pool s3 = 30 \<and>
      unat (maxSets info) = 3 \<and>
      sets_allocated 30 (c1 @ c2 @ c3) = 2 \<and>
      descriptors_written VK_DESCRIPTOR_TYPE_UNIFORM_BUFFER (c1 @ c2 @ c3) = 4 \<and>
      pool_capacity info VK_DESCRIPTOR_TYPE_UNIFORM_BUFFER = 5)"
proof -
  have h: "fst (vkCreateDescriptorPool_result example_native) = VK_SUCCESS"
    "fst (vkCreateDescriptorSetLayout_result_1 example_native) = VK_SUCCESS"
    "fst (vkCreatePipelineLayout_result_1 example_native) = VK_SUCCESS"
    "fst (vkCreateDescriptorSetLayout_result_2 example_native) = VK_SUCCESS"
    "fst (vkCreatePipelineLayout_result_2 example_native) = VK_SUCCESS"
    "fst (vkAllocateDescriptorSets_result_1 example_native) = VK_SUCCESS"
    "fst (vkAllocateDescriptorSets_result_2 example_native) = VK_SUCCESS"
    by (simp_all add: example_native_def)
  have p: "snd (vkCreateDescriptorPool_result example_native) = 30"
    by (simp add: example_native_def)
  from descriptor_allocations_within_pool_capacity [OF h buffers_allocated_example_prepared]
  obtain s1 c1 s2 c2 s3 c3 info where
    "create_descriptor_pool example_native example_prepared = Inr (s1, c1)"
    "setup_descriptor_set_layout example_native s1 = Inr (s2, c2)"
    "create_descriptor_sets example_native s2 = Inr (s3, c3)"
    "descriptor_pools (c1 @ c2 @ c3) = [info]"
    "descriptor_pool s3 = snd (vkCreateDescriptorPool_result example_native)"
    "unat (maxSets info) = 3"
    "sets_allocated (descriptor_pool s3) (c1 @ c2 @ c3) = 2"
    "descriptors_written VK_DESCRIPTOR_TYPE_UNIFORM_BUFFER (c1 @ c2 @ c3) = 4"
    "pool_capacity info VK_DESCRIPTOR_TYPE_UNIFORM_BUFFER = 5"
    by blast
  with p h buffers_allocated_example_prepared show ?thesis
    by (intro conjI exI [of _ s1] exI [of _ c1] exI [of _ s2] exI [of _ c2] exI [of _ s3]
          exI [of _ c3] exI [of _ info]) simp_all
qed


lemma shader_stages_loaded:
  "(replicate 4 None)[0 := a, Suc 0 := b, 2 := c, 3 := d] = [a, b, c, d]"
  "[a', b', c', d'][0 := a, Suc 0 := b, 2 := c, 3 := d] = [a, b, c, d]"
  by (simp_all add: numeral_eq_Suc)

lemma create_pipelines_returns:
  assumes "fst (vkCreateGraphicsPipelines_result_1 nv) = VK_SUCCESS"
    and "fst (vkCreateGraphicsPipelines_result_2 nv) = VK_SUCCESS"
  shows "\<exists>cs ci. create_pipelines nv s =
           Inr (s\<lparr>pipeline_statically_tessellation := snd (vkCreateGraphicsPipelines_result_1 nv),
                  pipeline_dynamically_tessellation := snd (vkCreateGraphicsPipelines_result_2 nv)\<rparr>,
                Invoke ''create_pipelines'' # cs) \<and>
           invoked cs = [] \<and> descriptor_pools cs = [] \<and> set_allocations cs = [] \<and>
           descriptor_updates cs = [] \<and>
           pipeline_creations cs =
             [(pipeline_cache s, 1, ci),
              (VK_NULL_HANDLE, 1, ci\<lparr>layout := pipeline_layouts_dynamically_tessellation s\<rparr>)] \<and>
           ci = \<lparr>pNext = VK_NULL_HANDLE, renderPass = render_pass s,
                 pInputAssemblyState =
                   \<lparr>topology = VK_PRIMITIVE_TOPOLOGY_PATCH_LIST, input_assembly_flags = 0,
                    primitiveRestartEnable = False\<rparr>,
                 pRasterizationState =
                   \<lparr>polygonMode = (if fillModeNonSolid (device_features s)
                                   then VK_POLYGON_MODE_LINE else VK_POLYGON_MODE_FILL),
                    cullMode = VK_CULL_MODE_NONE, frontFace = VK_FRONT_FACE_COUNTER_CLOCKWISE,
                    rasterization_flags = 0, depthBiasConstantFactor = Some 1,
                    depthBiasSlopeFactor = Some 1\<rparr>,
                 pColorBlendState =
                   \<lparr>attachmentCount = 1,
                    pAttachments =
                      \<lparr>colorWriteMask = {VK_COLOR_COMPONENT_R_BIT, VK_COLOR_COMPONENT_G_BIT,
                                         VK_COLOR_COMPONENT_B_BIT, VK_COLOR_COMPONENT_A_BIT},
                       blendEnable = True, colorBlendOp = Some VK_BLEND_OP_ADD,
                       srcColorBlendFactor = Some VK_BLEND_FACTOR_SRC_ALPHA,
                       dstColorBlendFactor = Some VK_BLEND_FACTOR_ONE_MINUS_SRC_ALPHA,
                       alphaBlendOp = Some VK_BLEND_OP_ADD,
                       srcAlphaBlendFactor = Some VK_BLEND_FACTOR_ONE,
                       dstAlphaBlendFactor = Some VK_BLEND_FACTOR_ZERO\<rparr>\<rparr>,
                 pMultisampleState = \<lparr>rasterizationSamples = VK_SAMPLE_COUNT_1_BIT, multisample_flags = 0\<rparr>,
                 pViewportState = \<lparr>viewportCount = 1, scissorCount = 1, viewport_flags = 0\<rparr>,
                 pDepthStencilState =
                   \<lparr>depthTestEnable = True, depthWriteEnable = True,
                    depthCompareOp = VK_COMPARE_OP_GREATER\<rparr>,
                 pDynamicState =
                   \<lparr>pDynamicStates = [VK_DYNAMIC_STATE_VIEWPORT, VK_DYNAMIC_STATE_SCISSOR],
                    dynamicStateCount = 2, dynamic_flags = 0\<rparr>,
                 pVertexInputState =
                   \<lparr>vertexBindingDescriptionCount = 1,
                    pVertexBindingDescriptions =
                      [\<lparr>input_binding = 0, stride = Sizeof_Vertex, inputRate = VK_VERTEX_INPUT_RATE_VERTEX\<rparr>],
                    vertexAttributeDescriptionCount = 2,
                    pVertexAttributeDescriptions =
                      [\<lparr>attribute_binding = 0, location = 0, format = VK_FORMAT_R32G32B32_SFLOAT,
                        attribute_offset = Zero_offset\<rparr>,
                       \<lparr>attribute_binding = 0, location = 1, format = VK_FORMAT_R32G32B32_SFLOAT,
                        attribute_offset = Offsetof_Vertex_normal\<rparr>]\<rparr>,
                 pTessellationState = Some \<lparr>patchControlPoints = 3\<rparr>,
                 stageCount = 4,
                 pStages =
                   [Some \<lparr>shader_file = ''patch_control_points/tess.vert'',
                          shader_stage = VK_SHADER_STAGE_VERTEX_BIT\<rparr>,
                    Some \<lparr>shader_file = ''patch_control_points/tess.frag'',
                          shader_stage = VK_SHADER_STAGE_FRAGMENT_BIT\<rparr>,
                    Some \<lparr>shader_file = ''patch_control_points/tess.tesc'',
                          shader_stage = VK_SHADER_STAGE_TESSELLATION_CONTROL_BIT\<rparr>,
                    Some \<lparr>shader_file = ''patch_control_points/tess.tese'',
                          shader_stage = VK_SHADER_STAGE_TESSELLATION_EVALUATION_BIT\<rparr>],
                 layout = pipeline_layouts_statically_tessellation s\<rparr>"
  using assms
  by (simp add: create_pipelines_def Let_def performed_def shader_stages_loaded load_shader_def)

subsection \<open>The two pipelines\<close>

text \<open>
  C9. When both calls of \<^verbatim>\<open>vkCreateGraphicsPipelines\<close> succeed, \<^verbatim>\<open>create_pipelines\<close> makes
  exactly these two calls, the first with \<open>pipeline_cache\<close> and the layout
  \<open>pipeline_layouts.statically_tessellation\<close>, the second with \<open>VK_NULL_HANDLE\<close> as cache
  and the layout \<open>pipeline_layouts.dynamically_tessellation\<close>. Apart from the layout the
  two create infos are equal: the same four shader stages (vertex, fragment, tessellation
  control, tessellation evaluation), the same tessellation state of 3 patch control points,
  the same dynamic state list of viewport and scissor only, and the same input assembly,
  rasterization, colour blend and depth stencil state.
\<close>

theorem pipelines_created_from_identical_state:
  assumes "fst (vkCreateGraphicsPipelines_result_1 nv) = VK_SUCCESS"
    and "fst (vkCreateGraphicsPipelines_result_2 nv) = VK_SUCCESS"
  shows "\<exists>s' cs ci1 ci2.
           create_pipelines nv s = Inr (s', cs) \<and>
           pipeline_creations cs = [(pipeline_cache s, 1, ci1), (VK_NULL_HANDLE, 1, ci2)] \<and>
           pipeline_statically_tessellation s' = snd (vkCreateGraphicsPipelines_result_1 nv) \<and>
           pipeline_dynamically_tessellation s' = snd (vkCreateGraphicsPipelines_result_2 nv) \<and>
           layout ci1 = pipeline_layouts_statically_tessellation s \<and>
           layout ci2 = pipeline_layouts_dynamically_tessellation s \<and>
           ci2 = ci1\<lparr>layout := layout ci2\<rparr> \<and>
           map (map_option (\<lambda>st. (shader_file st, shader_stage st))) (pStages ci1) =
             [Some (''patch_control_points/tess.vert'', VK_SHADER_STAGE_VERTEX_BIT),
              Some (''patch_control_points/tess.frag'', VK_SHADER_STAGE_FRAGMENT_BIT),
              Some (''patch_control_points/tess.tesc'', VK_SHADER_STAGE_TESSELLATION_CONTROL_BIT),
              Some (''patch_control_points/tess.tese'', VK_SHADER_STAGE_TESSELLATION_EVALUATION_BIT)] \<and>
           pStages ci2 = pStages ci1 \<and> stageCount ci1 = 4 \<and> stageCount ci2 = 4 \<and>
           pTessellationState ci1 = Some \<lparr>patchControlPoints = 3\<rparr> \<and>
           pTessellationState ci2 = Some \<lparr>patchControlPoints = 3\<rparr> \<and>
           pDynamicStates (pDynamicState ci1) = [VK_DYNAMIC_STATE_VIEWPORT, VK_DYNAMIC_STATE_SCISSOR] \<and>
           pDynamicState ci2 = pDynamicState ci1 \<and>
           pInputAssemblyState ci2 = pInputAssemblyState ci1 \<and>
           pRasterizationState ci2 = pRasterizationState ci1 \<and>
           pColorBlendState ci2 = pColorBlendState ci1 \<and>
           pDepthStencilState ci2 = pDepthStencilState ci1"
proof -
  from create_pipelines_returns [OF assms, of s] obtain cs ci where
    r: "create_pipelines nv s =
          Inr (s\<lparr>pipeline_statically_tessellation := snd (vkCreateGraphicsPipelines_result_1 nv),
                 pipeline_dynamically_tessellation := snd (vkCreateGraphicsPipelines_result_2 nv)\<rparr>,
               Invoke ''create_pipelines'' # cs)"
    and c: "pipeline_creations cs =
              [(pipeline_cache s, 1, ci),
               (VK_NULL_HANDLE, 1, ci\<lparr>layout := pipeline_layouts_dynamically_tessellation s\<rparr>)]"
    and l: "layout ci = pipeline_layouts_statically_tessellation s"
    and st: "pStages ci =
               [Some \<lparr>shader_file = ''patch_control_points/tess.vert'',
                      shader_stage = VK_SHADER_STAGE_VERTEX_BIT\<rparr>,
                Some \<lparr>shader_file = ''patch_control_points/tess.frag'',
                      shader_stage = VK_SHADER_STAGE_FRAGMENT_BIT\<rparr>,
                Some \<lparr>shader_file = ''patch_control_points/tess.tesc'',
                      shader_stage = VK_SHADER_STAGE_TESSELLATION_CONTROL_BIT\<rparr>,
                Some \<lparr>shader_file = ''patch_control_points/tess.tese'',
                      shader_stage = VK_SHADER_STAGE_TESSELLATION_EVALUATION_BIT\<rparr>]"
    and n: "stageCount ci = 4"
    and t: "pTessellationState ci = Some \<lparr>patchControlPoints = 3\<rparr>"
    and d: "pDynamicStates (pDynamicState ci) = [VK_DYNAMIC_STATE_VIEWPORT, VK_DYNAMIC_STATE_SCISSOR]"
    by fastforce
  show ?thesis
    apply (rule exI [of _ "s\<lparr>pipeline_statically_tessellation := snd (vkCreateGraphicsPipelines_result_1 nv),
                            pipeline_dynamically_tessellation := snd (vkCreateGraphicsPipelines_result_2 nv)\<rparr>"])
    apply (rule exI [of _ "Invoke ''create_pipelines'' # cs"])
    apply (rule exI [of _ ci])
    apply (rule exI [of _ "ci\<lparr>layout := pipeline_layouts_dynamically_tessellation s\<rparr>"])
    apply (simp add: r c l st n t d)
    done
qed

theorem pipelines_created_from_identical_state_witness:
  "fst (vkCreateGraphicsPipelines_result_1 example_native) = VK_SUCCESS \<and>
   fst (vkCreateGraphicsPipelines_result_2 example_native) = VK_SUCCESS \<and>
   (\<exists>s' cs ci1 ci2.
      create_pipelines example_native example_prepared = Inr (s', cs) \<and>
      pipeline_creations cs = [(3, 1, ci1), (VK_NULL_HANDLE, 1, ci2)] \<and>
      pipeline_statically_tessellation s' = 37 \<and> pipeline_dynamically_tessellation s' = 38 \<and>
      ci2 = ci1\<lparr>layout := layout ci2\<rparr> \<and>
      pTessellationState ci1 = Some \<lparr>patchControlPoints = 3\<rparr> \<and>
      pDynamicStates (pDynamicState ci1) = [VK_DYNAMIC_STATE_VIEWPORT, VK_DYNAMIC_STATE_SCISSOR])"
proof -
  have h: "fst (vkCreateGraphicsPipelines_result_1 example_native) = VK_SUCCESS"
    "fst (vkCreateGraphicsPipelines_result_2 example_native) = VK_SUCCESS"
    by (simp_all add: example_native_def)
  have v: "snd (vkCreateGraphicsPipelines_result_1 example_native) = 37"
    "snd (vkCreateGraphicsPipelines_result_2 example_native) = 38"
    "pipeline_cache example_prepared = 3"
    by (simp_all add: example_native_def example_prepared_def example_object_def)
  from pipelines_created_from_identical_state [OF h, of example_prepared]
  obtain s' cs ci1 ci2 where
    "create_pipelines example_native example_prepared = Inr (s', cs)"
    "pipeline_creations cs = [(pipeline_cache example_prepared, 1, ci1), (VK_NULL_HANDLE, 1, ci2)]"
    "pipeline_statically_tessellation s' = snd (vkCreateGraphicsPipelines_result_1 example_native)"
    "pipeline_dynamically_tessellation s' = snd (vkCreateGraphicsPipelines_result_2 example_native)"
    "ci2 = ci1\<lparr>layout := layout ci2\<rparr>"
    "pTessellationState ci1 = Some \<lparr>patchControlPoints = 3\<rparr>"
    "pDynamicStates (pDynamicState ci1) = [VK_DYNAMIC_STATE_VIEWPORT, VK_DYNAMIC_STATE_SCISSOR]"
    by blast
  with h v show ?thesis
    by (intro conjI exI [of _ s'] exI [of _ cs] exI [of _ ci1] exI [of _ ci2]) simp_all
qed


lemma record_commands_snd:
  "snd (record_commands s fb) = s\<lparr>push_const_block_direction := (- 3.95, 0, 0)\<rparr>"
  by (simp add: record_commands_def Let_def)

lemma record_commands_direction:
  "fst (record_commands (s\<lparr>push_const_block_direction := d\<rparr>) fb) = fst (record_commands s fb)"
  by (simp add: record_commands_def Let_def)

lemma build_command_buffer_returns:
  assumes "i < length (framebuffers s)"
    and "vkBeginCommandBuffer_result nv i = VK_SUCCESS"
    and "vkEndCommandBuffer_result nv i = VK_SUCCESS"
  shows "build_command_buffer nv i cb (s\<lparr>push_const_block_direction := d\<rparr>) =
           Inr (s\<lparr>push_const_block_direction := (- 3.95, 0, 0)\<rparr>,
                iteration_calls s cb (framebuffers s ! i))"
  using assms
  by (simp add: build_command_buffer_def iteration_calls_def record_commands_snd
        record_commands_direction performed_def)

lemma build_command_buffers_loop_returns:
  assumes "i + length cbs \<le> length (framebuffers s)"
    and "\<forall>k < length cbs. vkBeginCommandBuffer_result nv (i + k) = VK_SUCCESS \<and>
                           vkEndCommandBuffer_result nv (i + k) = VK_SUCCESS"
  shows "\<exists>d'. build_command_buffers_loop nv i cbs (s\<lparr>push_const_block_direction := d\<rparr>) =
           Inr (s\<lparr>push_const_block_direction := d'\<rparr>,
                concat (map (\<lambda>k. iteration_calls s (cbs ! k) (framebuffers s ! (i + k))) [0..<length cbs]))"
  using assms
proof (induction cbs arbitrary: i d)
  case Nil
  show ?case by (intro exI [of _ d]) (simp add: performed_def)
next
  case (Cons cb cbs)
  from Cons.prems have i: "i < length (framebuffers s)" by simp
  from Cons.prems(2) have r: "vkBeginCommandBuffer_result nv i = VK_SUCCESS"
    "vkEndCommandBuffer_result nv i = VK_SUCCESS" by auto
  have b: "\<forall>k<length cbs. vkBeginCommandBuffer_result nv (Suc i + k) = VK_SUCCESS \<and>
                           vkEndCommandBuffer_result nv (Suc i + k) = VK_SUCCESS"
  proof (intro allI impI)
    fix k assume "k < length cbs"
    then have "Suc k < length (cb # cbs)" by simp
    with Cons.prems(2) have "vkBeginCommandBuffer_result nv (i + Suc k) = VK_SUCCESS \<and>
                             vkEndCommandBuffer_result nv (i + Suc k) = VK_SUCCESS" by blast
    then show "vkBeginCommandBuffer_result nv (Suc i + k) = VK_SUCCESS \<and>
               vkEndCommandBuffer_result nv (Suc i + k) = VK_SUCCESS" by simp
  qed
  from Cons.prems(1) have a: "Suc i + length cbs \<le> length (framebuffers s)" by simp
  from Cons.IH [OF a b, of "(- 3.95, 0, 0)"] obtain d' where
    ih: "build_command_buffers_loop nv (Suc i) cbs (s\<lparr>push_const_block_direction := (- 3.95, 0, 0)\<rparr>) =
           Inr (s\<lparr>push_const_block_direction := d'\<rparr>,
                concat (map (\<lambda>k. iteration_calls s (cbs ! k) (framebuffers s ! (Suc i + k)))
                          [0..<length cbs]))" ..
  have m: "map (\<lambda>k. iteration_calls s ((cb # cbs) ! k) (framebuffers s ! (i + k))) [0..<length (cb # cbs)] =
           iteration_calls s cb (framebuffers s ! i) #
           map (\<lambda>k. iteration_calls s (cbs ! k) (framebuffers s ! (Suc i + k))) [0..<length cbs]"
    by (simp add: map_upt_Suc del: upt_Suc)
  have "build_command_buffers_loop nv i (cb # cbs) (s\<lparr>push_const_block_direction := d\<rparr>) =
          and_then (Inr (s\<lparr>push_const_block_direction := (- 3.95, 0, 0)\<rparr>,
                         iteration_calls s cb (framebuffers s ! i)))
            (build_command_buffers_loop nv (Suc i) cbs)"
    by (simp only: build_command_buffers_loop.simps build_command_buffer_returns [OF i r])
  also have "\<dots> = Inr (s\<lparr>push_const_block_direction := d'\<rparr>,
                       iteration_calls s cb (framebuffers s ! i) @
                       concat (map (\<lambda>k. iteration_calls s (cbs ! k) (framebuffers s ! (Suc i + k)))
                                 [0..<length cbs]))"
    by (simp only: and_then_Inr ih sum.case prod.case)
  finally show ?case
    by (intro exI [of _ d']) (simp only: m concat.simps)
qed

lemma build_command_buffers_returns:
  assumes "recording_succeeds nv s"
  shows "\<exists>d'. build_command_buffers nv s =
           Inr (s\<lparr>push_const_block_direction := d'\<rparr>,
                Invoke ''build_command_buffers'' #
                concat (map (\<lambda>k. iteration_calls s (draw_cmd_buffers s ! k) (framebuffers s ! k))
                          [0..<length (draw_cmd_buffers s)]))"
proof -
  from assms have "0 + length (draw_cmd_buffers s) \<le> length (framebuffers s)"
    and "\<forall>k < length (draw_cmd_buffers s).
            vkBeginCommandBuffer_result nv (0 + k) = VK_SUCCESS \<and>
            vkEndCommandBuffer_result nv (0 + k) = VK_SUCCESS"
    by (simp_all add: recording_succeeds_def)
  from build_command_buffers_loop_returns [OF this, of "push_const_block_direction s"]
  obtain d' where
    "build_command_buffers_loop nv 0 (draw_cmd_buffers s)
       (s\<lparr>push_const_block_direction := push_const_block_direction s\<rparr>) =
       Inr (s\<lparr>push_const_block_direction := d'\<rparr>,
            concat (map (\<lambda>k. iteration_calls s (draw_cmd_buffers s ! k) (framebuffers s ! (0 + k)))
                      [0..<length (draw_cmd_buffers s)]))" ..
  then show ?thesis
    by (intro exI [of _ d']) (simp add: build_command_buffers_def)
qed

lemma and_then_eq_Inr:
  "and_then r f = Inr (s', cs) \<longleftrightarrow>
     (\<exists>s1 c1 c2. r = Inr (s1, c1) \<and> f s1 = Inr (s', c2) \<and> cs = c1 @ c2)"
  by (auto simp: and_then_def split: sum.splits prod.splits)

lemma update_uniform_buffers_calls:
  assumes "update_uniform_buffers s = Inr (s', cs)"
  shows "\<exists>u t. cs = update_calls u t"
  using assms
  by (auto simp: update_uniform_buffers_def convert_and_update_def performed_def Let_def
        update_calls_def split: option.splits)

lemma render_calls:
  assumes "render fw nv delta_time s = Inr (s', cs)"
  shows "cs = [Invoke ''render''] \<or>
         (\<exists>s1 ds us. draw fw nv s = Inr (s1, ds) \<and> cs = Invoke ''render'' # ds @ us \<and>
            (us = [] \<or> (\<exists>u t. us = update_calls u t)))"
proof (cases "prepared s")
  case False
  with assms show ?thesis by (simp add: render_def performed_def)
next
  case True
  with assms obtain s1 ds us where
    d: "draw fw nv s = Inr (s1, ds)" and
    u: "(if updated (camera s1) then update_uniform_buffers s1 else performed [] s1) = Inr (s', us)" and
    c: "cs = Invoke ''render'' # ds @ us"
    by (auto simp: render_def and_then_def performed_def split: sum.splits prod.splits)
  from u have "us = [] \<or> (\<exists>u t. us = update_calls u t)"
    by (cases "updated (camera s1)") (auto simp: performed_def dest: update_uniform_buffers_calls)
  with d c show ?thesis by blast
qed

lemma filter_is_recording_update_calls [simp]: "filter is_recording (update_calls u t) = []"
  by (simp add: update_calls_def)

lemma recording_succeeds_example [simp]:
  "recording_succeeds example_native example_prepared"
  "recording_succeeds example_native example_still"
  "recording_succeeds example_native example_object"
  by (simp_all add: recording_succeeds_def example_native_def example_still_def example_prepared_def
        example_object_def)

subsection \<open>The terrain drawn twice\<close>

text \<open>
  C2. \<^verbatim>\<open>load_assets\<close> loads \<open>models.terrain_one\<close> and \<open>models.terrain_two\<close> from the same
  path \<^verbatim>\<open>scenes/terrain.gltf\<close>. When its two native calls succeed \<^verbatim>\<open>create_pipelines\<close>
  creates exactly two pipelines, one with each call, and stores them in
  \<open>pipeline.statically_tessellation\<close> and \<open>pipeline.dynamically_tessellation\<close>. Every
  iteration of \<^verbatim>\<open>build_command_buffers\<close> records two draws: \<open>terrain_one\<close> with the
  statically_tessellation pipeline bound and the direction (-6.00, 0, 0) pushed, then
  \<open>terrain_two\<close> with the dynamically_tessellation pipeline bound and the direction
  (-3.95, 0, 0) pushed; the two directions differ.
\<close>

theorem same_terrain_drawn_with_two_pipelines:
  "(\<exists>s'. load_assets s =
            Inr (s', [Invoke ''load_assets'', Load_model ''scenes/terrain.gltf'',
                      Load_model ''scenes/terrain.gltf'']) \<and>
          models_terrain_one s' = load_model ''scenes/terrain.gltf'' \<and>
          models_terrain_two s' = load_model ''scenes/terrain.gltf'') \<and>
   (fst (vkCreateGraphicsPipelines_result_1 nv) = VK_SUCCESS \<and>
    fst (vkCreateGraphicsPipelines_result_2 nv) = VK_SUCCESS \<longrightarrow>
      (\<exists>s' cs. create_pipelines nv s = Inr (s', cs) \<and>
         length (pipeline_creations cs) = 2 \<and>
         map (\<lambda>c. fst (snd c)) (pipeline_creations cs) = [1, 1] \<and>
         pipeline_statically_tessellation s' = snd (vkCreateGraphicsPipelines_result_1 nv) \<and>
         pipeline_dynamically_tessellation s' = snd (vkCreateGraphicsPipelines_result_2 nv))) \<and>
   (recording_succeeds nv s \<longrightarrow>
      (\<exists>s'. build_command_buffers nv s =
              Inr (s', Invoke ''build_command_buffers'' #
                       concat (map (\<lambda>i. iteration_calls s (draw_cmd_buffers s ! i) (framebuffers s ! i))
                                 [0..<length (draw_cmd_buffers s)])))) \<and>
   draws_from None None (fst (record_commands s fb)) =
     [(Some (pipeline_statically_tessellation s), Some (- 6.00, 0, 0), models_terrain_one s),
      (Some (pipeline_dynamically_tessellation s), Some (- 3.95, 0, 0), models_terrain_two s)] \<and>
   distinct (map (\<lambda>d. fst (snd d)) (draws_from None None (fst (record_commands s fb))))"
proof (intro conjI impI)
  show "\<exists>s'. load_assets s =
            Inr (s', [Invoke ''load_assets'', Load_model ''scenes/terrain.gltf'',
                      Load_model ''scenes/terrain.gltf'']) \<and>
          models_terrain_one s' = load_model ''scenes/terrain.gltf'' \<and>
          models_terrain_two s' = load_model ''scenes/terrain.gltf''"
    by (intro exI [of _ "s\<lparr>models_terrain_one := load_model ''scenes/terrain.gltf'',
                            models_terrain_two := load_model ''scenes/terrain.gltf''\<rparr>"])
       (simp add: load_assets_def performed_def Let_def)
next
  assume a: "fst (vkCreateGraphicsPipelines_result_1 nv) = VK_SUCCESS \<and>
             fst (vkCreateGraphicsPipelines_result_2 nv) = VK_SUCCESS"
  then have a1: "fst (vkCreateGraphicsPipelines_result_1 nv) = VK_SUCCESS"
    and a2: "fst (vkCreateGraphicsPipelines_result_2 nv) = VK_SUCCESS" by simp_all
  from create_pipelines_returns [OF a1 a2, of s] obtain cs ci where
    r: "create_pipelines nv s =
          Inr (s\<lparr>pipeline_statically_tessellation := snd (vkCreateGraphicsPipelines_result_1 nv),
                 pipeline_dynamically_tessellation := snd (vkCreateGraphicsPipelines_result_2 nv)\<rparr>,
               Invoke ''create_pipelines'' # cs)"
    and c: "pipeline_creations cs =
              [(pipeline_cache s, 1, ci),
               (VK_NULL_HANDLE, 1, ci\<lparr>layout := pipeline_layouts_dynamically_tessellation s\<rparr>)]"
    by blast
  show "\<exists>s' cs. create_pipelines nv s = Inr (s', cs) \<and>
         length (pipeline_creations cs) = 2 \<and>
         map (\<lambda>c. fst (snd c)) (pipeline_creations cs) = [1, 1] \<and>
         pipeline_statically_tessellation s' = snd (vkCreateGraphicsPipelines_result_1 nv) \<and>
         pipeline_dynamically_tessellation s' = snd (vkCreateGraphicsPipelines_result_2 nv)"
    apply (rule exI [of _ "s\<lparr>pipeline_statically_tessellation := snd (vkCreateGraphicsPipelines_result_1 nv),
                            pipeline_dynamically_tessellation := snd (vkCreateGraphicsPipelines_result_2 nv)\<rparr>"])
    apply (rule exI [of _ "Invoke ''create_pipelines'' # cs"])
    apply (simp add: r c)
    done
next
  assume "recording_succeeds nv s"
  from build_command_buffers_returns [OF this] obtain d' where
    r: "build_command_buffers nv s =
          Inr (s\<lparr>push_const_block_direction := d'\<rparr>,
               Invoke ''build_command_buffers'' #
               concat (map (\<lambda>k. iteration_calls s (draw_cmd_buffers s ! k) (framebuffers s ! k))
                         [0..<length (draw_cmd_buffers s)]))" ..
  then show "\<exists>s'. build_command_buffers nv s =
              Inr (s', Invoke ''build_command_buffers'' #
                       concat (map (\<lambda>i. iteration_calls s (draw_cmd_buffers s ! i) (framebuffers s ! i))
                                 [0..<length (draw_cmd_buffers s)]))"
    by (intro exI [of _ "s\<lparr>push_const_block_direction := d'\<rparr>"])
next
  show "draws_from None None (fst (record_commands s fb)) =
     [(Some (pipeline_statically_tessellation s), Some (- 6.00, 0, 0), models_terrain_one s),
      (Some (pipeline_dynamically_tessellation s), Some (- 3.95, 0, 0), models_terrain_two s)]"
    by (simp add: record_commands_def Let_def)
next
  show "distinct (map (\<lambda>d. fst (snd d)) (draws_from None None (fst (record_commands s fb))))"
    by (simp add: record_commands_def Let_def)
qed

theorem same_terrain_drawn_with_two_pipelines_witness:
  "fst (vkCreateGraphicsPipelines_result_1 example_native) = VK_SUCCESS \<and>
   fst (vkCreateGraphicsPipelines_result_2 example_native) = VK_SUCCESS \<and>
   recording_succeeds example_native example_prepared \<and>
   (\<exists>s' cs. create_pipelines example_native example_prepared = Inr (s', cs) \<and>
      length (pipeline_creations cs) = 2 \<and>
      pipeline_statically_tessellation s' = 37 \<and> pipeline_dynamically_tessellation s' = 38) \<and>
   (\<exists>s'. build_command_buffers example_native example_prepared =
           Inr (s', Invoke ''build_command_buffers'' #
                    iteration_calls example_prepared 20 10 @ iteration_calls example_prepared 21 11)) \<and>
   draws_from None None (fst (record_commands example_prepared 10)) =
     [(Some 37, Some (- 6.00, 0, 0), Some (Loaded_model ''scenes/terrain.gltf'')),
      (Some 38, Some (- 3.95, 0, 0), Some (Loaded_model ''scenes/terrain.gltf''))]"
proof -
  have h: "fst (vkCreateGraphicsPipelines_result_1 example_native) = VK_SUCCESS \<and>
           fst (vkCreateGraphicsPipelines_result_2 example_native) = VK_SUCCESS"
    by (simp add: example_native_def)
  have v: "snd (vkCreateGraphicsPipelines_result_1 example_native) = 37"
    "snd (vkCreateGraphicsPipelines_result_2 example_native) = 38"
    by (simp_all add: example_native_def)
  have c: "draw_cmd_buffers example_prepared = [20, 21]" "framebuffers example_prepared = [10, 11]"
    "pipeline_statically_tessellation example_prepared = 37"
    "pipeline_dynamically_tessellation example_prepared = 38"
    "models_terrain_one example_prepared = Some (Loaded_model ''scenes/terrain.gltf'')"
    "models_terrain_two example_prepared = Some (Loaded_model ''scenes/terrain.gltf'')"
    by (simp_all add: example_prepared_def example_object_def load_model_def)
  have u: "[0..<length [20, 21 :: nat]] = [0, 1]"
    by (simp add: upt_rec)
  from same_terrain_drawn_with_two_pipelines [of example_prepared example_native 10] h
  show ?thesis
    by (simp add: c u v) (elim conjE exE, intro exI conjI, assumption+)
qed


lemma iteration_calls_no_patch_control_points:
  "\<not> list_ex records_patch_control_points (iteration_calls s cb fb)"
  by (simp add: iteration_calls_def record_commands_def Let_def)

lemma list_ex_concat_map:
  "list_ex P (concat (map f xs)) \<longleftrightarrow> list_ex (\<lambda>x. list_ex P (f x)) xs"
  by (induction xs) simp_all

lemma list_ex_False [simp]: "list_ex (\<lambda>x. False) xs = False"
  by (induction xs) simp_all

lemma and_then_eq_Inl:
  "and_then r f = Inl e \<longleftrightarrow> r = Inl e \<or> (\<exists>s c. r = Inr (s, c) \<and> f s = Inl e)"
  by (auto simp: and_then_def split: sum.splits prod.splits)

lemma VK_CHECK_eq_Inl: "VK_CHECK r c s = Inl e \<longleftrightarrow> r \<noteq> VK_SUCCESS \<and> e = VK_CHECK_failed r"
  by (auto simp: VK_CHECK_def)

lemma VK_CHECK_error:
  assumes "VK_CHECK r c s = Inl e"
  shows "from_VK_CHECK e"
  using assms by (auto simp: VK_CHECK_def split: if_splits)

lemma performed_not_Inl [simp]: "performed cs s \<noteq> Inl e"
  by (simp add: performed_def)

lemma update_uniform_buffers_error:
  assumes "update_uniform_buffers s = Inl e"
  shows "e = Undefined_behaviour"
  using assms
  by (auto simp: update_uniform_buffers_def convert_and_update_def Let_def performed_def
        split: option.splits)

lemma draw_error:
  assumes "draw fw nv s = Inl e"
  shows "from_VK_CHECK e \<or> e = Undefined_behaviour"
  using assms
  by (auto simp: draw_def Let_def and_then_def performed_def VK_CHECK_def split: if_splits)

lemma render_error:
  assumes "render fw nv delta_time s = Inl e"
  shows "from_VK_CHECK e \<or> e = Undefined_behaviour"
proof (cases "prepared s")
  case False
  with assms show ?thesis by (simp add: render_def)
next
  case True
  let ?g = "\<lambda>s. if updated (camera s) then update_uniform_buffers s else performed [] s"
  from True assms have "and_then (draw fw nv s) ?g = Inl e"
    by (simp add: render_def split: sum.splits prod.splits)
  then have "draw fw nv s = Inl e \<or> (\<exists>s1 c. draw fw nv s = Inr (s1, c) \<and> ?g s1 = Inl e)"
    by (simp only: and_then_eq_Inl)
  then show ?thesis
  proof
    assume "draw fw nv s = Inl e"
    then show ?thesis by (rule draw_error)
  next
    assume "\<exists>s1 c. draw fw nv s = Inr (s1, c) \<and> ?g s1 = Inl e"
    then obtain s1 where g: "?g s1 = Inl e" by blast
    then have "update_uniform_buffers s1 = Inl e"
      by (cases "updated (camera s1)") simp_all
    then show ?thesis by (simp add: update_uniform_buffers_error)
  qed
qed

lemma on_update_ui_overlay_error:
  assumes "on_update_ui_overlay drawer s = Inl e"
  shows "e = Undefined_behaviour"
  using assms
  by (auto simp: on_update_ui_overlay_def Let_def and_then_def performed_def
        dest: update_uniform_buffers_error split: if_splits sum.splits prod.splits)

lemma create_descriptor_pool_error:
  assumes "create_descriptor_pool nv s = Inl e"
  shows "from_VK_CHECK e"
  using assms
  by (auto simp: create_descriptor_pool_def Let_def VK_CHECK_def split: if_splits sum.splits)

lemma setup_descriptor_set_layout_error:
  assumes "setup_descriptor_set_layout nv s = Inl e"
  shows "from_VK_CHECK e"
  using assms
  by (auto simp: setup_descriptor_set_layout_def Let_def VK_CHECK_def and_then_def
        split: if_splits sum.splits prod.splits)

lemma create_descriptor_sets_error:
  assumes "create_descriptor_sets nv s = Inl e"
  shows "from_VK_CHECK e \<or> e = Undefined_behaviour"
  using assms
  by (auto simp: create_descriptor_sets_def create_descriptor_def Let_def VK_CHECK_def and_then_def
        performed_def split: if_splits sum.splits prod.splits option.splits)

lemma create_pipelines_error:
  assumes "create_pipelines nv s = Inl e"
  shows "from_VK_CHECK e"
  using assms
  by (auto simp: create_pipelines_def Let_def VK_CHECK_def and_then_def
        split: if_splits sum.splits prod.splits)

lemma build_command_buffer_error:
  assumes "build_command_buffer nv i cb s = Inl e"
  shows "from_VK_CHECK e \<or> e = Undefined_behaviour"
  using assms
  by (auto simp: build_command_buffer_def VK_CHECK_def and_then_def performed_def
        split: if_splits sum.splits prod.splits)

lemma build_command_buffers_loop_error:
  assumes "build_command_buffers_loop nv i cbs s = Inl e"
  shows "from_VK_CHECK e \<or> e = Undefined_behaviour"
  using assms
proof (induction cbs arbitrary: i s)
  case Nil
  then show ?case by (simp add: performed_def)
next
  case (Cons cb cbs)
  from Cons.prems have "build_command_buffer nv i cb s = Inl e \<or>
     (\<exists>s1 c. build_command_buffer nv i cb s = Inr (s1, c) \<and>
        build_command_buffers_loop nv (Suc i) cbs s1 = Inl e)"
    by (simp add: and_then_eq_Inl)
  then show ?case
    using Cons.IH build_command_buffer_error by blast
qed

lemma build_command_buffers_error:
  assumes "build_command_buffers nv s = Inl e"
  shows "from_VK_CHECK e \<or> e = Undefined_behaviour"
  using assms
  by (auto simp: build_command_buffers_def dest: build_command_buffers_loop_error split: sum.splits)

lemma load_assets_returns:
  "load_assets s =
     Inr (s\<lparr>models_terrain_one := load_model ''scenes/terrain.gltf'',
            models_terrain_two := load_model ''scenes/terrain.gltf''\<rparr>,
          [Invoke ''load_assets'', Load_model ''scenes/terrain.gltf'', Load_model ''scenes/terrain.gltf''])"
  by (simp add: load_assets_def performed_def Let_def)

lemma update_uniform_buffers_frame:
  assumes "update_uniform_buffers s = Inr (s', cs)"
  shows "framebuffers s' = framebuffers s \<and> draw_cmd_buffers s' = draw_cmd_buffers s"
  using assms
  by (auto simp: update_uniform_buffers_def convert_and_update_def performed_def Let_def
        split: option.splits)

lemma invoked_append [simp]: "invoked (cs @ ds) = invoked cs @ invoked ds"
  by (induction cs rule: invoked.induct) simp_all

lemma invoked_update_calls [simp]: "invoked (update_calls u t) = [''update_uniform_buffers'']"
  by (simp add: update_calls_def)

lemma prepare_uniform_buffers_returns:
  "\<exists>s' cs. prepare_uniform_buffers s = Inr (s', cs) \<and> buffers_allocated s' \<and>
     framebuffers s' = framebuffers s \<and> draw_cmd_buffers s' = draw_cmd_buffers s \<and>
     invoked cs = [''prepare_uniform_buffers'', ''update_uniform_buffers'']"
proof -
  let ?s3 = "s\<lparr>uniform_buffers_common :=
                   make_buffer Sizeof_ubo_common VK_BUFFER_USAGE_UNIFORM_BUFFER_BIT VMA_MEMORY_USAGE_CPU_TO_GPU,
                 uniform_buffers_dynamically_tessellation :=
                   make_buffer Sizeof_ubo_tess VK_BUFFER_USAGE_UNIFORM_BUFFER_BIT VMA_MEMORY_USAGE_CPU_TO_GPU,
                 uniform_buffers_statically_tessellation :=
                   make_buffer Sizeof_ubo_tess VK_BUFFER_USAGE_UNIFORM_BUFFER_BIT VMA_MEMORY_USAGE_CPU_TO_GPU\<rparr>"
  have "buffers_allocated ?s3"
    by (simp add: buffers_allocated_def make_buffer_def)
  from update_uniform_buffers_returns [OF this] obtain s' u where
    r: "update_uniform_buffers ?s3 = Inr (s', update_calls u (ubo_tess s'))" and
    b: "buffers_allocated s'" by blast
  from update_uniform_buffers_frame [OF r] have
    f: "framebuffers s' = framebuffers s" "draw_cmd_buffers s' = draw_cmd_buffers s" by simp_all
  show ?thesis
    apply (rule exI [of _ s'])
    apply (rule exI [of _ "[Invoke ''prepare_uniform_buffers'',
               Make_buffer Buffer_common Sizeof_ubo_common
                 VK_BUFFER_USAGE_UNIFORM_BUFFER_BIT VMA_MEMORY_USAGE_CPU_TO_GPU,
               Make_buffer Buffer_dynamically_tessellation Sizeof_ubo_tess
                 VK_BUFFER_USAGE_UNIFORM_BUFFER_BIT VMA_MEMORY_USAGE_CPU_TO_GPU,
               Make_buffer Buffer_statically_tessellation Sizeof_ubo_tess
                 VK_BUFFER_USAGE_UNIFORM_BUFFER_BIT VMA_MEMORY_USAGE_CPU_TO_GPU] @
              update_calls u (ubo_tess s')"])
    apply (simp add: prepare_uniform_buffers_def Let_def r b f)
    done
qed

lemma load_assets_not_Inl [simp]: "load_assets s \<noteq> Inl e"
  by (simp add: load_assets_returns)

lemma prepare_uniform_buffers_not_Inl [simp]: "prepare_uniform_buffers s \<noteq> Inl e"
  using prepare_uniform_buffers_returns [of s] by auto

lemma prepare_error:
  assumes "prepare fw nv s = Inl e"
  shows "from_VK_CHECK e \<or> e = Undefined_behaviour"
proof -
  obtain ok sb where b: "base_prepare fw s = (ok, sb)" by (cases "base_prepare fw s")
  show ?thesis
  proof (cases ok)
    case False
    with assms b show ?thesis by (simp add: prepare_def)
  next
    case True
    with assms b show ?thesis
      apply (simp add: prepare_def Let_def and_then_eq_Inl del: and_then_performed and_then_Inr)
      apply (elim disjE exE conjE)
             apply (simp_all add: create_descriptor_pool_error setup_descriptor_set_layout_error
          create_descriptor_sets_error create_pipelines_error build_command_buffers_error)
      done
  qed
qed

lemma invoked_map_Record [simp]: "invoked (map (Record cb) cmds) = []"
  by (induction cmds) simp_all

lemma invoked_iteration_calls [simp]: "invoked (iteration_calls s cb fb) = []"
  by (simp add: iteration_calls_def)

lemma invoked_concat_iteration_calls [simp]:
  "invoked (concat (map (\<lambda>k. iteration_calls s (f k) (g k)) ks)) = []"
  by (induction ks) simp_all

lemma prepare_unfold:
  assumes "base_prepare fw s = (True, sb)"
  shows "prepare fw nv s =
     and_then
       (performed
          [Invoke ''prepare'', ApiVulkanSample_prepare,
           Camera_set_position (5.0, 1.0, - 3.0),
           Camera_set_rotation (- 185.0, 0.0, 0.2),
           Camera_set_perspective 60.0 (width sb) (height sb) 256.0 0.1]
          (sb\<lparr>camera :=
                set_perspective fw 60.0 (width sb) (height sb) 256.0 0.1
                  (set_rotation fw (- 185.0, 0.0, 0.2)
                     (set_position fw (5.0, 1.0, - 3.0) ((camera sb)\<lparr>camera_type := LookAt\<rparr>)))\<rparr>)) (\<lambda>s.
     and_then (load_assets s) (\<lambda>s.
     and_then (prepare_uniform_buffers s) (\<lambda>s.
     and_then (create_descriptor_pool nv s) (\<lambda>s.
     and_then (setup_descriptor_set_layout nv s) (\<lambda>s.
     and_then (create_descriptor_sets nv s) (\<lambda>s.
     and_then (create_pipelines nv s) (\<lambda>s.
     and_then (build_command_buffers nv s) (\<lambda>s.
     performed [] (True, s\<lparr>prepared := True\<rparr>)))))))))"
  using assms
  by (simp add: prepare_def Let_def del: and_then_performed and_then_Inr)

lemma create_descriptor_pool_invoked:
  assumes "fst (vkCreateDescriptorPool_result nv) = VK_SUCCESS"
  shows "\<exists>cs. create_descriptor_pool nv s =
           Inr (s\<lparr>descriptor_pool := snd (vkCreateDescriptorPool_result nv)\<rparr>,
                Invoke ''create_descriptor_pool'' # cs) \<and> invoked cs = []"
  by (simp add: create_descriptor_pool_returns [OF assms])

subsection \<open>Preparation\<close>

text \<open>
  C4. If the base class's \<^verbatim>\<open>prepare\<close> fails, \<^verbatim>\<open>prepare\<close> returns false with the object as the
  base class left it and has performed no other call. If it succeeds, every checked native
  call succeeds and every command buffer has a framebuffer, \<^verbatim>\<open>prepare\<close> sets up the camera
  and runs \<^verbatim>\<open>load_assets\<close>, \<^verbatim>\<open>prepare_uniform_buffers\<close>, \<^verbatim>\<open>create_descriptor_pool\<close>,
  \<^verbatim>\<open>setup_descriptor_set_layout\<close>, \<^verbatim>\<open>create_descriptor_sets\<close>, \<^verbatim>\<open>create_pipelines\<close> and
  \<^verbatim>\<open>build_command_buffers\<close>, each on the object the one before it has left, then sets
  \<open>prepared\<close> and returns true; the member functions entered are these, in this order
  (\<^verbatim>\<open>prepare_uniform_buffers\<close> enters \<^verbatim>\<open>update_uniform_buffers\<close>).
\<close>

theorem prepare_runs_setup_in_order:
  "(\<not> fst (base_prepare fw s) \<longrightarrow>
      prepare fw nv s =
        Inr ((False, snd (base_prepare fw s)), [Invoke ''prepare'', ApiVulkanSample_prepare])) \<and>
   (fst (base_prepare fw s) \<and> setup_succeeds nv \<and> recording_succeeds nv (snd (base_prepare fw s)) \<longrightarrow>
      (\<exists>s0 s1 c1 s2 c2 s3 c3 s4 c4 s5 c5 s6 c6 s7 c7.
         s0 = (snd (base_prepare fw s))
                \<lparr>camera :=
                   set_perspective fw 60.0 (width (snd (base_prepare fw s)))
                     (height (snd (base_prepare fw s))) 256.0 0.1
                     (set_rotation fw (- 185.0, 0.0, 0.2)
                        (set_position fw (5.0, 1.0, - 3.0)
                           ((camera (snd (base_prepare fw s)))\<lparr>camera_type := LookAt\<rparr>)))\<rparr> \<and>
         load_assets s0 = Inr (s1, c1) \<and>
         prepare_uniform_buffers s1 = Inr (s2, c2) \<and>
         create_descriptor_pool nv s2 = Inr (s3, c3) \<and>
         setup_descriptor_set_layout nv s3 = Inr (s4, c4) \<and>
         create_descriptor_sets nv s4 = Inr (s5, c5) \<and>
         create_pipelines nv s5 = Inr (s6, c6) \<and>
         build_command_buffers nv s6 = Inr (s7, c7) \<and>
         prepare fw nv s =
           Inr ((True, s7\<lparr>prepared := True\<rparr>),
                [Invoke ''prepare'', ApiVulkanSample_prepare,
                 Camera_set_position (5.0, 1.0, - 3.0),
                 Camera_set_rotation (- 185.0, 0.0, 0.2),
                 Camera_set_perspective 60.0 (width (snd (base_prepare fw s)))
                   (height (snd (base_prepare fw s))) 256.0 0.1] @
                c1 @ c2 @ c3 @ c4 @ c5 @ c6 @ c7) \<and>
         invoked (c1 @ c2 @ c3 @ c4 @ c5 @ c6 @ c7) =
           [''load_assets'', ''prepare_uniform_buffers'', ''update_uniform_buffers'',
            ''create_descriptor_pool'', ''setup_descriptor_set_layout'', ''create_descriptor_sets'',
            ''create_pipelines'', ''build_command_buffers'']))"
proof (intro conjI impI)
  assume "\<not> fst (base_prepare fw s)"
  then show "prepare fw nv s =
        Inr ((False, snd (base_prepare fw s)), [Invoke ''prepare'', ApiVulkanSample_prepare])"
    by (simp add: prepare_def performed_def split_beta)
next
  assume a: "fst (base_prepare fw s) \<and> setup_succeeds nv \<and>
             recording_succeeds nv (snd (base_prepare fw s))"
  define sb where "sb = snd (base_prepare fw s)"
  have b: "base_prepare fw s = (True, sb)"
    using a by (simp add: sb_def prod_eq_iff)
  from a have r:
    "fst (vkCreateDescriptorPool_result nv) = VK_SUCCESS"
    "fst (vkCreateDescriptorSetLayout_result_1 nv) = VK_SUCCESS"
    "fst (vkCreatePipelineLayout_result_1 nv) = VK_SUCCESS"
    "fst (vkCreateDescriptorSetLayout_result_2 nv) = VK_SUCCESS"
    "fst (vkCreatePipelineLayout_result_2 nv) = VK_SUCCESS"
    "fst (vkAllocateDescriptorSets_result_1 nv) = VK_SUCCESS"
    "fst (vkAllocateDescriptorSets_result_2 nv) = VK_SUCCESS"
    "fst (vkCreateGraphicsPipelines_result_1 nv) = VK_SUCCESS"
    "fst (vkCreateGraphicsPipelines_result_2 nv) = VK_SUCCESS"
    by (simp_all add: setup_succeeds_def)
  from a have rs: "recording_succeeds nv sb" by (simp add: sb_def)
  define s0 where
    "s0 = sb\<lparr>camera :=
                set_perspective fw 60.0 (width sb) (height sb) 256.0 0.1
                  (set_rotation fw (- 185.0, 0.0, 0.2)
                     (set_position fw (5.0, 1.0, - 3.0) ((camera sb)\<lparr>camera_type := LookAt\<rparr>)))\<rparr>"
  define s1 where
    "s1 = s0\<lparr>models_terrain_one := load_model ''scenes/terrain.gltf'',
             models_terrain_two := load_model ''scenes/terrain.gltf''\<rparr>"
  define c1 where
    "c1 = [Invoke ''load_assets'', Load_model ''scenes/terrain.gltf'', Load_model ''scenes/terrain.gltf'']"
  have l1: "load_assets s0 = Inr (s1, c1)"
    unfolding s1_def c1_def by (rule load_assets_returns)
  have f1: "framebuffers s1 = framebuffers sb" "draw_cmd_buffers s1 = draw_cmd_buffers sb"
    by (simp_all add: s1_def s0_def)
  from prepare_uniform_buffers_returns [of s1] obtain s2 c2 where
    l2: "prepare_uniform_buffers s1 = Inr (s2, c2)" and b2: "buffers_allocated s2" and
    f2: "framebuffers s2 = framebuffers s1" "draw_cmd_buffers s2 = draw_cmd_buffers s1" and
    i2: "invoked c2 = [''prepare_uniform_buffers'', ''update_uniform_buffers'']"
    by blast
  define s3 where "s3 = s2\<lparr>descriptor_pool := snd (vkCreateDescriptorPool_result nv)\<rparr>"
  from create_descriptor_pool_invoked [OF r(1), of s2] obtain c3 where
    l3: "create_descriptor_pool nv s2 = Inr (s3, Invoke ''create_descriptor_pool'' # c3)" and
    i3: "invoked c3 = []"
    unfolding s3_def by blast
  define s4 where
    "s4 = s3\<lparr>descriptor_set_layouts_statically_tessellation := snd (vkCreateDescriptorSetLayout_result_1 nv),
             pipeline_layouts_statically_tessellation := snd (vkCreatePipelineLayout_result_1 nv),
             descriptor_set_layouts_dynamically_tessellation := snd (vkCreateDescriptorSetLayout_result_2 nv),
             pipeline_layouts_dynamically_tessellation := snd (vkCreatePipelineLayout_result_2 nv)\<rparr>"
  from setup_descriptor_set_layout_returns [OF r(2-5), of s3] obtain c4 where
    l4: "setup_descriptor_set_layout nv s3 = Inr (s4, Invoke ''setup_descriptor_set_layout'' # c4)" and
    i4: "invoked c4 = []"
    unfolding s4_def by blast
  have b4: "buffers_allocated s4"
    using b2 by (simp add: s4_def s3_def buffers_allocated_def)
  define s5 where
    "s5 = s4\<lparr>descriptor_sets_statically_tessellation := snd (vkAllocateDescriptorSets_result_1 nv),
             descriptor_sets_dynamically_tessellation := snd (vkAllocateDescriptorSets_result_2 nv)\<rparr>"
  from create_descriptor_sets_returns [OF r(6,7) b4] obtain c5 where
    l5: "create_descriptor_sets nv s4 = Inr (s5, Invoke ''create_descriptor_sets'' # c5)" and
    i5: "invoked c5 = []"
    unfolding s5_def by blast
  define s6 where
    "s6 = s5\<lparr>pipeline_statically_tessellation := snd (vkCreateGraphicsPipelines_result_1 nv),
             pipeline_dynamically_tessellation := snd (vkCreateGraphicsPipelines_result_2 nv)\<rparr>"
  from create_pipelines_returns [OF r(8,9), of s5] obtain c6 where
    l6: "create_pipelines nv s5 = Inr (s6, Invoke ''create_pipelines'' # c6)" and
    i6: "invoked c6 = []"
    unfolding s6_def by blast
  have f6: "framebuffers s6 = framebuffers sb" "draw_cmd_buffers s6 = draw_cmd_buffers sb"
    by (simp_all add: s6_def s5_def s4_def s3_def f2 f1)
  have "recording_succeeds nv s6"
    using rs by (simp add: recording_succeeds_def f6)
  from build_command_buffers_returns [OF this] obtain d' where
    l7: "build_command_buffers nv s6 =
           Inr (s6\<lparr>push_const_block_direction := d'\<rparr>,
                Invoke ''build_command_buffers'' #
                concat (map (\<lambda>k. iteration_calls s6 (draw_cmd_buffers s6 ! k) (framebuffers s6 ! k))
                          [0..<length (draw_cmd_buffers s6)]))" ..
  define s7 where "s7 = s6\<lparr>push_const_block_direction := d'\<rparr>"
  define c7 where
    "c7 = Invoke ''build_command_buffers'' #
          concat (map (\<lambda>k. iteration_calls s6 (draw_cmd_buffers s6 ! k) (framebuffers s6 ! k))
                    [0..<length (draw_cmd_buffers s6)])"
  have l7': "build_command_buffers nv s6 = Inr (s7, c7)"
    unfolding s7_def c7_def by (rule l7)
  have i7: "invoked c7 = [''build_command_buffers'']"
    by (simp add: c7_def)
  have i1: "invoked c1 = [''load_assets'']"
    by (simp add: c1_def)
  have p: "prepare fw nv s =
           Inr ((True, s7\<lparr>prepared := True\<rparr>),
                [Invoke ''prepare'', ApiVulkanSample_prepare,
                 Camera_set_position (5.0, 1.0, - 3.0),
                 Camera_set_rotation (- 185.0, 0.0, 0.2),
                 Camera_set_perspective 60.0 (width sb) (height sb) 256.0 0.1] @
                c1 @ c2 @ (Invoke ''create_descriptor_pool'' # c3) @
                (Invoke ''setup_descriptor_set_layout'' # c4) @
                (Invoke ''create_descriptor_sets'' # c5) @
                (Invoke ''create_pipelines'' # c6) @ c7)"
    by (simp only: prepare_unfold [OF b, folded s0_def] and_then_performed and_then_Inr
          l1 l2 l3 l4 l5 l6 l7' sum.case prod.case performed_def append_Nil2)
  show "\<exists>s0 s1 c1 s2 c2 s3 c3 s4 c4 s5 c5 s6 c6 s7 c7.
         s0 = (snd (base_prepare fw s))
                \<lparr>camera :=
                   set_perspective fw 60.0 (width (snd (base_prepare fw s)))
                     (height (snd (base_prepare fw s))) 256.0 0.1
                     (set_rotation fw (- 185.0, 0.0, 0.2)
                        (set_position fw (5.0, 1.0, - 3.0)
                           ((camera (snd (base_prepare fw s)))\<lparr>camera_type := LookAt\<rparr>)))\<rparr> \<and>
         load_assets s0 = Inr (s1, c1) \<and>
         prepare_uniform_buffers s1 = Inr (s2, c2) \<and>
         create_descriptor_pool nv s2 = Inr (s3, c3) \<and>
         setup_descriptor_set_layout nv s3 = Inr (s4, c4) \<and>
         create_descriptor_sets nv s4 = Inr (s5, c5) \<and>
         create_pipelines nv s5 = Inr (s6, c6) \<and>
         build_command_buffers nv s6 = Inr (s7, c7) \<and>
         prepare fw nv s =
           Inr ((True, s7\<lparr>prepared := True\<rparr>),
                [Invoke ''prepare'', ApiVulkanSample_prepare,
                 Camera_set_position (5.0, 1.0, - 3.0),
                 Camera_set_rotation (- 185.0, 0.0, 0.2),
                 Camera_set_perspective 60.0 (width (snd (base_prepare fw s)))
                   (height (snd (base_prepare fw s))) 256.0 0.1] @
                c1 @ c2 @ c3 @ c4 @ c5 @ c6 @ c7) \<and>
         invoked (c1 @ c2 @ c3 @ c4 @ c5 @ c6 @ c7) =
           [''load_assets'', ''prepare_uniform_buffers'', ''update_uniform_buffers'',
            ''create_descriptor_pool'', ''setup_descriptor_set_layout'', ''create_descriptor_sets'',
            ''create_pipelines'', ''build_command_buffers'']"
    apply (rule exI [of _ s0], rule exI [of _ s1], rule exI [of _ c1])
    apply (rule exI [of _ s2], rule exI [of _ c2])
    apply (rule exI [of _ s3], rule exI [of _ "Invoke ''create_descriptor_pool'' # c3"])
    apply (rule exI [of _ s4], rule exI [of _ "Invoke ''setup_descriptor_set_layout'' # c4"])
    apply (rule exI [of _ s5], rule exI [of _ "Invoke ''create_descriptor_sets'' # c5"])
    apply (rule exI [of _ s6], rule exI [of _ "Invoke ''create_pipelines'' # c6"])
    apply (rule exI [of _ s7], rule exI [of _ c7])
    apply (intro conjI)
            apply (simp only: s0_def sb_def)
           apply (rule l1)
          apply (rule l2)
         apply (rule l3)
        apply (rule l4)
       apply (rule l5)
      apply (rule l6)
     apply (rule l7')
     apply (simp only: p sb_def)
    apply (simp add: i1 i2 i3 i4 i5 i6 i7)
    done
qed

theorem prepare_runs_setup_in_order_witness:
  "\<not> fst (base_prepare example_framework_failing example_object) \<and>
   prepare example_framework_failing example_native example_object =
     Inr ((False, example_object), [Invoke ''prepare'', ApiVulkanSample_prepare]) \<and>
   fst (base_prepare example_framework example_object) \<and>
   setup_succeeds example_native \<and>
   recording_succeeds example_native (snd (base_prepare example_framework example_object)) \<and>
   (\<exists>s' cs. prepare example_framework example_native example_object = Inr ((True, s'), cs) \<and>
      prepared s' \<and>
      invoked cs =
        [''prepare'', ''load_assets'', ''prepare_uniform_buffers'', ''update_uniform_buffers'',
         ''create_descriptor_pool'', ''setup_descriptor_set_layout'', ''create_descriptor_sets'',
         ''create_pipelines'', ''build_command_buffers''])"
proof -
  have f: "\<not> fst (base_prepare example_framework_failing example_object)"
    "snd (base_prepare example_framework_failing example_object) = example_object"
    by (simp_all add: example_framework_failing_def)
  have g: "fst (base_prepare example_framework example_object)"
    "snd (base_prepare example_framework example_object) = example_object"
    by (simp_all add: example_framework_def)
  have n: "setup_succeeds example_native"
    by (simp add: setup_succeeds_def example_native_def)
  have r: "recording_succeeds example_native (snd (base_prepare example_framework example_object))"
    by (simp add: g)
  from prepare_runs_setup_in_order [of example_framework_failing example_object example_native] f
  have p1: "prepare example_framework_failing example_native example_object =
     Inr ((False, example_object), [Invoke ''prepare'', ApiVulkanSample_prepare])"
    by simp
  from prepare_runs_setup_in_order [of example_framework example_object example_native] g(1) n r
  obtain s7 c1 c2 c3 c4 c5 c6 c7 where
    p: "prepare example_framework example_native example_object =
           Inr ((True, s7\<lparr>prepared := True\<rparr>),
                [Invoke ''prepare'', ApiVulkanSample_prepare,
                 Camera_set_position (5.0, 1.0, - 3.0),
                 Camera_set_rotation (- 185.0, 0.0, 0.2),
                 Camera_set_perspective 60.0
                   (width (snd (base_prepare example_framework example_object)))
                   (height (snd (base_prepare example_framework example_object))) 256.0 0.1] @
                c1 @ c2 @ c3 @ c4 @ c5 @ c6 @ c7)" and
    i: "invoked (c1 @ c2 @ c3 @ c4 @ c5 @ c6 @ c7) =
           [''load_assets'', ''prepare_uniform_buffers'', ''update_uniform_buffers'',
            ''create_descriptor_pool'', ''setup_descriptor_set_layout'', ''create_descriptor_sets'',
            ''create_pipelines'', ''build_command_buffers'']"
    by blast
  have "\<exists>s' cs. prepare example_framework example_native example_object = Inr ((True, s'), cs) \<and>
      prepared s' \<and>
      invoked cs =
        [''prepare'', ''load_assets'', ''prepare_uniform_buffers'', ''update_uniform_buffers'',
         ''create_descriptor_pool'', ''setup_descriptor_set_layout'', ''create_descriptor_sets'',
         ''create_pipelines'', ''build_command_buffers'']"
    apply (rule exI [of _ "s7\<lparr>prepared := True\<rparr>"])
    apply (rule exI [of _ "[Invoke ''prepare'', ApiVulkanSample_prepare,
                 Camera_set_position (5.0, 1.0, - 3.0),
                 Camera_set_rotation (- 185.0, 0.0, 0.2),
                 Camera_set_perspective 60.0
                   (width (snd (base_prepare example_framework example_object)))
                   (height (snd (base_prepare example_framework example_object))) 256.0 0.1] @
                c1 @ c2 @ c3 @ c4 @ c5 @ c6 @ c7"])
    apply (intro conjI)
      apply (rule p)
     apply simp
    apply (insert i)
    apply simp
    done
  with f(1) p1 g(1) n r show ?thesis by blast
qed


lemma concat_map_nth_segment:
  assumes "k < length xs"
  shows "\<exists>pre post. concat (map f xs) = pre @ f (xs ! k) @ post"
proof -
  have "xs = take k xs @ xs ! k # drop (Suc k) xs"
    using assms by (simp add: id_take_nth_drop)
  then have "concat (map f xs) =
      concat (map f (take k xs)) @ f (xs ! k) @ concat (map f (drop (Suc k) xs))"
    by (metis append_Cons append_Nil concat.simps(2) concat_append list.simps(9) map_append)
  then show ?thesis by blast
qed

lemma build_command_buffer_inversion:
  assumes "build_command_buffer nv i cb s = Inr (s', cs)"
  shows "i < length (framebuffers s) \<and>
         vkBeginCommandBuffer_result nv i = VK_SUCCESS \<and>
         vkEndCommandBuffer_result nv i = VK_SUCCESS \<and>
         s' = s\<lparr>push_const_block_direction := (- 3.95, 0, 0)\<rparr> \<and>
         cs = iteration_calls s cb (framebuffers s ! i)"
  using assms
  by (auto simp: build_command_buffer_def VK_CHECK_def and_then_def performed_def iteration_calls_def
        record_commands_snd split: if_splits)

lemma iteration_calls_direction:
  "iteration_calls (s\<lparr>push_const_block_direction := d\<rparr>) cb fb = iteration_calls s cb fb"
  by (simp add: iteration_calls_def record_commands_direction)

lemma build_command_buffers_loop_inversion:
  assumes "build_command_buffers_loop nv i cbs s = Inr (s', cs)"
  shows "(\<forall>k < length cbs. i + k < length (framebuffers s) \<and>
                            vkBeginCommandBuffer_result nv (i + k) = VK_SUCCESS \<and>
                            vkEndCommandBuffer_result nv (i + k) = VK_SUCCESS) \<and>
         s' = s\<lparr>push_const_block_direction := push_const_block_direction s'\<rparr> \<and>
         cs = concat (map (\<lambda>k. iteration_calls s (cbs ! k) (framebuffers s ! (i + k))) [0..<length cbs])"
  using assms
proof (induction cbs arbitrary: i s cs)
  case Nil
  then show ?case by (simp add: performed_def)
next
  case (Cons cb cbs)
  from Cons.prems obtain s1 c1 c2 where
    b: "build_command_buffer nv i cb s = Inr (s1, c1)" and
    l: "build_command_buffers_loop nv (Suc i) cbs s1 = Inr (s', c2)" and
    cs: "cs = c1 @ c2"
    by (auto simp: and_then_eq_Inr)
  note bi = build_command_buffer_inversion [OF b]
  note ih = Cons.IH [OF l]
  from bi have s1: "s1 = s\<lparr>push_const_block_direction := (- 3.95, 0, 0)\<rparr>" by simp
  have f1: "framebuffers s1 = framebuffers s" by (simp add: s1)
  have it: "\<And>cb fb. iteration_calls s1 cb fb = iteration_calls s cb fb"
    by (simp add: s1 iteration_calls_direction)
  have 2: "\<forall>k < length (cb # cbs). i + k < length (framebuffers s) \<and>
                            vkBeginCommandBuffer_result nv (i + k) = VK_SUCCESS \<and>
                            vkEndCommandBuffer_result nv (i + k) = VK_SUCCESS"
  proof (intro allI impI)
    fix k assume k: "k < length (cb # cbs)"
    show "i + k < length (framebuffers s) \<and>
          vkBeginCommandBuffer_result nv (i + k) = VK_SUCCESS \<and>
          vkEndCommandBuffer_result nv (i + k) = VK_SUCCESS"
    proof (cases k)
      case 0
      with bi show ?thesis by simp
    next
      case (Suc j)
      with k have "j < length cbs" by simp
      with ih have "Suc i + j < length (framebuffers s1) \<and>
                    vkBeginCommandBuffer_result nv (Suc i + j) = VK_SUCCESS \<and>
                    vkEndCommandBuffer_result nv (Suc i + j) = VK_SUCCESS" by blast
      with Suc f1 show ?thesis by simp
    qed
  qed
  from ih have "s' = s1\<lparr>push_const_block_direction := push_const_block_direction s'\<rparr>" by simp
  then have 3: "s' = s\<lparr>push_const_block_direction := push_const_block_direction s'\<rparr>"
    by (simp add: s1)
  have m: "map (\<lambda>k. iteration_calls s ((cb # cbs) ! k) (framebuffers s ! (i + k))) [0..<length (cb # cbs)] =
           iteration_calls s cb (framebuffers s ! i) #
           map (\<lambda>k. iteration_calls s (cbs ! k) (framebuffers s ! (Suc i + k))) [0..<length cbs]"
    by (simp add: map_upt_Suc del: upt_Suc)
  from ih have "c2 = concat (map (\<lambda>k. iteration_calls s (cbs ! k) (framebuffers s ! (Suc i + k)))
                               [0..<length cbs])"
    by (simp add: it f1)
  with bi cs have 4: "cs = concat (map (\<lambda>k. iteration_calls s ((cb # cbs) ! k) (framebuffers s ! (i + k)))
                                [0..<length (cb # cbs)])"
    by (simp only: m concat.simps)
  from 2 3 4 show ?case by blast
qed

lemma build_command_buffers_inversion:
  assumes "build_command_buffers nv s = Inr (s', cs)"
  shows "recording_succeeds nv s \<and>
         s' = s\<lparr>push_const_block_direction := push_const_block_direction s'\<rparr> \<and>
         cs = Invoke ''build_command_buffers'' #
              concat (map (\<lambda>k. iteration_calls s (draw_cmd_buffers s ! k) (framebuffers s ! k))
                        [0..<length (draw_cmd_buffers s)])"
proof -
  from assms obtain c where
    l: "build_command_buffers_loop nv 0 (draw_cmd_buffers s) s = Inr (s', c)" and
    cs: "cs = Invoke ''build_command_buffers'' # c"
    by (auto simp: build_command_buffers_def split: sum.splits)
  note li = build_command_buffers_loop_inversion [OF l]
  have "length (draw_cmd_buffers s) \<le> length (framebuffers s)"
  proof (cases "draw_cmd_buffers s = []")
    case True
    then show ?thesis by simp
  next
    case False
    then have "length (draw_cmd_buffers s) - 1 < length (draw_cmd_buffers s)" by simp
    with li have "0 + (length (draw_cmd_buffers s) - 1) < length (framebuffers s)" by blast
    then show ?thesis by simp
  qed
  with li cs show ?thesis
    by (simp add: recording_succeeds_def)
qed

lemma iteration_calls_prepared:
  "iteration_calls (s\<lparr>prepared := b\<rparr>) cb fb = iteration_calls s cb fb"
  by (simp add: iteration_calls_def record_commands_def Let_def)

lemma create_descriptor_pool_fails:
  assumes "first_failure [fst (vkCreateDescriptorPool_result nv)] = Some r"
  shows "create_descriptor_pool nv s = Inl (VK_CHECK_failed r)"
  using assms
  by (simp add: first_failure_def create_descriptor_pool_def Let_def VK_CHECK_def split: if_splits)

lemma setup_descriptor_set_layout_fails:
  assumes "first_failure
             [fst (vkCreateDescriptorSetLayout_result_1 nv), fst (vkCreatePipelineLayout_result_1 nv),
              fst (vkCreateDescriptorSetLayout_result_2 nv), fst (vkCreatePipelineLayout_result_2 nv)] = Some r"
  shows "setup_descriptor_set_layout nv s = Inl (VK_CHECK_failed r)"
  using assms
  by (simp add: first_failure_def setup_descriptor_set_layout_def Let_def VK_CHECK_def
        split: if_splits)

lemma create_descriptor_sets_fails:
  assumes "first_failure
             [fst (vkAllocateDescriptorSets_result_1 nv), fst (vkAllocateDescriptorSets_result_2 nv)] = Some r"
    and "buffers_allocated s"
  shows "create_descriptor_sets nv s = Inl (VK_CHECK_failed r)"
  using assms
  by (auto simp add: first_failure_def create_descriptor_sets_def create_descriptor_def Let_def
        VK_CHECK_def buffers_allocated_def performed_def split: if_splits)

lemma create_pipelines_fails:
  assumes "first_failure
             [fst (vkCreateGraphicsPipelines_result_1 nv), fst (vkCreateGraphicsPipelines_result_2 nv)] = Some r"
  shows "create_pipelines nv s = Inl (VK_CHECK_failed r)"
  using assms
  by (simp add: first_failure_def create_pipelines_def Let_def VK_CHECK_def split: if_splits)

lemma first_failure_Cons:
  "first_failure (x # xs) = (if x \<noteq> VK_SUCCESS then Some x else first_failure xs)"
  by (simp add: first_failure_def)

lemma first_failure_append:
  "first_failure (xs @ ys) = (case first_failure xs of None \<Rightarrow> first_failure ys | Some r \<Rightarrow> Some r)"
  by (induction xs) (simp_all add: first_failure_def)

lemma build_command_buffers_loop_fails:
  assumes "first_failure
             (concat (map (\<lambda>k. [vkBeginCommandBuffer_result nv (i + k), vkEndCommandBuffer_result nv (i + k)])
                        [0..<length cbs])) = Some r"
    and "i + length cbs \<le> length (framebuffers s)"
  shows "build_command_buffers_loop nv i cbs (s\<lparr>push_const_block_direction := d\<rparr>) =
           Inl (VK_CHECK_failed r)"
  using assms
proof (induction cbs arbitrary: i d)
  case Nil
  then show ?case by (simp add: first_failure_def)
next
  case (Cons cb cbs)
  have m: "map (\<lambda>k. [vkBeginCommandBuffer_result nv (i + k), vkEndCommandBuffer_result nv (i + k)])
             [0..<length (cb # cbs)] =
           [vkBeginCommandBuffer_result nv i, vkEndCommandBuffer_result nv i] #
           map (\<lambda>k. [vkBeginCommandBuffer_result nv (Suc i + k), vkEndCommandBuffer_result nv (Suc i + k)])
             [0..<length cbs]"
    by (simp add: map_upt_Suc del: upt_Suc)
  from Cons.prems(2) have i: "i < length (framebuffers s)"
    and le: "Suc i + length cbs \<le> length (framebuffers s)" by simp_all
  let ?rest = "concat (map (\<lambda>k. [vkBeginCommandBuffer_result nv (Suc i + k),
                                     vkEndCommandBuffer_result nv (Suc i + k)]) [0..<length cbs])"
  from Cons.prems(1) have f: "first_failure
      (vkBeginCommandBuffer_result nv i # vkEndCommandBuffer_result nv i # ?rest) = Some r"
    by (simp only: m concat.simps append_Cons append_Nil)
  show ?case
  proof (cases "vkBeginCommandBuffer_result nv i = VK_SUCCESS")
    case False
    with f have "r = vkBeginCommandBuffer_result nv i" by (simp add: first_failure_Cons)
    with False show ?thesis
      by (simp add: build_command_buffer_def VK_CHECK_def)
  next
    case b: True
    show ?thesis
    proof (cases "vkEndCommandBuffer_result nv i = VK_SUCCESS")
      case False
      with f b have "r = vkEndCommandBuffer_result nv i" by (simp add: first_failure_Cons)
      with False b i show ?thesis
        by (simp add: build_command_buffer_def VK_CHECK_def performed_def)
    next
      case e: True
      with f b have "first_failure ?rest = Some r" by (simp add: first_failure_Cons)
      from Cons.IH [OF this le, of "(- 3.95, 0, 0)"]
      show ?thesis
        by (simp add: build_command_buffer_returns [OF i b e])
    qed
  qed
qed

lemma build_command_buffers_fails:
  assumes "first_failure (recording_results nv (length (draw_cmd_buffers s))) = Some r"
    and "length (draw_cmd_buffers s) \<le> length (framebuffers s)"
  shows "build_command_buffers nv s = Inl (VK_CHECK_failed r)"
proof -
  from assms have "first_failure
      (concat (map (\<lambda>k. [vkBeginCommandBuffer_result nv (0 + k), vkEndCommandBuffer_result nv (0 + k)])
                 [0..<length (draw_cmd_buffers s)])) = Some r"
    and "0 + length (draw_cmd_buffers s) \<le> length (framebuffers s)"
    by (simp_all add: recording_results_def)
  from build_command_buffers_loop_fails [OF this, of "push_const_block_direction s"]
  show ?thesis
    by (simp add: build_command_buffers_def)
qed

lemma recording_succeeds_first_failure:
  assumes "recording_succeeds nv s"
  shows "first_failure (recording_results nv (length (draw_cmd_buffers s))) = None"
  using assms
  by (auto simp: first_failure_def recording_results_def recording_succeeds_def find_None_iff)

lemma first_failure_None_iff: "first_failure rs = None \<longleftrightarrow> (\<forall>r \<in> set rs. r = VK_SUCCESS)"
  by (auto simp: first_failure_def find_None_iff)

lemma prepare_inversion:
  assumes "prepare fw nv s = Inr ((True, sp), cs)"
  shows "fst (base_prepare fw s) \<and> setup_succeeds nv \<and> recording_succeeds nv sp \<and> prepared sp \<and>
         draw_cmd_buffers sp = draw_cmd_buffers (snd (base_prepare fw s)) \<and>
         framebuffers sp = framebuffers (snd (base_prepare fw s)) \<and>
         (\<exists>pre. cs = pre @ Invoke ''build_command_buffers'' #
                concat (map (\<lambda>k. iteration_calls sp (draw_cmd_buffers sp ! k) (framebuffers sp ! k))
                          [0..<length (draw_cmd_buffers sp)]))"
proof -
  obtain ok sb where b0: "base_prepare fw s = (ok, sb)" by (cases "base_prepare fw s")
  have ok: ok
  proof (rule ccontr)
    assume "\<not> ok"
    with assms b0 show False by (simp add: prepare_def performed_def)
  qed
  with b0 have b: "base_prepare fw s = (True, sb)" by simp
  define s0 where
    "s0 = sb\<lparr>camera :=
                set_perspective fw 60.0 (width sb) (height sb) 256.0 0.1
                  (set_rotation fw (- 185.0, 0.0, 0.2)
                     (set_position fw (5.0, 1.0, - 3.0) ((camera sb)\<lparr>camera_type := LookAt\<rparr>)))\<rparr>"
  from assms [unfolded prepare_unfold [OF b, folded s0_def]]
  obtain s1 c1 s2 c2 s3 c3 s4 c4 s5 c5 s6 c6 s7 c7 c0 where
    l1: "load_assets s0 = Inr (s1, c1)" and
    l2: "prepare_uniform_buffers s1 = Inr (s2, c2)" and
    l3: "create_descriptor_pool nv s2 = Inr (s3, c3)" and
    l4: "setup_descriptor_set_layout nv s3 = Inr (s4, c4)" and
    l5: "create_descriptor_sets nv s4 = Inr (s5, c5)" and
    l6: "create_pipelines nv s5 = Inr (s6, c6)" and
    l7: "build_command_buffers nv s6 = Inr (s7, c7)" and
    sp: "sp = s7\<lparr>prepared := True\<rparr>" and
    cs: "cs = c0 @ c1 @ c2 @ c3 @ c4 @ c5 @ c6 @ c7"
    by (auto simp: and_then_eq_Inr performed_def simp del: and_then_performed and_then_Inr)
  have f1: "framebuffers s1 = framebuffers sb" "draw_cmd_buffers s1 = draw_cmd_buffers sb"
    using l1 by (auto simp: load_assets_returns s0_def)
  from prepare_uniform_buffers_returns [of s1] l2 have
    b2: "buffers_allocated s2" and
    f2: "framebuffers s2 = framebuffers s1" "draw_cmd_buffers s2 = draw_cmd_buffers s1"
    by auto
  have n3: "first_failure [fst (vkCreateDescriptorPool_result nv)] = None"
  proof (cases "first_failure [fst (vkCreateDescriptorPool_result nv)]")
    case (Some r)
    from create_descriptor_pool_fails [OF Some, of s2] l3 show ?thesis by simp
  qed simp
  then have r3: "fst (vkCreateDescriptorPool_result nv) = VK_SUCCESS"
    by (simp add: first_failure_None_iff)
  from create_descriptor_pool_returns [OF r3, of s2] l3 have
    s3: "s3 = s2\<lparr>descriptor_pool := snd (vkCreateDescriptorPool_result nv)\<rparr>" by simp
  have n4: "first_failure
             [fst (vkCreateDescriptorSetLayout_result_1 nv), fst (vkCreatePipelineLayout_result_1 nv),
              fst (vkCreateDescriptorSetLayout_result_2 nv), fst (vkCreatePipelineLayout_result_2 nv)] = None"
    (is "first_failure ?L4 = None")
  proof (cases "first_failure ?L4")
    case (Some r)
    from setup_descriptor_set_layout_fails [OF Some, of s3] l4 show ?thesis by simp
  qed simp
  then have r4: "fst (vkCreateDescriptorSetLayout_result_1 nv) = VK_SUCCESS"
    "fst (vkCreatePipelineLayout_result_1 nv) = VK_SUCCESS"
    "fst (vkCreateDescriptorSetLayout_result_2 nv) = VK_SUCCESS"
    "fst (vkCreatePipelineLayout_result_2 nv) = VK_SUCCESS"
    by (simp_all add: first_failure_None_iff)
  from setup_descriptor_set_layout_returns [OF r4, of s3] l4 have
    s4: "s4 = s3\<lparr>descriptor_set_layouts_statically_tessellation := snd (vkCreateDescriptorSetLayout_result_1 nv),
                  pipeline_layouts_statically_tessellation := snd (vkCreatePipelineLayout_result_1 nv),
                  descriptor_set_layouts_dynamically_tessellation := snd (vkCreateDescriptorSetLayout_result_2 nv),
                  pipeline_layouts_dynamically_tessellation := snd (vkCreatePipelineLayout_result_2 nv)\<rparr>"
    by auto
  have b4: "buffers_allocated s4"
    using b2 by (simp add: s4 s3 buffers_allocated_def)
  have n5: "first_failure
             [fst (vkAllocateDescriptorSets_result_1 nv), fst (vkAllocateDescriptorSets_result_2 nv)] = None"
    (is "first_failure ?L5 = None")
  proof (cases "first_failure ?L5")
    case (Some r)
    from create_descriptor_sets_fails [OF Some b4] l5 show ?thesis by simp
  qed simp
  then have r5: "fst (vkAllocateDescriptorSets_result_1 nv) = VK_SUCCESS"
    "fst (vkAllocateDescriptorSets_result_2 nv) = VK_SUCCESS"
    by (simp_all add: first_failure_None_iff)
  from create_descriptor_sets_returns [OF r5 b4] l5 have
    s5: "s5 = s4\<lparr>descriptor_sets_statically_tessellation := snd (vkAllocateDescriptorSets_result_1 nv),
                  descriptor_sets_dynamically_tessellation := snd (vkAllocateDescriptorSets_result_2 nv)\<rparr>"
    by auto
  have n6: "first_failure
             [fst (vkCreateGraphicsPipelines_result_1 nv), fst (vkCreateGraphicsPipelines_result_2 nv)] = None"
    (is "first_failure ?L6 = None")
  proof (cases "first_failure ?L6")
    case (Some r)
    from create_pipelines_fails [OF Some, of s5] l6 show ?thesis by simp
  qed simp
  then have r6: "fst (vkCreateGraphicsPipelines_result_1 nv) = VK_SUCCESS"
    "fst (vkCreateGraphicsPipelines_result_2 nv) = VK_SUCCESS"
    by (simp_all add: first_failure_None_iff)
  from create_pipelines_returns [OF r6, of s5] l6 have
    s6: "s6 = s5\<lparr>pipeline_statically_tessellation := snd (vkCreateGraphicsPipelines_result_1 nv),
                  pipeline_dynamically_tessellation := snd (vkCreateGraphicsPipelines_result_2 nv)\<rparr>"
    by auto
  have f6: "framebuffers s6 = framebuffers sb" "draw_cmd_buffers s6 = draw_cmd_buffers sb"
    by (simp_all add: s6 s5 s4 s3 f2 f1)
  note bi = build_command_buffers_inversion [OF l7]
  from bi have s7: "s7 = s6\<lparr>push_const_block_direction := push_const_block_direction s7\<rparr>" by simp
  have f7: "framebuffers s7 = framebuffers s6" "draw_cmd_buffers s7 = draw_cmd_buffers s6"
    by (subst s7, simp)+
  have fp: "framebuffers sp = framebuffers s6" "draw_cmd_buffers sp = draw_cmd_buffers s6"
    by (simp_all add: sp f7)
  have it: "\<And>cb fb. iteration_calls sp cb fb = iteration_calls s6 cb fb"
  proof -
    fix cb fb
    have "iteration_calls sp cb fb = iteration_calls s7 cb fb"
      by (simp add: sp iteration_calls_prepared)
    also have "\<dots> = iteration_calls s6 cb fb"
      by (subst s7) (simp only: iteration_calls_direction)
    finally show "iteration_calls sp cb fb = iteration_calls s6 cb fb" .
  qed
  have 1: "setup_succeeds nv"
    by (simp add: setup_succeeds_def r3 r4 r5 r6)
  have 2: "recording_succeeds nv sp"
    using bi by (simp add: recording_succeeds_def fp)
  have 3: "prepared sp" by (simp add: sp)
  have 4: "draw_cmd_buffers sp = draw_cmd_buffers (snd (base_prepare fw s))"
    "framebuffers sp = framebuffers (snd (base_prepare fw s))"
    by (simp_all add: fp f6 b)
  from bi have "c7 = Invoke ''build_command_buffers'' #
                concat (map (\<lambda>k. iteration_calls sp (draw_cmd_buffers sp ! k) (framebuffers sp ! k))
                          [0..<length (draw_cmd_buffers sp)])"
    by (simp add: it fp)
  with cs have 5: "cs = (c0 @ c1 @ c2 @ c3 @ c4 @ c5 @ c6) @ Invoke ''build_command_buffers'' #
                concat (map (\<lambda>k. iteration_calls sp (draw_cmd_buffers sp ! k) (framebuffers sp ! k))
                          [0..<length (draw_cmd_buffers sp)])"
    by simp
  from b 1 2 3 4 5 show ?thesis by auto
qed


lemma prepare_returns:
  assumes "fst (base_prepare fw s)" and "setup_succeeds nv"
    and "recording_succeeds nv (snd (base_prepare fw s))"
  shows "\<exists>sp cs. prepare fw nv s = Inr ((True, sp), cs)"
proof -
  define sb where "sb = snd (base_prepare fw s)"
  have b: "base_prepare fw s = (True, sb)"
    using assms(1) by (simp add: sb_def prod_eq_iff)
  from assms(2) have r:
    "fst (vkCreateDescriptorPool_result nv) = VK_SUCCESS"
    "fst (vkCreateDescriptorSetLayout_result_1 nv) = VK_SUCCESS"
    "fst (vkCreatePipelineLayout_result_1 nv) = VK_SUCCESS"
    "fst (vkCreateDescriptorSetLayout_result_2 nv) = VK_SUCCESS"
    "fst (vkCreatePipelineLayout_result_2 nv) = VK_SUCCESS"
    "fst (vkAllocateDescriptorSets_result_1 nv) = VK_SUCCESS"
    "fst (vkAllocateDescriptorSets_result_2 nv) = VK_SUCCESS"
    "fst (vkCreateGraphicsPipelines_result_1 nv) = VK_SUCCESS"
    "fst (vkCreateGraphicsPipelines_result_2 nv) = VK_SUCCESS"
    by (simp_all add: setup_succeeds_def)
  from assms(3) have rs: "recording_succeeds nv sb" by (simp add: sb_def)
  define s0 where
    "s0 = sb\<lparr>camera :=
                set_perspective fw 60.0 (width sb) (height sb) 256.0 0.1
                  (set_rotation fw (- 185.0, 0.0, 0.2)
                     (set_position fw (5.0, 1.0, - 3.0) ((camera sb)\<lparr>camera_type := LookAt\<rparr>)))\<rparr>"
  define s1 where
    "s1 = s0\<lparr>models_terrain_one := load_model ''scenes/terrain.gltf'',
             models_terrain_two := load_model ''scenes/terrain.gltf''\<rparr>"
  define c1 where
    "c1 = [Invoke ''load_assets'', Load_model ''scenes/terrain.gltf'', Load_model ''scenes/terrain.gltf'']"
  have l1: "load_assets s0 = Inr (s1, c1)"
    unfolding s1_def c1_def by (rule load_assets_returns)
  have f1: "framebuffers s1 = framebuffers sb" "draw_cmd_buffers s1 = draw_cmd_buffers sb"
    by (simp_all add: s1_def s0_def)
  from prepare_uniform_buffers_returns [of s1] obtain s2 c2 where
    l2: "prepare_uniform_buffers s1 = Inr (s2, c2)" and b2: "buffers_allocated s2" and
    f2: "framebuffers s2 = framebuffers s1" "draw_cmd_buffers s2 = draw_cmd_buffers s1"
    by blast
  define s3 where "s3 = s2\<lparr>descriptor_pool := snd (vkCreateDescriptorPool_result nv)\<rparr>"
  from create_descriptor_pool_invoked [OF r(1), of s2] obtain c3 where
    l3: "create_descriptor_pool nv s2 = Inr (s3, Invoke ''create_descriptor_pool'' # c3)"
    unfolding s3_def by blast
  define s4 where
    "s4 = s3\<lparr>descriptor_set_layouts_statically_tessellation := snd (vkCreateDescriptorSetLayout_result_1 nv),
             pipeline_layouts_statically_tessellation := snd (vkCreatePipelineLayout_result_1 nv),
             descriptor_set_layouts_dynamically_tessellation := snd (vkCreateDescriptorSetLayout_result_2 nv),
             pipeline_layouts_dynamically_tessellation := snd (vkCreatePipelineLayout_result_2 nv)\<rparr>"
  from setup_descriptor_set_layout_returns [OF r(2-5), of s3] obtain c4 where
    l4: "setup_descriptor_set_layout nv s3 = Inr (s4, Invoke ''setup_descriptor_set_layout'' # c4)"
    unfolding s4_def by blast
  have b4: "buffers_allocated s4"
    using b2 by (simp add: s4_def s3_def buffers_allocated_def)
  define s5 where
    "s5 = s4\<lparr>descriptor_sets_statically_tessellation := snd (vkAllocateDescriptorSets_result_1 nv),
             descriptor_sets_dynamically_tessellation := snd (vkAllocateDescriptorSets_result_2 nv)\<rparr>"
  from create_descriptor_sets_returns [OF r(6,7) b4] obtain c5 where
    l5: "create_descriptor_sets nv s4 = Inr (s5, Invoke ''create_descriptor_sets'' # c5)"
    unfolding s5_def by blast
  define s6 where
    "s6 = s5\<lparr>pipeline_statically_tessellation := snd (vkCreateGraphicsPipelines_result_1 nv),
             pipeline_dynamically_tessellation := snd (vkCreateGraphicsPipelines_result_2 nv)\<rparr>"
  from create_pipelines_returns [OF r(8,9), of s5] obtain c6 where
    l6: "create_pipelines nv s5 = Inr (s6, Invoke ''create_pipelines'' # c6)"
    unfolding s6_def by blast
  have f6: "framebuffers s6 = framebuffers sb" "draw_cmd_buffers s6 = draw_cmd_buffers sb"
    by (simp_all add: s6_def s5_def s4_def s3_def f2 f1)
  have "recording_succeeds nv s6"
    using rs by (simp add: recording_succeeds_def f6)
  from build_command_buffers_returns [OF this] obtain s7 c7 where
    l7: "build_command_buffers nv s6 = Inr (s7, c7)" by blast
  have "prepare fw nv s =
           Inr ((True, s7\<lparr>prepared := True\<rparr>),
                [Invoke ''prepare'', ApiVulkanSample_prepare,
                 Camera_set_position (5.0, 1.0, - 3.0),
                 Camera_set_rotation (- 185.0, 0.0, 0.2),
                 Camera_set_perspective 60.0 (width sb) (height sb) 256.0 0.1] @
                c1 @ c2 @ (Invoke ''create_descriptor_pool'' # c3) @
                (Invoke ''setup_descriptor_set_layout'' # c4) @
                (Invoke ''create_descriptor_sets'' # c5) @
                (Invoke ''create_pipelines'' # c6) @ c7)"
    by (simp only: prepare_unfold [OF b, folded s0_def] and_then_performed and_then_Inr
          l1 l2 l3 l4 l5 l6 l7 sum.case prod.case performed_def append_Nil2)
  then show ?thesis by (intro exI)
qed

lemma draw_returns:
  assumes "unat (current_buffer (prepare_frame fw s)) < length (draw_cmd_buffers (prepare_frame fw s))"
    and "vkQueueSubmit_result nv = VK_SUCCESS"
  shows "\<exists>s1 ds. draw fw nv s = Inr (s1, ds)"
  using assms by (simp add: draw_def Let_def performed_def)

lemma draw_keeps_command_buffers:
  assumes "draw fw nv s = Inr (s1, ds)"
    and "\<forall>x. draw_cmd_buffers (prepare_frame fw x) = draw_cmd_buffers x \<and>
             draw_cmd_buffers (submit_frame fw x) = draw_cmd_buffers x"
  shows "draw_cmd_buffers s1 = draw_cmd_buffers s"
  using assms
  by (auto simp: draw_def Let_def and_then_def performed_def VK_CHECK_def split: if_splits)

lemma render_keeps_command_buffers:
  assumes "render fw nv delta_time s = Inr (s2, rs)"
    and "\<forall>x. draw_cmd_buffers (prepare_frame fw x) = draw_cmd_buffers x \<and>
             draw_cmd_buffers (submit_frame fw x) = draw_cmd_buffers x"
  shows "draw_cmd_buffers s2 = draw_cmd_buffers s"
proof (cases "prepared s")
  case False
  with assms(1) show ?thesis by (simp add: render_def performed_def)
next
  case True
  let ?g = "\<lambda>s. if updated (camera s) then update_uniform_buffers s else performed [] s"
  from True assms(1) obtain c where "and_then (draw fw nv s) ?g = Inr (s2, c)"
    by (auto simp: render_def split: sum.splits prod.splits)
  then obtain s1 c1 c2 where d: "draw fw nv s = Inr (s1, c1)" and g: "?g s1 = Inr (s2, c2)"
    by (auto simp: and_then_eq_Inr)
  from draw_keeps_command_buffers [OF d assms(2)] have 1: "draw_cmd_buffers s1 = draw_cmd_buffers s" .
  from g have "draw_cmd_buffers s2 = draw_cmd_buffers s1"
    by (cases "updated (camera s1)") (auto simp: performed_def dest: update_uniform_buffers_frame)
  with 1 show ?thesis by simp
qed

subsection \<open>Command buffers\<close>

text \<open>
  C5. When the checked calls of the loop succeed and every command buffer has a
  framebuffer, \<^verbatim>\<open>build_command_buffers\<close> performs, for each index \<open>i\<close> of
  \<open>draw_cmd_buffers\<close> in order, the calls of one iteration for \<open>draw_cmd_buffers[i]\<close> and
  \<open>framebuffers[i]\<close>. The commands of an iteration are 17, they begin one render pass, on
  the framebuffer of the iteration, and the commands recorded for two framebuffers differ
  only in that framebuffer. A \<^verbatim>\<open>draw\<close> or \<^verbatim>\<open>render\<close> that returns has recorded nothing
  and, if the framework's \<^verbatim>\<open>prepare_frame\<close> and \<^verbatim>\<open>submit_frame\<close> leave the vector
  \<open>draw_cmd_buffers\<close> alone, so has it. After a \<^verbatim>\<open>prepare\<close> that has returned true, a
  \<^verbatim>\<open>draw\<close> on an object that still has the command buffers \<^verbatim>\<open>prepare\<close> left submits
  exactly one command buffer, \<open>draw_cmd_buffers[current_buffer]\<close>, and the calls of
  \<^verbatim>\<open>prepare\<close> contain the iteration that recorded this very buffer.
\<close>

theorem command_buffers_fixed_after_preparation:
  "(recording_succeeds nv s \<longrightarrow>
      (\<exists>s'. build_command_buffers nv s =
              Inr (s', Invoke ''build_command_buffers'' #
                       concat (map (\<lambda>i. iteration_calls s (draw_cmd_buffers s ! i) (framebuffers s ! i))
                                 [0..<length (draw_cmd_buffers s)])) \<and>
            draw_cmd_buffers s' = draw_cmd_buffers s)) \<and>
   map (with_framebuffer fb') (fst (record_commands s fb)) = fst (record_commands s fb') \<and>
   render_pass_framebuffers (fst (record_commands s fb)) = [fb] \<and>
   length (fst (record_commands s fb)) = 17 \<and>
   (draw fw nv s = Inr (s1, ds) \<longrightarrow>
      filter is_recording ds = [] \<and>
      submissions ds = [[draw_cmd_buffers (prepare_frame fw s) ! unat (current_buffer (prepare_frame fw s))]] \<and>
      unat (current_buffer (prepare_frame fw s)) < length (draw_cmd_buffers (prepare_frame fw s))) \<and>
   (render fw nv delta_time s = Inr (s2, rs) \<longrightarrow> filter is_recording rs = []) \<and>
   ((\<forall>x. draw_cmd_buffers (prepare_frame fw x) = draw_cmd_buffers x \<and>
         draw_cmd_buffers (submit_frame fw x) = draw_cmd_buffers x) \<longrightarrow>
      (draw fw nv s = Inr (s1, ds) \<longrightarrow> draw_cmd_buffers s1 = draw_cmd_buffers s) \<and>
      (render fw nv delta_time s = Inr (s2, rs) \<longrightarrow> draw_cmd_buffers s2 = draw_cmd_buffers s)) \<and>
   (prepare fw nv s0 = Inr ((True, sp), cs) \<and>
    draw_cmd_buffers (prepare_frame fw s3) = draw_cmd_buffers sp \<and>
    draw fw nv s3 = Inr (s4, ds') \<longrightarrow>
      (\<exists>k pre post.
         k = unat (current_buffer (prepare_frame fw s3)) \<and>
         k < length (draw_cmd_buffers sp) \<and>
         submissions ds' = [[draw_cmd_buffers sp ! k]] \<and>
         cs = pre @ iteration_calls sp (draw_cmd_buffers sp ! k) (framebuffers sp ! k) @ post))"
proof (intro conjI impI)
  assume "recording_succeeds nv s"
  from build_command_buffers_returns [OF this] obtain d' where
    r: "build_command_buffers nv s =
          Inr (s\<lparr>push_const_block_direction := d'\<rparr>,
               Invoke ''build_command_buffers'' #
               concat (map (\<lambda>k. iteration_calls s (draw_cmd_buffers s ! k) (framebuffers s ! k))
                         [0..<length (draw_cmd_buffers s)]))" ..
  show "\<exists>s'. build_command_buffers nv s =
              Inr (s', Invoke ''build_command_buffers'' #
                       concat (map (\<lambda>i. iteration_calls s (draw_cmd_buffers s ! i) (framebuffers s ! i))
                                 [0..<length (draw_cmd_buffers s)])) \<and>
            draw_cmd_buffers s' = draw_cmd_buffers s"
    by (intro exI [of _ "s\<lparr>push_const_block_direction := d'\<rparr>"]) (simp add: r)
next
  show "map (with_framebuffer fb') (fst (record_commands s fb)) = fst (record_commands s fb')"
    by (simp add: record_commands_def Let_def)
next
  show "render_pass_framebuffers (fst (record_commands s fb)) = [fb]"
    by (simp add: record_commands_def Let_def)
next
  show "length (fst (record_commands s fb)) = 17"
    by (simp add: record_commands_def Let_def)
next
  assume "draw fw nv s = Inr (s1, ds)"
  from draw_calls [OF this] obtain si where
    d: "ds = [Invoke ''draw'', Prepare_frame,
              VkQueueSubmit (queue (prepare_frame fw s)) 1 si VK_NULL_HANDLE, Submit_frame]"
      "commandBufferCount si = 1"
      "pCommandBuffers si =
         [draw_cmd_buffers (prepare_frame fw s) ! unat (current_buffer (prepare_frame fw s))]"
      "unat (current_buffer (prepare_frame fw s)) < length (draw_cmd_buffers (prepare_frame fw s))"
    by blast
  from d show "filter is_recording ds = []" by simp
  from d show "submissions ds =
      [[draw_cmd_buffers (prepare_frame fw s) ! unat (current_buffer (prepare_frame fw s))]]"
    by simp
  from d show "unat (current_buffer (prepare_frame fw s)) < length (draw_cmd_buffers (prepare_frame fw s))"
    by simp
next
  assume "render fw nv delta_time s = Inr (s2, rs)"
  from render_calls [OF this] show "filter is_recording rs = []"
  proof
    assume "rs = [Invoke ''render'']"
    then show ?thesis by simp
  next
    assume "\<exists>s1 ds us. draw fw nv s = Inr (s1, ds) \<and> rs = Invoke ''render'' # ds @ us \<and>
              (us = [] \<or> (\<exists>u t. us = update_calls u t))"
    then obtain s1 ds us where
      d: "draw fw nv s = Inr (s1, ds)" and rs: "rs = Invoke ''render'' # ds @ us" and
      us: "us = [] \<or> (\<exists>u t. us = update_calls u t)" by blast
    from draw_calls [OF d] have "filter is_recording ds = []" by fastforce
    moreover from us have "filter is_recording us = []" by auto
    ultimately show ?thesis by (simp add: rs)
  qed
next
  assume k: "\<forall>x. draw_cmd_buffers (prepare_frame fw x) = draw_cmd_buffers x \<and>
                 draw_cmd_buffers (submit_frame fw x) = draw_cmd_buffers x"
    and d: "draw fw nv s = Inr (s1, ds)"
  from draw_keeps_command_buffers [OF d k] show "draw_cmd_buffers s1 = draw_cmd_buffers s" .
next
  assume k: "\<forall>x. draw_cmd_buffers (prepare_frame fw x) = draw_cmd_buffers x \<and>
                 draw_cmd_buffers (submit_frame fw x) = draw_cmd_buffers x"
    and r: "render fw nv delta_time s = Inr (s2, rs)"
  from render_keeps_command_buffers [OF r k] show "draw_cmd_buffers s2 = draw_cmd_buffers s" .
next
  assume a: "prepare fw nv s0 = Inr ((True, sp), cs) \<and>
    draw_cmd_buffers (prepare_frame fw s3) = draw_cmd_buffers sp \<and>
    draw fw nv s3 = Inr (s4, ds')"
  then have p: "prepare fw nv s0 = Inr ((True, sp), cs)"
    and e: "draw_cmd_buffers (prepare_frame fw s3) = draw_cmd_buffers sp"
    and d: "draw fw nv s3 = Inr (s4, ds')" by simp_all
  let ?k = "unat (current_buffer (prepare_frame fw s3))"
  from draw_calls [OF d] obtain si where
    ds: "ds' = [Invoke ''draw'', Prepare_frame,
                VkQueueSubmit (queue (prepare_frame fw s3)) 1 si VK_NULL_HANDLE, Submit_frame]"
      "commandBufferCount si = 1"
      "pCommandBuffers si = [draw_cmd_buffers (prepare_frame fw s3) ! ?k]"
      "?k < length (draw_cmd_buffers (prepare_frame fw s3))"
    by blast
  from ds(4) e have k: "?k < length (draw_cmd_buffers sp)" by simp
  from ds e have sub: "submissions ds' = [[draw_cmd_buffers sp ! ?k]]" by simp
  from prepare_inversion [OF p] obtain pre where
    cs: "cs = pre @ Invoke ''build_command_buffers'' #
              concat (map (\<lambda>k. iteration_calls sp (draw_cmd_buffers sp ! k) (framebuffers sp ! k))
                        [0..<length (draw_cmd_buffers sp)])"
    by blast
  from k have "?k < length [0..<length (draw_cmd_buffers sp)]" by simp
  from concat_map_nth_segment [OF this,
      of "\<lambda>k. iteration_calls sp (draw_cmd_buffers sp ! k) (framebuffers sp ! k)"]
  obtain pre' post where
    "concat (map (\<lambda>k. iteration_calls sp (draw_cmd_buffers sp ! k) (framebuffers sp ! k))
               [0..<length (draw_cmd_buffers sp)]) =
     pre' @ iteration_calls sp (draw_cmd_buffers sp ! ([0..<length (draw_cmd_buffers sp)] ! ?k))
              (framebuffers sp ! ([0..<length (draw_cmd_buffers sp)] ! ?k)) @ post"
    by blast
  with k have "concat (map (\<lambda>k. iteration_calls sp (draw_cmd_buffers sp ! k) (framebuffers sp ! k))
               [0..<length (draw_cmd_buffers sp)]) =
     pre' @ iteration_calls sp (draw_cmd_buffers sp ! ?k) (framebuffers sp ! ?k) @ post"
    by simp
  with cs have "cs = (pre @ Invoke ''build_command_buffers'' # pre') @
                     iteration_calls sp (draw_cmd_buffers sp ! ?k) (framebuffers sp ! ?k) @ post"
    by simp
  with k sub show "\<exists>k pre post.
         k = unat (current_buffer (prepare_frame fw s3)) \<and>
         k < length (draw_cmd_buffers sp) \<and>
         submissions ds' = [[draw_cmd_buffers sp ! k]] \<and>
         cs = pre @ iteration_calls sp (draw_cmd_buffers sp ! k) (framebuffers sp ! k) @ post"
    by blast
qed

theorem command_buffers_fixed_after_preparation_witness:
  "recording_succeeds example_native example_still \<and>
   draw example_framework example_native example_still =
     Inr (example_still\<lparr>current_buffer := 1,
                         submit_info := \<lparr>commandBufferCount = 1, pCommandBuffers = [21]\<rparr>\<rparr>,
          [Invoke ''draw'', Prepare_frame,
           VkQueueSubmit 1 1 \<lparr>commandBufferCount = 1, pCommandBuffers = [21]\<rparr> VK_NULL_HANDLE,
           Submit_frame]) \<and>
   render example_framework example_native 0 example_still =
     Inr (example_still\<lparr>current_buffer := 1,
                         submit_info := \<lparr>commandBufferCount = 1, pCommandBuffers = [21]\<rparr>\<rparr>,
          [Invoke ''render'', Invoke ''draw'', Prepare_frame,
           VkQueueSubmit 1 1 \<lparr>commandBufferCount = 1, pCommandBuffers = [21]\<rparr> VK_NULL_HANDLE,
           Submit_frame]) \<and>
   (\<forall>x. draw_cmd_buffers (prepare_frame example_framework x) = draw_cmd_buffers x \<and>
        draw_cmd_buffers (submit_frame example_framework x) = draw_cmd_buffers x) \<and>
   (\<exists>s'. build_command_buffers example_native example_still =
           Inr (s', Invoke ''build_command_buffers'' #
                    iteration_calls example_still 20 10 @ iteration_calls example_still 21 11)) \<and>
   render_pass_framebuffers (fst (record_commands example_still 10)) = [10] \<and>
   submissions
     [Invoke ''draw'', Prepare_frame,
      VkQueueSubmit 1 1 \<lparr>commandBufferCount = 1, pCommandBuffers = [21]\<rparr> VK_NULL_HANDLE,
      Submit_frame] = [[21]] \<and>
   filter is_recording
     [Invoke ''render'', Invoke ''draw'', Prepare_frame,
      VkQueueSubmit 1 1 \<lparr>commandBufferCount = 1, pCommandBuffers = [21]\<rparr> VK_NULL_HANDLE,
      Submit_frame] = [] \<and>
   draw_cmd_buffers
     (example_still\<lparr>current_buffer := 1,
                     submit_info := \<lparr>commandBufferCount = 1, pCommandBuffers = [21]\<rparr>\<rparr>) =
     draw_cmd_buffers example_still \<and>
   (\<exists>sp cs s4 ds'.
      prepare example_framework example_native example_object = Inr ((True, sp), cs) \<and>
      draw_cmd_buffers (prepare_frame example_framework sp) = draw_cmd_buffers sp \<and>
      draw example_framework example_native sp = Inr (s4, ds') \<and>
      submissions ds' = [[21]] \<and>
      (\<exists>pre post. cs = pre @ iteration_calls sp 21 11 @ post))"
proof -
  let ?s1 = "example_still\<lparr>current_buffer := 1,
                            submit_info := \<lparr>commandBufferCount = 1, pCommandBuffers = [21]\<rparr>\<rparr>"
  let ?ds = "[Invoke ''draw'', Prepare_frame,
              VkQueueSubmit 1 1 \<lparr>commandBufferCount = 1, pCommandBuffers = [21]\<rparr> VK_NULL_HANDLE,
              Submit_frame]"
  have d: "draw example_framework example_native example_still = Inr (?s1, ?ds)"
    by (simp add: draw_def example_framework_def example_native_def example_still_def
          example_prepared_def example_object_def performed_def Let_def)
  have r: "render example_framework example_native 0 example_still = Inr (?s1, Invoke ''render'' # ?ds)"
    by (simp add: render_def d performed_def)
       (simp add: example_still_def example_prepared_def example_object_def)
  have c: "draw_cmd_buffers example_still = [20, 21]" "framebuffers example_still = [10, 11]"
    by (simp_all add: example_still_def example_prepared_def example_object_def)
  have u: "[0..<length [20, 21 :: nat]] = [0, 1]"
    by (simp add: upt_rec)
  have k: "\<forall>x. draw_cmd_buffers (prepare_frame example_framework x) = draw_cmd_buffers x \<and>
               draw_cmd_buffers (submit_frame example_framework x) = draw_cmd_buffers x"
    by (simp add: example_framework_def)
  have g: "fst (base_prepare example_framework example_object)"
    "snd (base_prepare example_framework example_object) = example_object"
    by (simp_all add: example_framework_def)
  have n: "setup_succeeds example_native"
    by (simp add: setup_succeeds_def example_native_def)
  from prepare_returns [of example_framework example_object example_native] g n
  obtain sp cs where p: "prepare example_framework example_native example_object = Inr ((True, sp), cs)"
    by auto
  from prepare_inversion [OF p] g have
    i: "draw_cmd_buffers sp = [20, 21]" "framebuffers sp = [10, 11]"
    by (simp_all add: example_object_def)
  have pf: "draw_cmd_buffers (prepare_frame example_framework sp) = draw_cmd_buffers sp"
    using k by simp
  have cb: "unat (current_buffer (prepare_frame example_framework sp)) = 1"
    by (simp add: example_framework_def)
  have q: "vkQueueSubmit_result example_native = VK_SUCCESS"
    by (simp add: example_native_def)
  from draw_returns [of example_framework sp example_native] pf cb i q
  obtain s4 ds' where d': "draw example_framework example_native sp = Inr (s4, ds')"
    by auto
  note t = command_buffers_fixed_after_preparation
    [where nv = example_native and s = example_still and fb' = 11 and fb = 10
       and fw = example_framework and ?s1.0 = ?s1 and ds = ?ds and delta_time = 0
       and ?s2.0 = ?s1 and rs = "Invoke ''render'' # ?ds" and ?s0.0 = example_object
       and sp = sp and cs = cs and ?s3.0 = sp and ?s4.0 = s4 and ds' = ds']
  from t p pf d' cb i have "\<exists>pre post. submissions ds' = [[21]] \<and>
      cs = pre @ iteration_calls sp 21 11 @ post"
    by auto
  then have last: "\<exists>sp cs s4 ds'.
      prepare example_framework example_native example_object = Inr ((True, sp), cs) \<and>
      draw_cmd_buffers (prepare_frame example_framework sp) = draw_cmd_buffers sp \<and>
      draw example_framework example_native sp = Inr (s4, ds') \<and>
      submissions ds' = [[21]] \<and>
      (\<exists>pre post. cs = pre @ iteration_calls sp 21 11 @ post)"
    using p pf d' by blast
  from t d r k have first: "(\<exists>s'. build_command_buffers example_native example_still =
           Inr (s', Invoke ''build_command_buffers'' #
                    iteration_calls example_still 20 10 @ iteration_calls example_still 21 11))"
    by (simp add: c u) (elim conjE exE, rule exI, assumption)
  from t have rp: "render_pass_framebuffers (fst (record_commands example_still 10)) = [10]"
    by simp
  from first rp last d r k show ?thesis
    by simp
qed


subsection \<open>Errors\<close>

text \<open>
  C6. \<^verbatim>\<open>request_gpu_features\<close> throws if and only if the device does not support
  tessellation shaders, and what it throws is the framework's \<open>VulkanException\<close> with the
  code \<open>VK_ERROR_FEATURE_NOT_PRESENT\<close>. No other member function throws it: an error of
  \<^verbatim>\<open>prepare\<close>, \<^verbatim>\<open>draw\<close> or \<^verbatim>\<open>render\<close> is a native result code other than success that
  \<^verbatim>\<open>VK_CHECK\<close> has met, or undefined behaviour of the language (a vector indexed out of
  range, a null pointer dereferenced), which is also all that \<^verbatim>\<open>update_uniform_buffers\<close>
  and \<^verbatim>\<open>on_update_ui_overlay\<close> can end in. Every native result of the file goes through
  \<^verbatim>\<open>VK_CHECK\<close>: the first one, in program order, that is not success ends its function with
  that code, in \<^verbatim>\<open>draw\<close> (\<^verbatim>\<open>vkQueueSubmit\<close>), \<^verbatim>\<open>create_descriptor_pool\<close>,
  \<^verbatim>\<open>setup_descriptor_set_layout\<close> (four calls), \<^verbatim>\<open>create_descriptor_sets\<close> (two),
  \<^verbatim>\<open>create_pipelines\<close> (two) and \<^verbatim>\<open>build_command_buffers\<close> (two in each iteration); and a
  \<^verbatim>\<open>prepare\<close> that returns true has met success at every one of them.
\<close>

theorem errors_surface_through_check_or_throw:
  "(fst (request_gpu_features gpu) \<noteq> None \<longleftrightarrow> \<not> tessellationShader (features gpu)) \<and>
   (fst (request_gpu_features gpu) = Some e0 \<longrightarrow>
      e0 = VulkanException VK_ERROR_FEATURE_NOT_PRESENT
             ''Selected GPU does not support tessellation shaders!'') \<and>
   (prepare fw nv s1 = Inl e1 \<longrightarrow> from_VK_CHECK e1 \<or> e1 = Undefined_behaviour) \<and>
   (draw fw nv s2 = Inl e2 \<longrightarrow> from_VK_CHECK e2 \<or> e2 = Undefined_behaviour) \<and>
   (render fw nv delta_time s3 = Inl e3 \<longrightarrow> from_VK_CHECK e3 \<or> e3 = Undefined_behaviour) \<and>
   (update_uniform_buffers s4 = Inl e4 \<longrightarrow> e4 = Undefined_behaviour) \<and>
   (on_update_ui_overlay drawer s5 = Inl e5 \<longrightarrow> e5 = Undefined_behaviour) \<and>
   (vkQueueSubmit_result nv \<noteq> VK_SUCCESS \<and>
    unat (current_buffer (prepare_frame fw s2)) < length (draw_cmd_buffers (prepare_frame fw s2)) \<longrightarrow>
      draw fw nv s2 = Inl (VK_CHECK_failed (vkQueueSubmit_result nv))) \<and>
   (first_failure [fst (vkCreateDescriptorPool_result nv)] = Some r6 \<longrightarrow>
      create_descriptor_pool nv s6 = Inl (VK_CHECK_failed r6)) \<and>
   (first_failure
      [fst (vkCreateDescriptorSetLayout_result_1 nv), fst (vkCreatePipelineLayout_result_1 nv),
       fst (vkCreateDescriptorSetLayout_result_2 nv), fst (vkCreatePipelineLayout_result_2 nv)] = Some r7 \<longrightarrow>
      setup_descriptor_set_layout nv s7 = Inl (VK_CHECK_failed r7)) \<and>
   (buffers_allocated s8 \<and>
    first_failure
      [fst (vkAllocateDescriptorSets_result_1 nv), fst (vkAllocateDescriptorSets_result_2 nv)] = Some r8 \<longrightarrow>
      create_descriptor_sets nv s8 = Inl (VK_CHECK_failed r8)) \<and>
   (first_failure
      [fst (vkCreateGraphicsPipelines_result_1 nv), fst (vkCreateGraphicsPipelines_result_2 nv)] = Some r9 \<longrightarrow>
      create_pipelines nv s9 = Inl (VK_CHECK_failed r9)) \<and>
   (length (draw_cmd_buffers s10) \<le> length (framebuffers s10) \<and>
    first_failure (recording_results nv (length (draw_cmd_buffers s10))) = Some r10 \<longrightarrow>
      build_command_buffers nv s10 = Inl (VK_CHECK_failed r10)) \<and>
   (prepare fw nv' s11 = Inr ((True, sp), cs) \<longrightarrow>
      setup_succeeds nv' \<and>
      first_failure (recording_results nv' (length (draw_cmd_buffers sp))) = None)"
proof (intro conjI impI)
  show "fst (request_gpu_features gpu) \<noteq> None \<longleftrightarrow> \<not> tessellationShader (features gpu)"
    by (simp add: request_gpu_features_def Let_def)
next
  assume "fst (request_gpu_features gpu) = Some e0"
  then show "e0 = VulkanException VK_ERROR_FEATURE_NOT_PRESENT
                    ''Selected GPU does not support tessellation shaders!''"
    by (simp add: request_gpu_features_def Let_def split: if_splits)
next
  assume "prepare fw nv s1 = Inl e1"
  then show "from_VK_CHECK e1 \<or> e1 = Undefined_behaviour" by (rule prepare_error)
next
  assume "draw fw nv s2 = Inl e2"
  then show "from_VK_CHECK e2 \<or> e2 = Undefined_behaviour" by (rule draw_error)
next
  assume "render fw nv delta_time s3 = Inl e3"
  then show "from_VK_CHECK e3 \<or> e3 = Undefined_behaviour" by (rule render_error)
next
  assume "update_uniform_buffers s4 = Inl e4"
  then show "e4 = Undefined_behaviour" by (rule update_uniform_buffers_error)
next
  assume "on_update_ui_overlay drawer s5 = Inl e5"
  then show "e5 = Undefined_behaviour" by (rule on_update_ui_overlay_error)
next
  assume "vkQueueSubmit_result nv \<noteq> VK_SUCCESS \<and>
    unat (current_buffer (prepare_frame fw s2)) < length (draw_cmd_buffers (prepare_frame fw s2))"
  then show "draw fw nv s2 = Inl (VK_CHECK_failed (vkQueueSubmit_result nv))"
    by (simp add: draw_def Let_def VK_CHECK_def)
next
  assume "first_failure [fst (vkCreateDescriptorPool_result nv)] = Some r6"
  then show "create_descriptor_pool nv s6 = Inl (VK_CHECK_failed r6)"
    by (rule create_descriptor_pool_fails)
next
  assume "first_failure
      [fst (vkCreateDescriptorSetLayout_result_1 nv), fst (vkCreatePipelineLayout_result_1 nv),
       fst (vkCreateDescriptorSetLayout_result_2 nv), fst (vkCreatePipelineLayout_result_2 nv)] = Some r7"
  then show "setup_descriptor_set_layout nv s7 = Inl (VK_CHECK_failed r7)"
    by (rule setup_descriptor_set_layout_fails)
next
  assume "buffers_allocated s8 \<and>
    first_failure
      [fst (vkAllocateDescriptorSets_result_1 nv), fst (vkAllocateDescriptorSets_result_2 nv)] = Some r8"
  then show "create_descriptor_sets nv s8 = Inl (VK_CHECK_failed r8)"
    by (simp add: create_descriptor_sets_fails)
next
  assume "first_failure
      [fst (vkCreateGraphicsPipelines_result_1 nv), fst (vkCreateGraphicsPipelines_result_2 nv)] = Some r9"
  then show "create_pipelines nv s9 = Inl (VK_CHECK_failed r9)"
    by (rule create_pipelines_fails)
next
  assume "length (draw_cmd_buffers s10) \<le> length (framebuffers s10) \<and>
    first_failure (recording_results nv (length (draw_cmd_buffers s10))) = Some r10"
  then show "build_command_buffers nv s10 = Inl (VK_CHECK_failed r10)"
    by (simp add: build_command_buffers_fails)
next
  assume p: "prepare fw nv' s11 = Inr ((True, sp), cs)"
  from prepare_inversion [OF p] show "setup_succeeds nv'" by simp
  from prepare_inversion [OF p] have "recording_succeeds nv' sp" by simp
  then show "first_failure (recording_results nv' (length (draw_cmd_buffers sp))) = None"
    by (rule recording_succeeds_first_failure)
qed

theorem errors_surface_through_check_or_throw_witness:
  "\<not> tessellationShader (features example_gpu_without_tessellation) \<and>
   fst (request_gpu_features example_gpu_without_tessellation) =
     Some (VulkanException VK_ERROR_FEATURE_NOT_PRESENT
             ''Selected GPU does not support tessellation shaders!'') \<and>
   prepare example_framework example_native_all_failing example_object =
     Inl (VK_CHECK_failed (VK_RESULT_OTHER (- 1))) \<and>
   draw example_framework example_native_all_failing example_prepared =
     Inl (VK_CHECK_failed (VK_RESULT_OTHER (- 4))) \<and>
   render example_framework example_native_all_failing 0 example_prepared =
     Inl (VK_CHECK_failed (VK_RESULT_OTHER (- 4))) \<and>
   update_uniform_buffers example_object = Inl Undefined_behaviour \<and>
   on_update_ui_overlay example_drawer example_object = Inl Undefined_behaviour \<and>
   from_VK_CHECK (VK_CHECK_failed (VK_RESULT_OTHER (- 1))) \<and>
   from_VK_CHECK (VK_CHECK_failed (VK_RESULT_OTHER (- 4))) \<and>
   create_descriptor_pool example_native_all_failing example_prepared =
     Inl (VK_CHECK_failed (VK_RESULT_OTHER (- 1))) \<and>
   setup_descriptor_set_layout example_native_all_failing example_prepared =
     Inl (VK_CHECK_failed (VK_RESULT_OTHER (- 2))) \<and>
   buffers_allocated example_prepared \<and>
   create_descriptor_sets example_native_all_failing example_prepared =
     Inl (VK_CHECK_failed (VK_RESULT_OTHER (- 1000069000))) \<and>
   create_pipelines example_native_all_failing example_prepared =
     Inl (VK_CHECK_failed (VK_RESULT_OTHER (- 1))) \<and>
   length (draw_cmd_buffers example_prepared) \<le> length (framebuffers example_prepared) \<and>
   first_failure (recording_results example_native_all_failing (length (draw_cmd_buffers example_prepared))) =
     Some (VK_RESULT_OTHER (- 2)) \<and>
   build_command_buffers example_native_all_failing example_prepared =
     Inl (VK_CHECK_failed (VK_RESULT_OTHER (- 2))) \<and>
   (\<exists>sp cs. prepare example_framework example_native example_object = Inr ((True, sp), cs) \<and>
      setup_succeeds example_native \<and>
      first_failure (recording_results example_native (length (draw_cmd_buffers sp))) = None)"
proof -
  have g: "\<not> tessellationShader (features example_gpu_without_tessellation)"
    by (simp add: example_gpu_without_tessellation_def)
  have q: "vkQueueSubmit_result example_native_all_failing = VK_RESULT_OTHER (- 4)"
    "vkQueueSubmit_result example_native_all_failing \<noteq> VK_SUCCESS"
    by (simp_all add: example_native_all_failing_def)
  have i: "unat (current_buffer (prepare_frame example_framework example_prepared))
             < length (draw_cmd_buffers (prepare_frame example_framework example_prepared))"
    by (simp add: example_framework_def example_prepared_def example_object_def)
  have u: "update_uniform_buffers example_object = Inl Undefined_behaviour"
    by (simp add: update_uniform_buffers_def convert_and_update_def Let_def example_object_def)
  have o: "on_update_ui_overlay example_drawer example_object = Inl Undefined_behaviour"
    by (simp add: on_update_ui_overlay_def example_drawer_def Let_def update_uniform_buffers_def
          convert_and_update_def) (simp add: example_object_def)
  have c: "draw_cmd_buffers example_prepared = [20, 21]" "framebuffers example_prepared = [10, 11]"
    by (simp_all add: example_prepared_def example_object_def)
  have f6: "first_failure [fst (vkCreateDescriptorPool_result example_native_all_failing)] =
      Some (VK_RESULT_OTHER (- 1))"
    by (simp add: first_failure_def example_native_all_failing_def)
  have f7: "first_failure
      [fst (vkCreateDescriptorSetLayout_result_1 example_native_all_failing),
       fst (vkCreatePipelineLayout_result_1 example_native_all_failing),
       fst (vkCreateDescriptorSetLayout_result_2 example_native_all_failing),
       fst (vkCreatePipelineLayout_result_2 example_native_all_failing)] = Some (VK_RESULT_OTHER (- 2))"
    by (simp add: first_failure_def example_native_all_failing_def)
  have f8: "first_failure
      [fst (vkAllocateDescriptorSets_result_1 example_native_all_failing),
       fst (vkAllocateDescriptorSets_result_2 example_native_all_failing)] =
      Some (VK_RESULT_OTHER (- 1000069000))"
    by (simp add: first_failure_def example_native_all_failing_def)
  have f9: "first_failure
      [fst (vkCreateGraphicsPipelines_result_1 example_native_all_failing),
       fst (vkCreateGraphicsPipelines_result_2 example_native_all_failing)] = Some (VK_RESULT_OTHER (- 1))"
    by (simp add: first_failure_def example_native_all_failing_def)
  have f10: "first_failure
      (recording_results example_native_all_failing (length (draw_cmd_buffers example_prepared))) =
      Some (VK_RESULT_OTHER (- 2))"
    by (simp add: first_failure_def recording_results_def example_native_all_failing_def c upt_rec)
  have h: "fst (base_prepare example_framework example_object)"
    "snd (base_prepare example_framework example_object) = example_object"
    by (simp_all add: example_framework_def)
  have n: "setup_succeeds example_native"
    by (simp add: setup_succeeds_def example_native_def)
  from prepare_returns [of example_framework example_object example_native] h n
  obtain sp cs where p: "prepare example_framework example_native example_object = Inr ((True, sp), cs)"
    by auto
  note t = errors_surface_through_check_or_throw
    [where gpu = example_gpu_without_tessellation
       and ?e0.0 = "VulkanException VK_ERROR_FEATURE_NOT_PRESENT
                   ''Selected GPU does not support tessellation shaders!''"
       and fw = example_framework and nv = example_native_all_failing
       and ?s1.0 = example_object and ?e1.0 = "VK_CHECK_failed (VK_RESULT_OTHER (- 1))"
       and ?s2.0 = example_prepared and ?e2.0 = "VK_CHECK_failed (VK_RESULT_OTHER (- 4))"
       and delta_time = 0 and ?s3.0 = example_prepared
       and ?e3.0 = "VK_CHECK_failed (VK_RESULT_OTHER (- 4))"
       and ?s4.0 = example_object and ?e4.0 = Undefined_behaviour
       and drawer = example_drawer and ?s5.0 = example_object and ?e5.0 = Undefined_behaviour
       and ?s6.0 = example_prepared and ?r6.0 = "VK_RESULT_OTHER (- 1)"
       and ?s7.0 = example_prepared and ?r7.0 = "VK_RESULT_OTHER (- 2)"
       and ?s8.0 = example_prepared and ?r8.0 = "VK_RESULT_OTHER (- 1000069000)"
       and ?s9.0 = example_prepared and ?r9.0 = "VK_RESULT_OTHER (- 1)"
       and ?s10.0 = example_prepared and ?r10.0 = "VK_RESULT_OTHER (- 2)"
       and nv' = example_native and ?s11.0 = example_object and sp = sp and cs = cs]
  from t g q i have d: "draw example_framework example_native_all_failing example_prepared =
      Inl (VK_CHECK_failed (VK_RESULT_OTHER (- 4)))"
    by simp
  have r: "render example_framework example_native_all_failing 0 example_prepared =
      Inl (VK_CHECK_failed (VK_RESULT_OTHER (- 4)))"
    by (simp add: render_def d) (simp add: example_prepared_def)
  from t f6 have p6: "create_descriptor_pool example_native_all_failing example_prepared =
      Inl (VK_CHECK_failed (VK_RESULT_OTHER (- 1)))" by simp
  from t f7 have p7: "setup_descriptor_set_layout example_native_all_failing example_prepared =
      Inl (VK_CHECK_failed (VK_RESULT_OTHER (- 2)))" by simp
  from t f8 buffers_allocated_example_prepared
  have p8: "create_descriptor_sets example_native_all_failing example_prepared =
      Inl (VK_CHECK_failed (VK_RESULT_OTHER (- 1000069000)))" by simp
  from t f9 have p9: "create_pipelines example_native_all_failing example_prepared =
      Inl (VK_CHECK_failed (VK_RESULT_OTHER (- 1)))" by simp
  from t f10 c have p10: "build_command_buffers example_native_all_failing example_prepared =
      Inl (VK_CHECK_failed (VK_RESULT_OTHER (- 2)))" by simp
  from t p have p11: "setup_succeeds example_native \<and>
      first_failure (recording_results example_native (length (draw_cmd_buffers sp))) = None"
    by simp
  have pf: "prepare example_framework example_native_all_failing example_object =
      Inl (VK_CHECK_failed (VK_RESULT_OTHER (- 1)))"
  proof -
    obtain s' cs' where "prepare_uniform_buffers
        (example_object\<lparr>camera := (camera example_object)\<lparr>camera_type := LookAt\<rparr>,
                         models_terrain_one := load_model ''scenes/terrain.gltf'',
                         models_terrain_two := load_model ''scenes/terrain.gltf''\<rparr>) = Inr (s', cs')"
      using prepare_uniform_buffers_returns by blast
    then show ?thesis
      by (simp add: prepare_def example_framework_def Let_def load_assets_returns
            create_descriptor_pool_fails [OF f6])
  qed
  from t g have "fst (request_gpu_features example_gpu_without_tessellation) \<noteq> None" by simp
  then obtain e where e: "fst (request_gpu_features example_gpu_without_tessellation) = Some e" by auto
  with errors_surface_through_check_or_throw [where gpu = example_gpu_without_tessellation and ?e0.0 = e]
  have "e = VulkanException VK_ERROR_FEATURE_NOT_PRESENT
              ''Selected GPU does not support tessellation shaders!''" by simp
  with e g d r pf u o p6 p7 p8 p9 p10 f10 c buffers_allocated_example_prepared
  have main: "\<not> tessellationShader (features example_gpu_without_tessellation) \<and>
   fst (request_gpu_features example_gpu_without_tessellation) =
     Some (VulkanException VK_ERROR_FEATURE_NOT_PRESENT
             ''Selected GPU does not support tessellation shaders!'') \<and>
   prepare example_framework example_native_all_failing example_object =
     Inl (VK_CHECK_failed (VK_RESULT_OTHER (- 1))) \<and>
   draw example_framework example_native_all_failing example_prepared =
     Inl (VK_CHECK_failed (VK_RESULT_OTHER (- 4))) \<and>
   render example_framework example_native_all_failing 0 example_prepared =
     Inl (VK_CHECK_failed (VK_RESULT_OTHER (- 4))) \<and>
   update_uniform_buffers example_object = Inl Undefined_behaviour \<and>
   on_update_ui_overlay example_drawer example_object = Inl Undefined_behaviour \<and>
   from_VK_CHECK (VK_CHECK_failed (VK_RESULT_OTHER (- 1))) \<and>
   from_VK_CHECK (VK_CHECK_failed (VK_RESULT_OTHER (- 4))) \<and>
   create_descriptor_pool example_native_all_failing example_prepared =
     Inl (VK_CHECK_failed (VK_RESULT_OTHER (- 1))) \<and>
   setup_descriptor_set_layout example_native_all_failing example_prepared =
     Inl (VK_CHECK_failed (VK_RESULT_OTHER (- 2))) \<and>
   buffers_allocated example_prepared \<and>
   create_descriptor_sets example_native_all_failing example_prepared =
     Inl (VK_CHECK_failed (VK_RESULT_OTHER (- 1000069000))) \<and>
   create_pipelines example_native_all_failing example_prepared =
     Inl (VK_CHECK_failed (VK_RESULT_OTHER (- 1))) \<and>
   length (draw_cmd_buffers example_prepared) \<le> length (framebuffers example_prepared) \<and>
   first_failure (recording_results example_native_all_failing (length (draw_cmd_buffers example_prepared))) =
     Some (VK_RESULT_OTHER (- 2)) \<and>
   build_command_buffers example_native_all_failing example_prepared =
     Inl (VK_CHECK_failed (VK_RESULT_OTHER (- 2)))"
    by simp
  from p p11 have "\<exists>sp cs. prepare example_framework example_native example_object = Inr ((True, sp), cs) \<and>
      setup_succeeds example_native \<and>
      first_failure (recording_results example_native (length (draw_cmd_buffers sp))) = None"
    by blast
  with main show ?thesis by blast
qed


subsection \<open>The two extensions\<close>

text \<open>
  C1, as the code has it. The constructor registers
  \<open>VK_EXT_EXTENDED_DYNAMIC_STATE_2\<close> and \<open>VK_EXT_EXTENDED_DYNAMIC_STATE\<close> as device
  extensions; \<^verbatim>\<open>request_gpu_features\<close> sets \<open>extendedDynamicState2\<close>,
  \<open>extendedDynamicState2PatchControlPoints\<close> and \<open>extendedDynamicState\<close> to true on the
  device; every iteration of the recording loop records, of the dynamic state commands of the
  two extensions, the primitive topology command and the primitive restart enable command,
  twice each: once, in this order, before each of the two draws of the terrain, after the draw
  before it; and no patch control points command.
\<close>

theorem extensions_registered_requested_and_recorded:
  "snd (PatchControlPoints base) =
     [Add_instance_extension VK_KHR_GET_PHYSICAL_DEVICE_PROPERTIES_2_EXTENSION_NAME,
      Add_device_extension VK_EXT_EXTENDED_DYNAMIC_STATE_2_EXTENSION_NAME,
      Add_device_extension VK_EXT_EXTENDED_DYNAMIC_STATE_EXTENSION_NAME] \<and>
   extendedDynamicState2 (extended_dynamic_state2_features (fst (snd (request_gpu_features gpu)))) \<and>
   extendedDynamicState2PatchControlPoints
     (extended_dynamic_state2_features (fst (snd (request_gpu_features gpu)))) \<and>
   extendedDynamicState (extended_dynamic_state_features (fst (snd (request_gpu_features gpu)))) \<and>
   (recording_succeeds nv s \<longrightarrow>
      (\<exists>s'. build_command_buffers nv s =
              Inr (s', Invoke ''build_command_buffers'' #
                       concat (map (\<lambda>i. iteration_calls s (draw_cmd_buffers s ! i) (framebuffers s ! i))
                                 [0..<length (draw_cmd_buffers s)])))) \<and>
   filter is_extension_command (fst (record_commands s fb)) =
     [CmdSetPrimitiveTopologyEXT VK_PRIMITIVE_TOPOLOGY_PATCH_LIST, CmdSetPrimitiveRestartEnableEXT True,
      CmdSetPrimitiveTopologyEXT VK_PRIMITIVE_TOPOLOGY_PATCH_LIST, CmdSetPrimitiveRestartEnableEXT True] \<and>
   \<not> list_ex is_patch_control_points (fst (record_commands s fb)) \<and>
   extension_commands_before_draws [] (fst (record_commands s fb)) =
     [[CmdSetPrimitiveTopologyEXT VK_PRIMITIVE_TOPOLOGY_PATCH_LIST, CmdSetPrimitiveRestartEnableEXT True],
      [CmdSetPrimitiveTopologyEXT VK_PRIMITIVE_TOPOLOGY_PATCH_LIST, CmdSetPrimitiveRestartEnableEXT True]]"
proof (intro conjI impI)
  show "snd (PatchControlPoints base) =
     [Add_instance_extension VK_KHR_GET_PHYSICAL_DEVICE_PROPERTIES_2_EXTENSION_NAME,
      Add_device_extension VK_EXT_EXTENDED_DYNAMIC_STATE_2_EXTENSION_NAME,
      Add_device_extension VK_EXT_EXTENDED_DYNAMIC_STATE_EXTENSION_NAME]"
    by (simp add: PatchControlPoints_def)
  show "extendedDynamicState2 (extended_dynamic_state2_features (fst (snd (request_gpu_features gpu))))"
    by (simp add: request_gpu_features_def Let_def)
  show "extendedDynamicState2PatchControlPoints
          (extended_dynamic_state2_features (fst (snd (request_gpu_features gpu))))"
    by (simp add: request_gpu_features_def Let_def)
  show "extendedDynamicState (extended_dynamic_state_features (fst (snd (request_gpu_features gpu))))"
    by (simp add: request_gpu_features_def Let_def)
  show "filter is_extension_command (fst (record_commands s fb)) =
     [CmdSetPrimitiveTopologyEXT VK_PRIMITIVE_TOPOLOGY_PATCH_LIST, CmdSetPrimitiveRestartEnableEXT True,
      CmdSetPrimitiveTopologyEXT VK_PRIMITIVE_TOPOLOGY_PATCH_LIST, CmdSetPrimitiveRestartEnableEXT True]"
    by (simp add: record_commands_def Let_def)
  show "\<not> list_ex is_patch_control_points (fst (record_commands s fb))"
    by (simp add: record_commands_def Let_def)
  show "extension_commands_before_draws [] (fst (record_commands s fb)) =
     [[CmdSetPrimitiveTopologyEXT VK_PRIMITIVE_TOPOLOGY_PATCH_LIST, CmdSetPrimitiveRestartEnableEXT True],
      [CmdSetPrimitiveTopologyEXT VK_PRIMITIVE_TOPOLOGY_PATCH_LIST, CmdSetPrimitiveRestartEnableEXT True]]"
    by (simp add: record_commands_def Let_def)
next
  assume "recording_succeeds nv s"
  from build_command_buffers_returns [OF this] obtain d' where
    r: "build_command_buffers nv s =
          Inr (s\<lparr>push_const_block_direction := d'\<rparr>,
               Invoke ''build_command_buffers'' #
               concat (map (\<lambda>k. iteration_calls s (draw_cmd_buffers s ! k) (framebuffers s ! k))
                         [0..<length (draw_cmd_buffers s)]))" ..
  then show "\<exists>s'. build_command_buffers nv s =
              Inr (s', Invoke ''build_command_buffers'' #
                       concat (map (\<lambda>i. iteration_calls s (draw_cmd_buffers s ! i) (framebuffers s ! i))
                                 [0..<length (draw_cmd_buffers s)]))"
    by (intro exI [of _ "s\<lparr>push_const_block_direction := d'\<rparr>"])
qed

theorem extensions_registered_requested_and_recorded_witness:
  "recording_succeeds example_native example_prepared \<and>
   (\<exists>s'. build_command_buffers example_native example_prepared =
           Inr (s', Invoke ''build_command_buffers'' #
                    iteration_calls example_prepared 20 10 @ iteration_calls example_prepared 21 11)) \<and>
   filter is_extension_command (fst (record_commands example_prepared 10)) =
     [CmdSetPrimitiveTopologyEXT VK_PRIMITIVE_TOPOLOGY_PATCH_LIST, CmdSetPrimitiveRestartEnableEXT True,
      CmdSetPrimitiveTopologyEXT VK_PRIMITIVE_TOPOLOGY_PATCH_LIST, CmdSetPrimitiveRestartEnableEXT True] \<and>
   extension_commands_before_draws [] (fst (record_commands example_prepared 10)) =
     [[CmdSetPrimitiveTopologyEXT VK_PRIMITIVE_TOPOLOGY_PATCH_LIST, CmdSetPrimitiveRestartEnableEXT True],
      [CmdSetPrimitiveTopologyEXT VK_PRIMITIVE_TOPOLOGY_PATCH_LIST, CmdSetPrimitiveRestartEnableEXT True]] \<and>
   extendedDynamicState2PatchControlPoints
     (extended_dynamic_state2_features (fst (snd (request_gpu_features example_gpu))))"
proof -
  have c: "draw_cmd_buffers example_prepared = [20, 21]" "framebuffers example_prepared = [10, 11]"
    by (simp_all add: example_prepared_def example_object_def)
  have u: "[0..<length [20, 21 :: nat]] = [0, 1]"
    by (simp add: upt_rec)
  from extensions_registered_requested_and_recorded
    [of example_object example_gpu example_native example_prepared 10]
  show ?thesis
    by (simp add: c u)
qed

text \<open>
  C1 as stated fails: the call of \<^verbatim>\<open>vkCmdSetPatchControlPointsEXT\<close> is commented out, and a
  run of \<^verbatim>\<open>build_command_buffers\<close> that records two command buffers records no patch control
  points command.
\<close>

theorem patch_control_points_command_counterexample:
  "returned (build_command_buffers example_native example_prepared) \<and>
   Record 20 Draw_ui \<in> set (calls_of (build_command_buffers example_native example_prepared)) \<and>
   Record 21 Draw_ui \<in> set (calls_of (build_command_buffers example_native example_prepared)) \<and>
   \<not> list_ex records_patch_control_points
        (calls_of (build_command_buffers example_native example_prepared))"
proof -
  from build_command_buffers_returns [OF recording_succeeds_example(1)] obtain d' where
    r: "build_command_buffers example_native example_prepared =
          Inr (example_prepared\<lparr>push_const_block_direction := d'\<rparr>,
               Invoke ''build_command_buffers'' #
               concat (map (\<lambda>k. iteration_calls example_prepared (draw_cmd_buffers example_prepared ! k)
                                  (framebuffers example_prepared ! k))
                         [0..<length (draw_cmd_buffers example_prepared)]))" ..
  have c: "draw_cmd_buffers example_prepared = [20, 21]" "framebuffers example_prepared = [10, 11]"
    by (simp_all add: example_prepared_def example_object_def)
  have u: "[0..<length [20, 21 :: nat]] = [0, 1]"
    by (simp add: upt_rec)
  have n: "\<not> list_ex records_patch_control_points
             (calls_of (build_command_buffers example_native example_prepared))"
    by (simp add: r list_ex_concat_map iteration_calls_no_patch_control_points)
  have m: "Record 20 Draw_ui \<in> set (calls_of (build_command_buffers example_native example_prepared))"
    "Record 21 Draw_ui \<in> set (calls_of (build_command_buffers example_native example_prepared))"
    by (simp_all add: r c u iteration_calls_def record_commands_def Let_def)
  from n m show ?thesis
    by (simp add: r)
qed

end
